theory Spec2Isabelle
  imports Complex_Main "HOL-Library.Product_Lexorder" "HOL-Library.Multiset"
begin

section \<open>Data model\<close>

text \<open>
  The handlers of the property-management application are embedded as pure functions
  that take the request's inputs and the database and return the JSON response together
  with the database after the request. A table is the list of its rows in storage order;
  the identity, time and external services a handler consults are explicit arguments.
  A string is the list of its code units, so \<open>length\<close> is the \<open>.length\<close> of the source.
\<close>

type_synonym ident = string
type_synonym timestamp = nat
type_synonym number = rat

datatype role = TENANT | LANDLORD | ADMIN

datatype maintenance_status =
  SUBMITTED | ACKNOWLEDGED | IN_PROGRESS | ON_HOLD | COMPLETED | CANCELLED

datatype maintenance_priority = LOW | MEDIUM | HIGH | EMERGENCY

datatype maintenance_category =
  PLUMBING | ELECTRICAL | HVAC | APPLIANCE | STRUCTURAL | PEST_CONTROL
  | LANDSCAPING | CLEANING | SECURITY | OTHER

datatype unit_status = VACANT | OCCUPIED | UNDER_MAINTENANCE | RESERVED

datatype lease_status =
  DRAFT | PENDING_SIGNATURE | ACTIVE | EXPIRED | TERMINATED | RENEWED

text \<open>The text a status has inside a template literal.\<close>

fun status_text :: "maintenance_status \<Rightarrow> string" where
  "status_text SUBMITTED = ''SUBMITTED''"
| "status_text ACKNOWLEDGED = ''ACKNOWLEDGED''"
| "status_text IN_PROGRESS = ''IN_PROGRESS''"
| "status_text ON_HOLD = ''ON_HOLD''"
| "status_text COMPLETED = ''COMPLETED''"
| "status_text CANCELLED = ''CANCELLED''"

text \<open>
  A JavaScript \<open>Date\<close> built from a string is either a point in time or the invalid
  date; the ORM refuses to store the invalid date.
\<close>

datatype jsdate = InvalidDate | Date timestamp

record session_user =
  su_id :: ident
  su_role :: role

record property =
  p_id :: ident
  p_ownerId :: ident
  p_totalUnits :: int

record rental_unit =
  u_id :: ident
  u_propertyId :: ident
  u_status :: unit_status
  u_monthlyRent :: number
  u_depositAmount :: number

record lease =
  l_id :: ident
  l_tenantId :: ident
  l_unitId :: ident
  l_status :: lease_status
  l_startDate :: timestamp
  l_endDate :: timestamp
  l_monthlyRent :: number
  l_depositAmount :: number
  l_rentDueDay :: nat
  l_gracePeriodDays :: nat
  l_tenantSignature :: "string option"
  l_tenantSignedAt :: "timestamp option"
  l_tenantSignedIp :: "string option"
  l_moveInDate :: "timestamp option"

record maintenance_request =
  mr_id :: ident
  mr_tenantId :: ident
  mr_unitId :: ident
  mr_title :: string
  mr_description :: string
  mr_category :: maintenance_category
  mr_priority :: maintenance_priority
  mr_entryPermission :: bool
  mr_preferredTimes :: "string option"
  mr_photoUrls :: "string list"
  mr_status :: maintenance_status
  mr_assignedToId :: "ident option"
  mr_scheduledDate :: "timestamp option"
  mr_scheduledTimeSlot :: "string option"
  mr_estimatedCost :: "number option"
  mr_actualCost :: "number option"
  mr_vendorName :: "string option"
  mr_vendorPhone :: "string option"
  mr_resolutionNotes :: "string option"
  mr_acknowledgedAt :: "timestamp option"
  mr_completedAt :: "timestamp option"
  mr_createdAt :: timestamp

record maintenance_update =
  mu_id :: ident
  mu_requestId :: ident
  mu_previousStatus :: maintenance_status
  mu_newStatus :: maintenance_status
  mu_message :: string
  mu_isPublic :: bool
  mu_photoUrls :: "string list"
  mu_createdBy :: ident
  mu_createdAt :: timestamp

datatype user_status = USER_ACTIVE | USER_INACTIVE | USER_PENDING | USER_SUSPENDED

datatype payment_status =
  PENDING | PROCESSING | PAYMENT_COMPLETED | FAILED | REFUNDED | PAYMENT_CANCELLED

datatype payment_method =
  ACH | DEBIT_CARD | CREDIT_CARD | CASHIER_CHECK | CASH | OTHER_METHOD

datatype payment_type =
  RENT | DEPOSIT | LATE_FEE | UTILITY | MAINTENANCE | OTHER_TYPE

record user =
  usr_id :: ident
  usr_email :: string
  usr_firstName :: string
  usr_lastName :: string
  usr_phone :: "string option"
  usr_dateOfBirth :: "timestamp option"
  usr_ssnEncrypted :: "string option"
  usr_emergencyContactName :: "string option"
  usr_emergencyContactPhone :: "string option"
  usr_emergencyContactRelation :: "string option"
  usr_status :: user_status
  usr_stripeCustomerId :: "string option"

record payment =
  pay_id :: ident
  pay_userId :: ident
  pay_leaseId :: ident
  pay_type :: payment_type
  pay_method :: payment_method
  pay_status :: payment_status
  pay_amount :: number
  pay_totalAmount :: number
  pay_dueDate :: timestamp
  pay_periodStart :: "timestamp option"
  pay_periodEnd :: "timestamp option"
  pay_notes :: "string option"
  pay_stripePaymentIntentId :: "string option"

record audit_log =
  al_userId :: ident
  al_action :: string
  al_entityType :: string
  al_entityId :: ident
  al_ipAddress :: string
  al_newValues :: "(string \<times> string) list"

text \<open>What a handler reads from outside the request: the clock and the row id the
  database hands out for the next insert.\<close>

record env =
  now :: timestamp
  newId :: ident

text \<open>The JSON body of a response with its HTTP status.\<close>

record 'a response =
  status :: nat
  success :: bool
  error :: "string option"
  message :: "string option"
  data :: "'a option"

definition json_error :: "nat \<Rightarrow> string \<Rightarrow> 'a response" where
  "json_error st msg =
     \<lparr>status = st, success = False, error = Some msg, message = None, data = None\<rparr>"

definition json_data :: "nat \<Rightarrow> 'a \<Rightarrow> string option \<Rightarrow> 'a response" where
  "json_data st d msg =
     \<lparr>status = st, success = True, error = None, message = msg, data = Some d\<rparr>"

text \<open>
  What \<open>request.json()\<close> followed by \<open>schema.safeParse\<close> gives a handler: the body
  is not JSON (the call throws), the schema rejects it (the message of the first issue
  is all the handler reads), or the typed data of the schema.
\<close>

datatype 'a body = MalformedJson | SchemaError string | Parsed 'a

section \<open>The database\<close>

record db =
  users :: "user list"
  properties :: "property list"
  units :: "rental_unit list"
  leases :: "lease list"
  payments :: "payment list"
  maintenanceRequests :: "maintenance_request list"
  maintenanceUpdates :: "maintenance_update list"
  auditLogs :: "audit_log list"

text \<open>\<open>findUnique({ where: { id } })\<close> on each table.\<close>

definition findProperty :: "ident \<Rightarrow> db \<Rightarrow> property option" where
  "findProperty i d = find (\<lambda>p. p_id p = i) (properties d)"

definition findUser :: "ident \<Rightarrow> db \<Rightarrow> user option" where
  "findUser i d = find (\<lambda>u. usr_id u = i) (users d)"

definition findLease :: "ident \<Rightarrow> db \<Rightarrow> lease option" where
  "findLease i d = find (\<lambda>l. l_id l = i) (leases d)"

definition findUnit :: "ident \<Rightarrow> db \<Rightarrow> rental_unit option" where
  "findUnit i d = find (\<lambda>u. u_id u = i) (units d)"

definition findMaintenanceRequest :: "ident \<Rightarrow> db \<Rightarrow> maintenance_request option" where
  "findMaintenanceRequest i d = find (\<lambda>r. mr_id r = i) (maintenanceRequests d)"

text \<open>
  \<open>existingRequest.unit.property.ownerId\<close>: the owner reached through the two
  required relations. Reading through a relation that is absent throws, which the
  handlers turn into their 500 response; here that is \<open>None\<close>.
\<close>

definition requestOwnerId :: "db \<Rightarrow> maintenance_request \<Rightarrow> ident option" where
  "requestOwnerId d r =
     (case findUnit (mr_unitId r) d of
        None \<Rightarrow> None
      | Some u \<Rightarrow> map_option p_ownerId (findProperty (u_propertyId u) d))"

text \<open>\<open>orderBy: { createdAt: 'desc' }\<close> on the update log.\<close>

definition orderByCreatedAtDesc :: "maintenance_update list \<Rightarrow> maintenance_update list" where
  "orderByCreatedAtDesc us = rev (sort_key mu_createdAt us)"

definition updatesOf :: "db \<Rightarrow> ident \<Rightarrow> maintenance_update list" where
  "updatesOf d i = filter (\<lambda>u. mu_requestId u = i) (maintenanceUpdates d)"

text \<open>A maintenance request as a read returns it: the row and the included updates.\<close>

record maintenance_view =
  mv_request :: maintenance_request
  mv_updates :: "maintenance_update list"

section \<open>Landlord: one maintenance request\<close>

text \<open>\<open>GET /api/landlord/maintenance/[id]\<close>\<close>

definition landlord_maintenance_id_GET ::
  "session_user option \<Rightarrow> ident \<Rightarrow> db \<Rightarrow> maintenance_view response" where
  "landlord_maintenance_id_GET session pid d =
     (case session of
        None \<Rightarrow> json_error 401 ''Unauthorized''
      | Some user \<Rightarrow>
          (case findMaintenanceRequest pid d of
             None \<Rightarrow> json_error 404 ''Maintenance request not found''
           | Some maintenanceRequest \<Rightarrow>
               (case requestOwnerId d maintenanceRequest of
                  None \<Rightarrow> json_error 500 ''Failed to fetch maintenance request''
                | Some ownerId \<Rightarrow>
                    if ownerId \<noteq> su_id user \<and> su_role user \<noteq> ADMIN
                    then json_error 403 ''Forbidden''
                    else json_data 200
                      \<lparr>mv_request = maintenanceRequest,
                       mv_updates = orderByCreatedAtDesc (updatesOf d pid)\<rparr> None)))"

text \<open>The typed data of \<open>updateMaintenanceRequestSchema\<close>; an optional key that is
  absent is \<open>None\<close>.\<close>

record update_input =
  ui_status :: "maintenance_status option"
  ui_priority :: "maintenance_priority option"
  ui_assignedToId :: "string option"
  ui_scheduledDate :: "string option"
  ui_scheduledTimeSlot :: "string option"
  ui_estimatedCost :: "number option"
  ui_actualCost :: "number option"
  ui_vendorName :: "string option"
  ui_vendorPhone :: "string option"
  ui_resolutionNotes :: "string option"

text \<open>Truthiness of an optional string: absent and empty are both falsy.\<close>

fun truthy :: "string option \<Rightarrow> bool" where
  "truthy None = False"
| "truthy (Some s) = (s \<noteq> [])"

text \<open>The \<open>updateData\<close> object of the PUT handler: a key that was not assigned is
  \<open>None\<close>; \<open>assignedToId\<close> may be assigned \<open>null\<close>.\<close>

record update_data =
  ud_status :: "maintenance_status option"
  ud_priority :: "maintenance_priority option"
  ud_assignedToId :: "ident option option"
  ud_scheduledDate :: "jsdate option"
  ud_scheduledTimeSlot :: "string option"
  ud_estimatedCost :: "number option"
  ud_actualCost :: "number option"
  ud_vendorName :: "string option"
  ud_vendorPhone :: "string option"
  ud_resolutionNotes :: "string option"
  ud_acknowledgedAt :: "timestamp option"
  ud_completedAt :: "timestamp option"

definition keep :: "string option \<Rightarrow> string option" where
  "keep s = (if truthy s then s else None)"

definition buildUpdateData ::
  "(string \<Rightarrow> jsdate) \<Rightarrow> timestamp \<Rightarrow> maintenance_request \<Rightarrow> update_input \<Rightarrow> update_data" where
  "buildUpdateData newDate t existingRequest inp =
     \<lparr>ud_status = ui_status inp,
      ud_priority = ui_priority inp,
      ud_assignedToId =
        (case ui_assignedToId inp of
           None \<Rightarrow> None
         | Some a \<Rightarrow> Some (if a \<noteq> [] then Some a else None)),
      ud_scheduledDate =
        (if truthy (ui_scheduledDate inp)
         then map_option newDate (ui_scheduledDate inp) else None),
      ud_scheduledTimeSlot = keep (ui_scheduledTimeSlot inp),
      ud_estimatedCost = ui_estimatedCost inp,
      ud_actualCost = ui_actualCost inp,
      ud_vendorName = keep (ui_vendorName inp),
      ud_vendorPhone = keep (ui_vendorPhone inp),
      ud_resolutionNotes = keep (ui_resolutionNotes inp),
      ud_acknowledgedAt =
        (if ui_status inp = Some ACKNOWLEDGED \<and> mr_acknowledgedAt existingRequest = None
         then Some t else None),
      ud_completedAt =
        (if ui_status inp = Some COMPLETED \<and> mr_completedAt existingRequest = None
         then Some t else None)\<rparr>"

definition orElse :: "'a option \<Rightarrow> 'a \<Rightarrow> 'a" where
  "orElse x y = (case x of None \<Rightarrow> y | Some v \<Rightarrow> v)"

definition orKeep :: "'a option \<Rightarrow> 'a option \<Rightarrow> 'a option" where
  "orKeep x y = (case x of None \<Rightarrow> y | Some v \<Rightarrow> Some v)"

text \<open>The row after \<open>update({ data: updateData })\<close>: assigned keys are written, the
  others keep their value.\<close>

definition applyUpdateData :: "update_data \<Rightarrow> maintenance_request \<Rightarrow> maintenance_request" where
  "applyUpdateData u r =
     r\<lparr>mr_status := orElse (ud_status u) (mr_status r),
       mr_priority := orElse (ud_priority u) (mr_priority r),
       mr_assignedToId := orElse (ud_assignedToId u) (mr_assignedToId r),
       mr_scheduledDate :=
         (case ud_scheduledDate u of Some (Date t) \<Rightarrow> Some t | _ \<Rightarrow> mr_scheduledDate r),
       mr_scheduledTimeSlot := orKeep (ud_scheduledTimeSlot u) (mr_scheduledTimeSlot r),
       mr_estimatedCost := orKeep (ud_estimatedCost u) (mr_estimatedCost r),
       mr_actualCost := orKeep (ud_actualCost u) (mr_actualCost r),
       mr_vendorName := orKeep (ud_vendorName u) (mr_vendorName r),
       mr_vendorPhone := orKeep (ud_vendorPhone u) (mr_vendorPhone r),
       mr_resolutionNotes := orKeep (ud_resolutionNotes u) (mr_resolutionNotes r),
       mr_acknowledgedAt := orKeep (ud_acknowledgedAt u) (mr_acknowledgedAt r),
       mr_completedAt := orKeep (ud_completedAt u) (mr_completedAt r)\<rparr>"

text \<open>\<open>tx.maintenanceRequest.update({ where: { id }, data })\<close>: throws (\<open>None\<close>) on an
  invalid date and when no row has the id; otherwise the updated row and the table.\<close>

definition maintenanceRequest_update ::
  "ident \<Rightarrow> update_data \<Rightarrow> db \<Rightarrow> (maintenance_request \<times> db) option" where
  "maintenanceRequest_update i u d =
     (if ud_scheduledDate u = Some InvalidDate then None
      else case findMaintenanceRequest i d of
        None \<Rightarrow> None
      | Some r \<Rightarrow>
          Some (applyUpdateData u r,
                d\<lparr>maintenanceRequests :=
                    map (\<lambda>x. if mr_id x = i then applyUpdateData u x else x)
                      (maintenanceRequests d)\<rparr>))"

definition maintenanceUpdate_create :: "maintenance_update \<Rightarrow> db \<Rightarrow> db" where
  "maintenanceUpdate_create row d = d\<lparr>maintenanceUpdates := maintenanceUpdates d @ [row]\<rparr>"

text \<open>The template literal of the PUT handler's log row.\<close>

definition statusChangeMessage :: "maintenance_status \<Rightarrow> maintenance_status \<Rightarrow> string" where
  "statusChangeMessage prev new =
     ''Status changed from '' @ status_text prev @ '' to '' @ status_text new"

text \<open>The log row the PUT handler creates when the status changed.\<close>

definition statusLogRow ::
  "env \<Rightarrow> session_user \<Rightarrow> ident \<Rightarrow> maintenance_request \<Rightarrow> maintenance_status
     \<Rightarrow> maintenance_update" where
  "statusLogRow e user pid existingRequest newStatus =
     \<lparr>mu_id = newId e,
      mu_requestId = pid,
      mu_previousStatus = mr_status existingRequest,
      mu_newStatus = newStatus,
      mu_message = statusChangeMessage (mr_status existingRequest) newStatus,
      mu_isPublic = True,
      mu_photoUrls = [],
      mu_createdBy = su_id user,
      mu_createdAt = now e\<rparr>"

text \<open>\<open>PUT /api/landlord/maintenance/[id]\<close>. The update and the log row are one
  transaction: when the update throws, nothing is written.\<close>

definition landlord_maintenance_id_PUT ::
  "env \<Rightarrow> (string \<Rightarrow> jsdate) \<Rightarrow> session_user option \<Rightarrow> ident \<Rightarrow> update_input body \<Rightarrow> db
     \<Rightarrow> maintenance_request response \<times> db" where
  "landlord_maintenance_id_PUT e newDate session pid body d =
     (case session of
        None \<Rightarrow> (json_error 401 ''Unauthorized'', d)
      | Some user \<Rightarrow>
          (case findMaintenanceRequest pid d of
             None \<Rightarrow> (json_error 404 ''Maintenance request not found'', d)
           | Some existingRequest \<Rightarrow>
               (case requestOwnerId d existingRequest of
                  None \<Rightarrow> (json_error 500 ''Failed to update maintenance request'', d)
                | Some ownerId \<Rightarrow>
                    if ownerId \<noteq> su_id user \<and> su_role user \<noteq> ADMIN
                    then (json_error 403 ''Forbidden'', d)
                    else
                      (case body of
                         MalformedJson \<Rightarrow>
                           (json_error 500 ''Failed to update maintenance request'', d)
                       | SchemaError msg \<Rightarrow> (json_error 400 msg, d)
                       | Parsed inp \<Rightarrow>
                           (let statusChanged =
                                  (case ui_status inp of
                                     None \<Rightarrow> False
                                   | Some s \<Rightarrow> s \<noteq> mr_status existingRequest);
                                updateData = buildUpdateData newDate (now e) existingRequest inp
                            in case maintenanceRequest_update pid updateData d of
                                 None \<Rightarrow>
                                   (json_error 500 ''Failed to update maintenance request'', d)
                               | Some (updated, d1) \<Rightarrow>
                                   (json_data 200 updated
                                      (Some ''Maintenance request updated successfully''),
                                    case ui_status inp of
                                      None \<Rightarrow> d1
                                    | Some newStatus \<Rightarrow>
                                        if statusChanged
                                        then maintenanceUpdate_create
                                          (statusLogRow e user pid existingRequest newStatus) d1
                                        else d1))))))"

text \<open>The typed data of \<open>addMaintenanceUpdateSchema\<close>; \<open>isPublic\<close> and
  \<open>photoUrls\<close> have defaults, so they are always present.\<close>

record add_update_input =
  au_message :: string
  au_newStatus :: "maintenance_status option"
  au_isPublic :: bool
  au_photoUrls :: "string list"

text \<open>The row the POST handler creates, and its write to the request: the status and,
  decided on the request as read before the transaction, the two timestamps.\<close>

definition newUpdateRow ::
  "env \<Rightarrow> session_user \<Rightarrow> ident \<Rightarrow> maintenance_request \<Rightarrow> add_update_input
     \<Rightarrow> maintenance_update" where
  "newUpdateRow e user pid existingRequest inp =
     \<lparr>mu_id = newId e,
      mu_requestId = pid,
      mu_previousStatus = mr_status existingRequest,
      mu_newStatus = orElse (au_newStatus inp) (mr_status existingRequest),
      mu_message = au_message inp,
      mu_isPublic = au_isPublic inp,
      mu_photoUrls = au_photoUrls inp,
      mu_createdBy = su_id user,
      mu_createdAt = now e\<rparr>"

definition statusWrite ::
  "env \<Rightarrow> maintenance_request \<Rightarrow> maintenance_status \<Rightarrow> maintenance_request
     \<Rightarrow> maintenance_request" where
  "statusWrite e existingRequest s x =
     x\<lparr>mr_status := s,
       mr_acknowledgedAt :=
         (if s = ACKNOWLEDGED \<and> mr_acknowledgedAt existingRequest = None
          then Some (now e) else mr_acknowledgedAt x),
       mr_completedAt :=
         (if s = COMPLETED \<and> mr_completedAt existingRequest = None
          then Some (now e) else mr_completedAt x)\<rparr>"

text \<open>\<open>POST /api/landlord/maintenance/[id]\<close>: the update row is always created; the
  request is written only when a different status is given.\<close>

definition landlord_maintenance_id_POST ::
  "env \<Rightarrow> session_user option \<Rightarrow> ident \<Rightarrow> add_update_input body \<Rightarrow> db
     \<Rightarrow> maintenance_update response \<times> db" where
  "landlord_maintenance_id_POST e session pid body d =
     (case session of
        None \<Rightarrow> (json_error 401 ''Unauthorized'', d)
      | Some user \<Rightarrow>
          (case findMaintenanceRequest pid d of
             None \<Rightarrow> (json_error 404 ''Maintenance request not found'', d)
           | Some existingRequest \<Rightarrow>
               (case requestOwnerId d existingRequest of
                  None \<Rightarrow> (json_error 500 ''Failed to add update'', d)
                | Some ownerId \<Rightarrow>
                    if ownerId \<noteq> su_id user \<and> su_role user \<noteq> ADMIN
                    then (json_error 403 ''Forbidden'', d)
                    else
                      (case body of
                         MalformedJson \<Rightarrow> (json_error 500 ''Failed to add update'', d)
                       | SchemaError msg \<Rightarrow> (json_error 400 msg, d)
                       | Parsed inp \<Rightarrow>
                           (let newUpdate = newUpdateRow e user pid existingRequest inp;
                                d1 = maintenanceUpdate_create newUpdate d;
                                d2 =
                                  (case au_newStatus inp of
                                     None \<Rightarrow> d1
                                   | Some s \<Rightarrow>
                                       if s \<noteq> mr_status existingRequest
                                       then d1\<lparr>maintenanceRequests :=
                                          map (\<lambda>x. if mr_id x = pid
                                                 then statusWrite e existingRequest s x else x)
                                            (maintenanceRequests d1)\<rparr>
                                       else d1)
                            in (json_data 201 newUpdate (Some ''Update added successfully''),
                                d2))))))"

section \<open>Landlord: the list of maintenance requests\<close>

text \<open>A truthy query parameter naming a value of an enum column; a string that names
  none makes the query throw.\<close>

fun parse_status :: "string \<Rightarrow> maintenance_status option" where
  "parse_status s =
     (if s = ''SUBMITTED'' then Some SUBMITTED
      else if s = ''ACKNOWLEDGED'' then Some ACKNOWLEDGED
      else if s = ''IN_PROGRESS'' then Some IN_PROGRESS
      else if s = ''ON_HOLD'' then Some ON_HOLD
      else if s = ''COMPLETED'' then Some COMPLETED
      else if s = ''CANCELLED'' then Some CANCELLED
      else None)"

fun parse_priority :: "string \<Rightarrow> maintenance_priority option" where
  "parse_priority s =
     (if s = ''LOW'' then Some LOW
      else if s = ''MEDIUM'' then Some MEDIUM
      else if s = ''HIGH'' then Some HIGH
      else if s = ''EMERGENCY'' then Some EMERGENCY
      else None)"

text \<open>A filter from a query parameter: no filter when the parameter is falsy, the
  parsed value otherwise; \<open>None\<close> when the value names no member of the enum.\<close>

definition enumFilter :: "(string \<Rightarrow> 'a option) \<Rightarrow> string option \<Rightarrow> ('a \<Rightarrow> bool) option" where
  "enumFilter parse q =
     (if truthy q
      then (case Option.bind q parse of None \<Rightarrow> None | Some v \<Rightarrow> Some (\<lambda>x. x = v))
      else Some (\<lambda>x. True))"

text \<open>The position of a priority in the order of the enum column. The schema that
  declares the enum is not among the sources; the order of the validator's list is taken.\<close>

fun priorityRank :: "maintenance_priority \<Rightarrow> nat" where
  "priorityRank LOW = 0"
| "priorityRank MEDIUM = 1"
| "priorityRank HIGH = 2"
| "priorityRank EMERGENCY = 3"

text \<open>\<open>GET /api/landlord/maintenance\<close>: the requests under the caller's properties,
  each with its five most recent updates.\<close>

definition landlord_maintenance_GET ::
  "session_user option \<Rightarrow> string option \<Rightarrow> string option \<Rightarrow> string option \<Rightarrow> db
     \<Rightarrow> maintenance_view list response" where
  "landlord_maintenance_GET session status_q priority_q propertyId_q d =
     (case session of
        None \<Rightarrow> json_error 401 ''Unauthorized''
      | Some user \<Rightarrow>
          if su_role user \<noteq> LANDLORD \<and> su_role user \<noteq> ADMIN
          then json_error 403 ''Forbidden''
          else
            (case (enumFilter parse_status status_q, enumFilter parse_priority priority_q) of
               (Some statusOk, Some priorityOk) \<Rightarrow>
                 (let requests =
                        filter (\<lambda>r. requestOwnerId d r = Some (su_id user)
                                  \<and> statusOk (mr_status r)
                                  \<and> priorityOk (mr_priority r)
                                  \<and> (truthy propertyId_q \<longrightarrow>
                                       map_option u_propertyId (findUnit (mr_unitId r) d)
                                         = propertyId_q))
                          (maintenanceRequests d);
                      ordered =
                        rev (sort_key (\<lambda>r. (priorityRank (mr_priority r), mr_createdAt r))
                               requests)
                  in json_data 200
                       (map (\<lambda>r. \<lparr>mv_request = r,
                                   mv_updates =
                                     take 5 (orderByCreatedAtDesc (updatesOf d (mr_id r)))\<rparr>)
                          ordered)
                       None)
             | _ \<Rightarrow> json_error 500 ''Failed to fetch maintenance requests''))"

section \<open>Tenant: reading maintenance requests\<close>

text \<open>\<open>GET /api/tenant/maintenance/[id]\<close>\<close>

definition tenant_maintenance_id_GET ::
  "session_user option \<Rightarrow> ident \<Rightarrow> db \<Rightarrow> maintenance_view response" where
  "tenant_maintenance_id_GET session pid d =
     (case session of
        None \<Rightarrow> json_error 401 ''Unauthorized''
      | Some user \<Rightarrow>
          (case findMaintenanceRequest pid d of
             None \<Rightarrow> json_error 404 ''Maintenance request not found''
           | Some maintenanceRequest \<Rightarrow>
               if mr_tenantId maintenanceRequest \<noteq> su_id user
               then json_error 403 ''Forbidden''
               else json_data 200
                 \<lparr>mv_request = maintenanceRequest,
                  mv_updates =
                    orderByCreatedAtDesc (filter mu_isPublic (updatesOf d pid))\<rparr> None))"

text \<open>\<open>GET /api/tenant/maintenance\<close>: the caller's requests, each with its three most
  recent public updates.\<close>

definition tenant_maintenance_GET ::
  "session_user option \<Rightarrow> string option \<Rightarrow> db \<Rightarrow> maintenance_view list response" where
  "tenant_maintenance_GET session status_q d =
     (case session of
        None \<Rightarrow> json_error 401 ''Unauthorized''
      | Some user \<Rightarrow>
          (case enumFilter parse_status status_q of
             None \<Rightarrow> json_error 500 ''Failed to fetch maintenance requests''
           | Some statusOk \<Rightarrow>
               (let requests =
                      filter (\<lambda>r. mr_tenantId r = su_id user \<and> statusOk (mr_status r))
                        (maintenanceRequests d)
                in json_data 200
                     (map (\<lambda>r. \<lparr>mv_request = r,
                                 mv_updates =
                                   take 3 (orderByCreatedAtDesc
                                     (filter mu_isPublic (updatesOf d (mr_id r))))\<rparr>)
                        (rev (sort_key mr_createdAt requests)))
                     None)))"

section \<open>Tenant: creating a maintenance request\<close>

text \<open>
  The request body as \<open>request.json()\<close> returns it. A key that occurs twice has the
  value of its last occurrence; a key that does not occur is \<open>undefined\<close>.

  The schema is built from the parsers of the validation library, which is not part of
  the repository. They are modelled as the library (version 3) behaves on JSON values:
  an object parses all its keys in the order the schema lists them and collects the
  issues in that order; a string runs all its checks; a message given in the schema
  replaces the library's default message.
\<close>

datatype json =
  JNull | JBool bool | JNumber number | JString string
  | JArray "json list" | JObject "(string \<times> json) list"

definition jsonMember :: "(string \<times> json) list \<Rightarrow> string \<Rightarrow> json option" where
  "jsonMember kvs k = map_of (rev kvs) k"

text \<open>The name the validation library gives the type of a value in its messages.\<close>

fun parsedType :: "json option \<Rightarrow> string" where
  "parsedType None = ''undefined''"
| "parsedType (Some JNull) = ''null''"
| "parsedType (Some (JBool _)) = ''boolean''"
| "parsedType (Some (JNumber _)) = ''number''"
| "parsedType (Some (JString _)) = ''string''"
| "parsedType (Some (JArray _)) = ''array''"
| "parsedType (Some (JObject _)) = ''object''"

text \<open>The outcome of one schema on one value: the issues it raised, in order, or the
  parsed value.\<close>

datatype 'a parsed = Invalid "string list" | Valid 'a

fun issues :: "'a parsed \<Rightarrow> string list" where
  "issues (Invalid ms) = ms"
| "issues (Valid _) = []"

text \<open>The library's default messages.\<close>

definition invalid_type :: "string \<Rightarrow> json option \<Rightarrow> string" where
  "invalid_type expected v =
     (if v = None then ''Required''
      else ''Expected '' @ expected @ '', received '' @ parsedType v)"

definition too_big :: "string \<Rightarrow> string" where
  "too_big n = ''String must contain at most '' @ n @ '' character(s)''"

definition quoted :: "string \<Rightarrow> string" where
  "quoted s = [CHR 0x27] @ s @ [CHR 0x27]"

fun joinValues :: "string list \<Rightarrow> string" where
  "joinValues [] = []"
| "joinValues [v] = quoted v"
| "joinValues (v # vs) = quoted v @ '' | '' @ joinValues vs"

definition invalid_enum_value :: "string list \<Rightarrow> string \<Rightarrow> string" where
  "invalid_enum_value options received =
     ''Invalid enum value. Expected '' @ joinValues options @ '', received '' @ quoted received"

text \<open>\<open>z.string().min(lo, minMessage).max(hi)\<close>; \<open>lo = 0\<close> stands for no lower bound.\<close>

definition zString :: "nat \<Rightarrow> string \<Rightarrow> nat \<Rightarrow> string \<Rightarrow> json option \<Rightarrow> string parsed" where
  "zString lo minMessage hi hiText v =
     (case v of
        Some (JString s) \<Rightarrow>
          (let ms = (if length s < lo then [minMessage] else [])
                    @ (if hi < length s then [too_big hiText] else [])
           in if ms = [] then Valid s else Invalid ms)
      | _ \<Rightarrow> Invalid [invalid_type ''string'' v])"

text \<open>\<open>z.enum(values)\<close> read through \<open>parse\<close>, with the schema's own error map when it
  has one: the map replaces the message of every issue.\<close>

definition zEnum ::
  "string list \<Rightarrow> (string \<Rightarrow> 'a option) \<Rightarrow> string option \<Rightarrow> json option \<Rightarrow> 'a parsed" where
  "zEnum values parse errorMap v =
     (case v of
        Some (JString s) \<Rightarrow>
          (case parse s of
             Some x \<Rightarrow> Valid x
           | None \<Rightarrow> Invalid [orElse errorMap (invalid_enum_value values s)])
      | _ \<Rightarrow> Invalid [orElse errorMap (invalid_type (joinValues values) v)])"

definition zBoolean :: "json option \<Rightarrow> bool parsed" where
  "zBoolean v =
     (case v of Some (JBool b) \<Rightarrow> Valid b | _ \<Rightarrow> Invalid [invalid_type ''boolean'' v])"

text \<open>\<open>.optional()\<close> lets \<open>undefined\<close> through; \<open>.optional().default(x)\<close> replaces
  \<open>undefined\<close> by \<open>x\<close>.\<close>

definition zOptional :: "(json option \<Rightarrow> 'a parsed) \<Rightarrow> json option \<Rightarrow> 'a option parsed" where
  "zOptional inner v =
     (case v of
        None \<Rightarrow> Valid None
      | Some _ \<Rightarrow> (case inner v of Invalid ms \<Rightarrow> Invalid ms | Valid x \<Rightarrow> Valid (Some x)))"

definition zDefault :: "'a \<Rightarrow> (json option \<Rightarrow> 'a parsed) \<Rightarrow> json option \<Rightarrow> 'a parsed" where
  "zDefault x inner v = (case v of None \<Rightarrow> Valid x | Some _ \<Rightarrow> inner v)"

text \<open>\<open>z.string().url()\<close>; whether a string is a URL is decided by the platform's
  \<open>URL\<close> constructor, here \<open>isUrl\<close>.\<close>

definition zUrl :: "(string \<Rightarrow> bool) \<Rightarrow> json option \<Rightarrow> string parsed" where
  "zUrl isUrl v =
     (case v of
        Some (JString s) \<Rightarrow> if isUrl s then Valid s else Invalid [''Invalid url'']
      | _ \<Rightarrow> Invalid [invalid_type ''string'' v])"

text \<open>\<open>z.array(element)\<close>: every element is parsed and every issue is kept.\<close>

fun collect :: "'a parsed list \<Rightarrow> 'a list parsed" where
  "collect [] = Valid []"
| "collect (p # ps) =
     (case (p, collect ps) of
        (Valid x, Valid xs) \<Rightarrow> Valid (x # xs)
      | (_, rest) \<Rightarrow> Invalid (issues p @ issues rest))"

definition zArray :: "(json option \<Rightarrow> 'a parsed) \<Rightarrow> json option \<Rightarrow> 'a list parsed" where
  "zArray element v =
     (case v of
        Some (JArray xs) \<Rightarrow> collect (map (\<lambda>x. element (Some x)) xs)
      | _ \<Rightarrow> Invalid [invalid_type ''array'' v])"

text \<open>One key of \<open>z.object\<close>: when the key is invalid the object is, and the issues of
  the later keys follow this key's.\<close>

definition field :: "'a parsed \<Rightarrow> string list \<Rightarrow> ('a \<Rightarrow> 'b parsed) \<Rightarrow> 'b parsed" where
  "field p later k =
     (case p of
        Invalid ms \<Rightarrow> Invalid (ms @ later)
      | Valid x \<Rightarrow> k x)"

definition maintenanceStatuses :: "string list" where
  "maintenanceStatuses =
     [''SUBMITTED'', ''ACKNOWLEDGED'', ''IN_PROGRESS'', ''ON_HOLD'', ''COMPLETED'', ''CANCELLED'']"

definition maintenancePriorities :: "string list" where
  "maintenancePriorities = [''LOW'', ''MEDIUM'', ''HIGH'', ''EMERGENCY'']"

definition maintenanceCategories :: "string list" where
  "maintenanceCategories =
     [''PLUMBING'', ''ELECTRICAL'', ''HVAC'', ''APPLIANCE'', ''STRUCTURAL'', ''PEST_CONTROL'',
      ''LANDSCAPING'', ''CLEANING'', ''SECURITY'', ''OTHER'']"

fun parse_category :: "string \<Rightarrow> maintenance_category option" where
  "parse_category s =
     (if s = ''PLUMBING'' then Some PLUMBING
      else if s = ''ELECTRICAL'' then Some ELECTRICAL
      else if s = ''HVAC'' then Some HVAC
      else if s = ''APPLIANCE'' then Some APPLIANCE
      else if s = ''STRUCTURAL'' then Some STRUCTURAL
      else if s = ''PEST_CONTROL'' then Some PEST_CONTROL
      else if s = ''LANDSCAPING'' then Some LANDSCAPING
      else if s = ''CLEANING'' then Some CLEANING
      else if s = ''SECURITY'' then Some SECURITY
      else if s = ''OTHER'' then Some OTHER
      else None)"

record create_input =
  ci_title :: string
  ci_description :: string
  ci_category :: maintenance_category
  ci_priority :: maintenance_priority
  ci_entryPermission :: bool
  ci_preferredTimes :: "string option"
  ci_photoUrls :: "string list"

text \<open>\<open>createMaintenanceRequestSchema.safeParse(body)\<close>: the keys are parsed in the
  order the schema lists them; keys the schema does not list are dropped.\<close>

definition createMaintenanceRequestSchema :: "(string \<Rightarrow> bool) \<Rightarrow> json \<Rightarrow> create_input parsed" where
  "createMaintenanceRequestSchema isUrl body =
     (case body of
        JObject kvs \<Rightarrow>
          (let title = zString 1 ''Title is required'' 200 ''200'' (jsonMember kvs ''title'');
               description =
                 zString 10 ''Please provide a detailed description'' 2000 ''2000''
                   (jsonMember kvs ''description'');
               category =
                 zEnum maintenanceCategories parse_category (Some ''Please select a category'')
                   (jsonMember kvs ''category'');
               priority =
                 zDefault MEDIUM (zEnum maintenancePriorities parse_priority None)
                   (jsonMember kvs ''priority'');
               entryPermission = zDefault False zBoolean (jsonMember kvs ''entryPermission'');
               preferredTimes =
                 zOptional (zString 0 [] 500 ''500'') (jsonMember kvs ''preferredTimes'');
               photoUrls = zDefault [] (zArray (zUrl isUrl)) (jsonMember kvs ''photoUrls'')
           in field title
                (issues description @ issues category @ issues priority
                   @ issues entryPermission @ issues preferredTimes @ issues photoUrls)
             (\<lambda>t. field description
                (issues category @ issues priority @ issues entryPermission
                   @ issues preferredTimes @ issues photoUrls)
             (\<lambda>ds. field category
                (issues priority @ issues entryPermission @ issues preferredTimes
                   @ issues photoUrls)
             (\<lambda>c. field priority
                (issues entryPermission @ issues preferredTimes @ issues photoUrls)
             (\<lambda>p. field entryPermission (issues preferredTimes @ issues photoUrls)
             (\<lambda>ep. field preferredTimes (issues photoUrls)
             (\<lambda>pt. field photoUrls []
             (\<lambda>ph. Valid
                \<lparr>ci_title = t, ci_description = ds, ci_category = c, ci_priority = p,
                 ci_entryPermission = ep, ci_preferredTimes = pt, ci_photoUrls = ph\<rparr>))))))))
      | _ \<Rightarrow> Invalid [invalid_type ''object'' (Some body)])"

text \<open>\<open>findFirst({ where: { tenantId, status: 'ACTIVE' } })\<close> on the leases.\<close>

definition findActiveLease :: "ident \<Rightarrow> db \<Rightarrow> lease option" where
  "findActiveLease tenant d =
     find (\<lambda>l. l_tenantId l = tenant \<and> l_status l = ACTIVE) (leases d)"

text \<open>The row of \<open>prisma.maintenanceRequest.create\<close>; the columns the handler does not
  give are empty.\<close>

definition submittedRequest ::
  "env \<Rightarrow> ident \<Rightarrow> lease \<Rightarrow> create_input \<Rightarrow> maintenance_request" where
  "submittedRequest e uid activeLease inp =
     \<lparr>mr_id = newId e,
      mr_tenantId = uid,
      mr_unitId = l_unitId activeLease,
      mr_title = ci_title inp,
      mr_description = ci_description inp,
      mr_category = ci_category inp,
      mr_priority = ci_priority inp,
      mr_entryPermission = ci_entryPermission inp,
      mr_preferredTimes = ci_preferredTimes inp,
      mr_photoUrls = ci_photoUrls inp,
      mr_status = SUBMITTED,
      mr_assignedToId = None,
      mr_scheduledDate = None,
      mr_scheduledTimeSlot = None,
      mr_estimatedCost = None,
      mr_actualCost = None,
      mr_vendorName = None,
      mr_vendorPhone = None,
      mr_resolutionNotes = None,
      mr_acknowledgedAt = None,
      mr_completedAt = None,
      mr_createdAt = now e\<rparr>"

text \<open>\<open>POST /api/tenant/maintenance\<close>; a body that is not JSON is \<open>None\<close>.\<close>

definition tenant_maintenance_POST ::
  "env \<Rightarrow> (string \<Rightarrow> bool) \<Rightarrow> session_user option \<Rightarrow> json option \<Rightarrow> db
     \<Rightarrow> maintenance_request response \<times> db" where
  "tenant_maintenance_POST e isUrl session body d =
     (case session of
        None \<Rightarrow> (json_error 401 ''Unauthorized'', d)
      | Some user \<Rightarrow>
          (case body of
             None \<Rightarrow> (json_error 500 ''Failed to create maintenance request'', d)
           | Some b \<Rightarrow>
               (case createMaintenanceRequestSchema isUrl b of
                  Invalid errors \<Rightarrow>
                    (case errors of
                       [] \<Rightarrow> (json_error 500 ''Failed to create maintenance request'', d)
                     | m # _ \<Rightarrow> (json_error 400 m, d))
                | Valid inp \<Rightarrow>
                    (case findActiveLease (su_id user) d of
                       None \<Rightarrow> (json_error 400 ''No active lease found'', d)
                     | Some activeLease \<Rightarrow>
                         (let maintenanceRequest =
                                submittedRequest e (su_id user) activeLease inp
                          in (json_data 201 maintenanceRequest
                                (Some ''Maintenance request submitted successfully''),
                              d\<lparr>maintenanceRequests :=
                                  maintenanceRequests d @ [maintenanceRequest]\<rparr>))))))"

section \<open>Landlord: deleting a unit or a property\<close>

text \<open>The filter of the \<open>leases\<close> relation in both handlers:
  \<open>status: { in: ['ACTIVE', 'PENDING_SIGNATURE'] }\<close>.\<close>

definition activeLeasesOf :: "db \<Rightarrow> ident \<Rightarrow> lease list" where
  "activeLeasesOf d unitId =
     filter (\<lambda>l. l_unitId l = unitId \<and> (l_status l = ACTIVE \<or> l_status l = PENDING_SIGNATURE))
       (leases d)"

definition verifyOwnership :: "ident \<Rightarrow> ident \<Rightarrow> role \<Rightarrow> db \<Rightarrow> (string \<times> nat) + property" where
  "verifyOwnership propertyId userId r d =
     (case findProperty propertyId d of
        None \<Rightarrow> Inl (''Property not found'', 404)
      | Some p \<Rightarrow>
          if p_ownerId p \<noteq> userId \<and> r \<noteq> ADMIN then Inl (''Forbidden'', 403) else Inr p)"

text \<open>
  \<open>DELETE /api/landlord/properties/[id]/units/[unitId]\<close>. The unit's row is removed
  and the property's unit count decremented; what the schema does to rows that refer
  to the unit is not in the sources and is left out.
\<close>

definition unit_DELETE ::
  "session_user option \<Rightarrow> ident \<Rightarrow> ident \<Rightarrow> db \<Rightarrow> Product_Type.unit response \<times> db" where
  "unit_DELETE session pid unitId d =
     (case session of
        None \<Rightarrow> (json_error 401 ''Unauthorized'', d)
      | Some user \<Rightarrow>
          (case verifyOwnership pid (su_id user) (su_role user) d of
             Inl (msg, st) \<Rightarrow> (json_error st msg, d)
           | Inr _ \<Rightarrow>
               (case findUnit unitId d of
                  None \<Rightarrow> (json_error 404 ''Unit not found'', d)
                | Some existingUnit \<Rightarrow>
                    if u_propertyId existingUnit \<noteq> pid
                    then (json_error 400 ''Unit does not belong to this property'', d)
                    else if length (activeLeasesOf d unitId) > 0
                    then (json_error 400
                      ''Cannot delete unit with active leases. Please terminate the lease first.'',
                      d)
                    else
                      (\<lparr>status = 200, success = True, error = None,
                        message = Some ''Unit deleted successfully'', data = None\<rparr>,
                       d\<lparr>units := filter (\<lambda>u. u_id u \<noteq> unitId) (units d),
                         properties :=
                           map (\<lambda>p. if p_id p = pid
                                  then p\<lparr>p_totalUnits := p_totalUnits p - 1\<rparr> else p)
                             (properties d)\<rparr>))))"

text \<open>\<open>DELETE /api/landlord/properties/[id]\<close>; the delete cascades to the property's
  units, as the handler's comment says.\<close>

definition property_DELETE ::
  "session_user option \<Rightarrow> ident \<Rightarrow> db \<Rightarrow> Product_Type.unit response \<times> db" where
  "property_DELETE session pid d =
     (case session of
        None \<Rightarrow> (json_error 401 ''Unauthorized'', d)
      | Some user \<Rightarrow>
          (case findProperty pid d of
             None \<Rightarrow> (json_error 404 ''Property not found'', d)
           | Some existingProperty \<Rightarrow>
               if p_ownerId existingProperty \<noteq> su_id user \<and> su_role user \<noteq> ADMIN
               then (json_error 403 ''Forbidden'', d)
               else
                 (let propertyUnits = filter (\<lambda>u. u_propertyId u = pid) (units d);
                      hasActiveLeases =
                        list_ex (\<lambda>u. length (activeLeasesOf d (u_id u)) > 0) propertyUnits
                  in if hasActiveLeases
                     then (json_error 400
                       ''Cannot delete property with active leases. Please terminate all leases first.'',
                       d)
                     else
                       (\<lparr>status = 200, success = True, error = None,
                         message = Some ''Property deleted successfully'', data = None\<rparr>,
                        d\<lparr>properties := filter (\<lambda>p. p_id p \<noteq> pid) (properties d),
                          units := filter (\<lambda>u. u_propertyId u \<noteq> pid) (units d)\<rparr>))))"

section \<open>Onboarding submission\<close>

datatype lease_term = Term6 | Term12 | Term18 | Term24

text \<open>\<open>data.leaseTerm\<close> as the string it is, and \<open>parseInt\<close> of it.\<close>

fun leaseTerm_text :: "lease_term \<Rightarrow> string" where
  "leaseTerm_text Term6 = ''6''"
| "leaseTerm_text Term12 = ''12''"
| "leaseTerm_text Term18 = ''18''"
| "leaseTerm_text Term24 = ''24''"

fun leaseMonths :: "lease_term \<Rightarrow> nat" where
  "leaseMonths Term6 = 6"
| "leaseMonths Term12 = 12"
| "leaseMonths Term18 = 18"
| "leaseMonths Term24 = 24"

text \<open>The keys of \<open>completeOnboardingSchema\<close>'s data that the handler reads (the
  employment keys and \<open>email\<close> are validated and not read).\<close>

record onboarding_input =
  ob_firstName :: string
  ob_lastName :: string
  ob_phone :: string
  ob_dateOfBirth :: string
  ob_ssnLast4 :: string
  ob_emergencyContactName :: string
  ob_emergencyContactPhone :: string
  ob_emergencyContactRelation :: string
  ob_unitId :: ident
  ob_moveInDate :: string
  ob_leaseTerm :: lease_term
  ob_signature :: string

text \<open>The library functions the handler calls: \<open>new Date(string)\<close>, \<open>addMonths\<close> of
  date-fns (which keeps an invalid date invalid) and the AES cipher behind \<open>encrypt\<close>.\<close>

record platform =
  newDate :: "string \<Rightarrow> jsdate"
  addMonthsValid :: "timestamp \<Rightarrow> nat \<Rightarrow> timestamp"
  aes :: "string \<Rightarrow> string"

definition addMonths :: "platform \<Rightarrow> jsdate \<Rightarrow> nat \<Rightarrow> jsdate" where
  "addMonths pf dt n = (case dt of InvalidDate \<Rightarrow> InvalidDate | Date t \<Rightarrow> Date (addMonthsValid pf t n))"

definition encrypt :: "platform \<Rightarrow> string \<Rightarrow> string" where
  "encrypt pf txt = (if txt = [] then [] else aes pf txt)"

text \<open>\<open>forwardedFor.split(',')[0].trim()\<close>, or \<open>'unknown'\<close> without the header.\<close>

definition isSpace :: "char \<Rightarrow> bool" where
  "isSpace c \<longleftrightarrow>
     c \<in> set [CHR '' '', CHR 0x09, CHR 0x0A, CHR 0x0B, CHR 0x0C, CHR 0x0D, CHR 0xA0]"

definition trim :: "string \<Rightarrow> string" where
  "trim s = rev (dropWhile isSpace (rev (dropWhile isSpace s)))"

definition clientIpOf :: "string option \<Rightarrow> string" where
  "clientIpOf forwardedFor =
     (case forwardedFor of
        None \<Rightarrow> ''unknown''
      | Some h \<Rightarrow> if h = [] then ''unknown'' else trim (takeWhile (\<lambda>c. c \<noteq> CHR '','') h))"

text \<open>The four writes of the transaction. Each is \<open>None\<close> when the ORM throws: an
  update of a row that does not exist, or a date that is invalid.\<close>

definition onboardedUser :: "platform \<Rightarrow> onboarding_input \<Rightarrow> timestamp \<Rightarrow> user \<Rightarrow> user" where
  "onboardedUser pf inp dob u =
     u\<lparr>usr_firstName := ob_firstName inp,
       usr_lastName := ob_lastName inp,
       usr_phone := Some (ob_phone inp),
       usr_dateOfBirth := Some dob,
       usr_ssnEncrypted := Some (encrypt pf (ob_ssnLast4 inp)),
       usr_emergencyContactName := Some (ob_emergencyContactName inp),
       usr_emergencyContactPhone := Some (ob_emergencyContactPhone inp),
       usr_emergencyContactRelation := Some (ob_emergencyContactRelation inp),
       usr_status := USER_ACTIVE\<rparr>"

definition user_update_onboarding ::
  "platform \<Rightarrow> ident \<Rightarrow> onboarding_input \<Rightarrow> db \<Rightarrow> db option" where
  "user_update_onboarding pf uid inp d =
     (case (findUser uid d, newDate pf (ob_dateOfBirth inp)) of
        (Some _, Date dob) \<Rightarrow>
          Some (d\<lparr>users :=
            map (\<lambda>u. if usr_id u = uid then onboardedUser pf inp dob u else u) (users d)\<rparr>)
      | _ \<Rightarrow> None)"

definition onboardingLease ::
  "env \<Rightarrow> ident \<Rightarrow> onboarding_input \<Rightarrow> rental_unit \<Rightarrow> timestamp \<Rightarrow> timestamp \<Rightarrow> string \<Rightarrow> lease" where
  "onboardingLease e uid inp u start end clientIp =
     \<lparr>l_id = newId e,
      l_tenantId = uid,
      l_unitId = ob_unitId inp,
      l_status = PENDING_SIGNATURE,
      l_startDate = start,
      l_endDate = end,
      l_monthlyRent = u_monthlyRent u,
      l_depositAmount = u_depositAmount u,
      l_rentDueDay = 1,
      l_gracePeriodDays = 5,
      l_tenantSignature = Some (ob_signature inp),
      l_tenantSignedAt = Some (now e),
      l_tenantSignedIp = Some clientIp,
      l_moveInDate = Some start\<rparr>"

definition lease_create_onboarding ::
  "env \<Rightarrow> ident \<Rightarrow> onboarding_input \<Rightarrow> rental_unit \<Rightarrow> jsdate \<Rightarrow> jsdate \<Rightarrow> string \<Rightarrow> db
     \<Rightarrow> (lease \<times> db) option" where
  "lease_create_onboarding e uid inp u startDate endDate clientIp d =
     (case (startDate, endDate) of
        (Date start, Date end) \<Rightarrow>
          (let newLease = onboardingLease e uid inp u start end clientIp
           in Some (newLease, d\<lparr>leases := leases d @ [newLease]\<rparr>))
      | _ \<Rightarrow> None)"

definition unit_update_status :: "ident \<Rightarrow> unit_status \<Rightarrow> db \<Rightarrow> db option" where
  "unit_update_status i st d =
     (case findUnit i d of
        None \<Rightarrow> None
      | Some _ \<Rightarrow>
          Some (d\<lparr>units := map (\<lambda>u. if u_id u = i then u\<lparr>u_status := st\<rparr> else u) (units d)\<rparr>))"

definition auditLog_create :: "audit_log \<Rightarrow> db \<Rightarrow> db" where
  "auditLog_create row d = d\<lparr>auditLogs := auditLogs d @ [row]\<rparr>"

definition onboardingAudit :: "ident \<Rightarrow> onboarding_input \<Rightarrow> lease \<Rightarrow> string \<Rightarrow> audit_log" where
  "onboardingAudit uid inp newLease clientIp =
     \<lparr>al_userId = uid,
      al_action = ''TENANT_ONBOARDING_COMPLETED'',
      al_entityType = ''Lease'',
      al_entityId = l_id newLease,
      al_ipAddress = clientIp,
      al_newValues =
        [(''unitId'', ob_unitId inp), (''leaseId'', l_id newLease),
         (''moveInDate'', ob_moveInDate inp),
         (''leaseTerm'', leaseTerm_text (ob_leaseTerm inp))]\<rparr>"

definition onboarding_transaction ::
  "env \<Rightarrow> platform \<Rightarrow> ident \<Rightarrow> onboarding_input \<Rightarrow> rental_unit \<Rightarrow> string \<Rightarrow> db
     \<Rightarrow> (lease \<times> db) option" where
  "onboarding_transaction e pf uid inp u clientIp d =
     (let startDate = newDate pf (ob_moveInDate inp);
          endDate = addMonths pf startDate (leaseMonths (ob_leaseTerm inp))
      in case user_update_onboarding pf uid inp d of
           None \<Rightarrow> None
         | Some d1 \<Rightarrow>
             (case lease_create_onboarding e uid inp u startDate endDate clientIp d1 of
                None \<Rightarrow> None
              | Some (newLease, d2) \<Rightarrow>
                  (case unit_update_status (ob_unitId inp) RESERVED d2 of
                     None \<Rightarrow> None
                   | Some d3 \<Rightarrow>
                       Some (newLease,
                         auditLog_create (onboardingAudit uid inp newLease clientIp) d3))))"

text \<open>\<open>POST /api/onboarding/submit\<close>. The response's data is the new lease's id and a
  message. A transaction that throws is rolled back: the database is as before.\<close>

definition onboarding_submit_POST ::
  "env \<Rightarrow> platform \<Rightarrow> session_user option \<Rightarrow> string option \<Rightarrow> onboarding_input body \<Rightarrow> db
     \<Rightarrow> (ident \<times> string) response \<times> db" where
  "onboarding_submit_POST e pf session forwardedFor body d =
     (case session of
        None \<Rightarrow> (json_error 401 ''Unauthorized'', d)
      | Some user \<Rightarrow>
          (case body of
             MalformedJson \<Rightarrow> (json_error 500 ''Failed to submit application'', d)
           | SchemaError msg \<Rightarrow> (json_error 400 msg, d)
           | Parsed inp \<Rightarrow>
               (case findUnit (ob_unitId inp) d of
                  None \<Rightarrow> (json_error 404 ''Unit not found'', d)
                | Some u \<Rightarrow>
                    if u_status u \<noteq> VACANT
                    then (json_error 409 ''This unit is no longer available'', d)
                    else
                      (case onboarding_transaction e pf (su_id user) inp u
                              (clientIpOf forwardedFor) d of
                         None \<Rightarrow> (json_error 500 ''Failed to submit application'', d)
                       | Some (newLease, d') \<Rightarrow>
                           (json_data 201
                              (l_id newLease,
                               ''Application submitted successfully. Awaiting landlord approval.'')
                              None,
                            d')))))"

section \<open>Tenant: creating a payment\<close>

text \<open>The payment gateway. A call that throws is \<open>None\<close>.\<close>

record stripe_customer =
  sc_id :: string
  sc_deleted :: bool

record payment_intent =
  pin_id :: string
  pin_client_secret :: "string option"

record intent_params =
  ip_amount :: int
  ip_currency :: string
  ip_customer :: string
  ip_metadata :: "(string \<times> string) list"
  ip_automatic_payment_methods :: bool
  ip_payment_method :: "string option"
  ip_confirm :: bool
  ip_return_url :: "string option"

record stripe =
  customers_retrieve :: "string \<Rightarrow> stripe_customer option"
  customers_create :: "string \<Rightarrow> string \<Rightarrow> (string \<times> string) list \<Rightarrow> stripe_customer option"
  paymentIntents_create :: "intent_params \<Rightarrow> payment_intent option"

definition createStripeCustomer ::
  "stripe \<Rightarrow> string \<Rightarrow> string \<Rightarrow> (string \<times> string) list \<Rightarrow> stripe_customer option" where
  "createStripeCustomer gw email name metadata = customers_create gw email name metadata"

definition getOrCreateStripeCustomer ::
  "stripe \<Rightarrow> ident \<Rightarrow> string \<Rightarrow> string \<Rightarrow> string option \<Rightarrow> stripe_customer option" where
  "getOrCreateStripeCustomer gw userId email name existingCustomerId =
     (let create = createStripeCustomer gw email name [(''userId'', userId)]
      in if truthy existingCustomerId
         then (case Option.bind existingCustomerId (customers_retrieve gw) of
                 Some customer \<Rightarrow> if \<not> sc_deleted customer then Some customer else create
               | None \<Rightarrow> create)
         else create)"

text \<open>\<open>createPaymentIntent\<close>. The amount in cents is \<open>Math.round(amount * 100)\<close>, a product
  and a rounding of double-precision numbers; that arithmetic is the argument
  \<open>roundCents\<close>, the function from the amount to the integer the runtime computes.\<close>

definition createPaymentIntent ::
  "stripe \<Rightarrow> (number \<Rightarrow> int) \<Rightarrow> string \<Rightarrow> number \<Rightarrow> string \<Rightarrow> string option
     \<Rightarrow> (string \<times> string) list \<Rightarrow> payment_intent option" where
  "createPaymentIntent gw roundCents baseUrl amount customerId paymentMethodId metadata =
     paymentIntents_create gw
       \<lparr>ip_amount = roundCents amount,
        ip_currency = ''usd'',
        ip_customer = customerId,
        ip_metadata = metadata,
        ip_automatic_payment_methods = True,
        ip_payment_method = (if truthy paymentMethodId then paymentMethodId else None),
        ip_confirm = truthy paymentMethodId,
        ip_return_url =
          (if truthy paymentMethodId then Some (baseUrl @ ''/tenant/payments/confirm'')
           else None)\<rparr>"

fun paymentType_text :: "payment_type \<Rightarrow> string" where
  "paymentType_text RENT = ''RENT''"
| "paymentType_text DEPOSIT = ''DEPOSIT''"
| "paymentType_text LATE_FEE = ''LATE_FEE''"
| "paymentType_text UTILITY = ''UTILITY''"
| "paymentType_text MAINTENANCE = ''MAINTENANCE''"
| "paymentType_text OTHER_TYPE = ''OTHER''"

text \<open>The typed data of \<open>createPaymentSchema\<close>.\<close>

record payment_input =
  pi_leaseId :: ident
  pi_type :: payment_type
  pi_method :: payment_method
  pi_amount :: number
  pi_periodStart :: "string option"
  pi_periodEnd :: "string option"
  pi_notes :: "string option"

text \<open>\<open>data.periodStart ? new Date(data.periodStart) : undefined\<close>: the column's value,
  or \<open>None\<close> when the date is invalid and the insert throws.\<close>

definition optionalDate :: "(string \<Rightarrow> jsdate) \<Rightarrow> string option \<Rightarrow> timestamp option option" where
  "optionalDate mk s =
     (if truthy s
      then (case map_option mk s of Some (Date t) \<Rightarrow> Some (Some t) | _ \<Rightarrow> None)
      else Some None)"

text \<open>The row of \<open>prisma.payment.create\<close>.\<close>

definition pendingPayment ::
  "env \<Rightarrow> ident \<Rightarrow> payment_input \<Rightarrow> timestamp option \<Rightarrow> timestamp option \<Rightarrow> payment_intent
     \<Rightarrow> payment" where
  "pendingPayment e uid inp periodStart periodEnd paymentIntent =
     \<lparr>pay_id = newId e,
      pay_userId = uid,
      pay_leaseId = pi_leaseId inp,
      pay_type = pi_type inp,
      pay_method = pi_method inp,
      pay_status = PENDING,
      pay_amount = pi_amount inp,
      pay_totalAmount = pi_amount inp,
      pay_dueDate = now e,
      pay_periodStart = periodStart,
      pay_periodEnd = periodEnd,
      pay_notes = pi_notes inp,
      pay_stripePaymentIntentId = Some (pin_id paymentIntent)\<rparr>"

text \<open>\<open>POST /api/tenant/payments\<close>. The response's data is the payment row and the
  client secret. The writes are not in a transaction: an earlier write stays when a
  later call throws.\<close>

definition tenant_payments_POST ::
  "env \<Rightarrow> (string \<Rightarrow> jsdate) \<Rightarrow> stripe \<Rightarrow> (number \<Rightarrow> int) \<Rightarrow> string \<Rightarrow> session_user option
     \<Rightarrow> payment_input body \<Rightarrow> db \<Rightarrow> (payment \<times> string option) response \<times> db" where
  "tenant_payments_POST e mkDate gw roundCents baseUrl session body d =
     (let failed = json_error 500 ''Failed to create payment''
      in case session of
        None \<Rightarrow> (json_error 401 ''Unauthorized'', d)
      | Some su \<Rightarrow>
          (case body of
             MalformedJson \<Rightarrow> (failed, d)
           | SchemaError msg \<Rightarrow> (json_error 400 msg, d)
           | Parsed inp \<Rightarrow>
               (case findLease (pi_leaseId inp) d of
                  None \<Rightarrow> (json_error 404 ''Lease not found'', d)
                | Some l \<Rightarrow>
                    if l_tenantId l \<noteq> su_id su then (json_error 403 ''Forbidden'', d)
                    else
                      (case findUser (su_id su) d of
                         None \<Rightarrow> (json_error 404 ''User not found'', d)
                       | Some usr \<Rightarrow>
                           (case getOrCreateStripeCustomer gw (usr_id usr) (usr_email usr)
                                   (usr_firstName usr @ '' '' @ usr_lastName usr)
                                   (usr_stripeCustomerId usr) of
                              None \<Rightarrow> (failed, d)
                            | Some stripeCustomer \<Rightarrow>
                                (let d1 =
                                       (if \<not> truthy (usr_stripeCustomerId usr)
                                        then d\<lparr>users :=
                                          map (\<lambda>x. if usr_id x = usr_id usr
                                                 then x\<lparr>usr_stripeCustomerId :=
                                                        Some (sc_id stripeCustomer)\<rparr>
                                                 else x)
                                            (users d)\<rparr>
                                        else d)
                                 in case createPaymentIntent gw roundCents baseUrl (pi_amount inp)
                                           (sc_id stripeCustomer) None
                                           [(''leaseId'', pi_leaseId inp),
                                            (''userId'', su_id su),
                                            (''type'', paymentType_text (pi_type inp))] of
                                      None \<Rightarrow> (failed, d1)
                                    | Some paymentIntent \<Rightarrow>
                                        (case (optionalDate mkDate (pi_periodStart inp),
                                               optionalDate mkDate (pi_periodEnd inp)) of
                                           (Some periodStart, Some periodEnd) \<Rightarrow>
                                             (let row = pendingPayment e (su_id su) inp
                                                          periodStart periodEnd paymentIntent
                                              in (json_data 201
                                                    (row, pin_client_secret paymentIntent) None,
                                                  d1\<lparr>payments := payments d1 @ [row]\<rparr>))
                                         | _ \<Rightarrow> (failed, d1))))))))"

section \<open>Sequences of landlord calls\<close>

text \<open>A landlord's write to a maintenance request is one of the two handlers with its
  arguments; a history is a list of such calls, run in order on the database.\<close>

datatype landlord_call =
  CallPUT env "string \<Rightarrow> jsdate" "session_user option" ident "update_input body"
| CallPOST env "session_user option" ident "add_update_input body"

fun run_call :: "landlord_call \<Rightarrow> db \<Rightarrow> db" where
  "run_call (CallPUT e mkDate session pid body) d =
     snd (landlord_maintenance_id_PUT e mkDate session pid body d)"
| "run_call (CallPOST e session pid body) d =
     snd (landlord_maintenance_id_POST e session pid body d)"

fun run_calls :: "landlord_call list \<Rightarrow> db \<Rightarrow> db" where
  "run_calls [] d = d"
| "run_calls (c # cs) d = run_calls cs (run_call c d)"

section \<open>Predicates of the properties\<close>

text \<open>The caller is signed in, the request exists, and the caller owns the property of
  the request's unit or is an administrator.\<close>

definition landlordAccess :: "session_user option \<Rightarrow> ident \<Rightarrow> db \<Rightarrow> bool" where
  "landlordAccess session pid d =
     (case session of
        None \<Rightarrow> False
      | Some user \<Rightarrow>
          (case findMaintenanceRequest pid d of
             None \<Rightarrow> False
           | Some r \<Rightarrow>
               (case requestOwnerId d r of
                  None \<Rightarrow> False
                | Some ownerId \<Rightarrow> ownerId = su_id user \<or> su_role user = ADMIN)))"

text \<open>A timestamp that is set in \<open>r\<close> has the same value in \<open>r'\<close>.\<close>

definition keepsTimestamps :: "maintenance_request \<Rightarrow> maintenance_request \<Rightarrow> bool" where
  "keepsTimestamps r r' =
     ((case mr_acknowledgedAt r of None \<Rightarrow> True | Some t \<Rightarrow> mr_acknowledgedAt r' = Some t)
      \<and> (case mr_completedAt r of None \<Rightarrow> True | Some t \<Rightarrow> mr_completedAt r' = Some t))"

text \<open>A schema's outcome that, when invalid, names at least one issue.\<close>

definition sound :: "'a parsed \<Rightarrow> bool" where
  "sound p = (case p of Invalid ms \<Rightarrow> ms \<noteq> [] | Valid _ \<Rightarrow> True)"

text \<open>A write to the table of requests that touches at most the rows with one id, by a
  function that keeps ids and, on the row found under that id, keeps timestamps.\<close>

definition gentle :: "ident \<Rightarrow> db \<Rightarrow> db \<Rightarrow> bool" where
  "gentle pid d d' \<longleftrightarrow>
     maintenanceRequests d' = maintenanceRequests d
     \<or> (\<exists>r f. findMaintenanceRequest pid d = Some r \<and> (\<forall>x. mr_id (f x) = mr_id x)
          \<and> keepsTimestamps r (f r)
          \<and> maintenanceRequests d' =
              map (\<lambda>x. if mr_id x = pid then f x else x) (maintenanceRequests d))"

section \<open>Example data\<close>

definition landlord1 :: session_user where
  "landlord1 = \<lparr>su_id = ''landlord-1'', su_role = LANDLORD\<rparr>"

definition landlord2 :: session_user where
  "landlord2 = \<lparr>su_id = ''landlord-2'', su_role = LANDLORD\<rparr>"

definition tenant1 :: session_user where
  "tenant1 = \<lparr>su_id = ''tenant-1'', su_role = TENANT\<rparr>"

definition tenant2 :: session_user where
  "tenant2 = \<lparr>su_id = ''tenant-2'', su_role = TENANT\<rparr>"

definition request1 :: maintenance_request where
  "request1 =
     \<lparr>mr_id = ''req-1'', mr_tenantId = ''tenant-1'', mr_unitId = ''unit-1'',
      mr_title = ''Leaking tap'', mr_description = ''The kitchen tap drips all night'',
      mr_category = PLUMBING, mr_priority = MEDIUM, mr_entryPermission = True,
      mr_preferredTimes = None, mr_photoUrls = [], mr_status = SUBMITTED,
      mr_assignedToId = None, mr_scheduledDate = None, mr_scheduledTimeSlot = None,
      mr_estimatedCost = None, mr_actualCost = None, mr_vendorName = None,
      mr_vendorPhone = None, mr_resolutionNotes = None, mr_acknowledgedAt = None,
      mr_completedAt = None, mr_createdAt = 10\<rparr>"

definition lease1 :: lease where
  "lease1 =
     \<lparr>l_id = ''lease-1'', l_tenantId = ''tenant-1'', l_unitId = ''unit-1'', l_status = ACTIVE,
      l_startDate = 1, l_endDate = 1000, l_monthlyRent = 1200, l_depositAmount = 1200,
      l_rentDueDay = 1, l_gracePeriodDays = 5, l_tenantSignature = None,
      l_tenantSignedAt = None, l_tenantSignedIp = None, l_moveInDate = None\<rparr>"

definition user1 :: user where
  "user1 =
     \<lparr>usr_id = ''tenant-1'', usr_email = ''t1@example.org'', usr_firstName = ''Ada'',
      usr_lastName = ''Byron'', usr_phone = None, usr_dateOfBirth = None,
      usr_ssnEncrypted = None, usr_emergencyContactName = None,
      usr_emergencyContactPhone = None, usr_emergencyContactRelation = None,
      usr_status = USER_PENDING, usr_stripeCustomerId = None\<rparr>"

text \<open>One property of \<open>landlord-1\<close> with an occupied unit leased to \<open>tenant-1\<close>, who has
  filed one request, and a vacant unit.\<close>

definition db0 :: db where
  "db0 =
     \<lparr>users = [user1],
      properties = [\<lparr>p_id = ''prop-1'', p_ownerId = ''landlord-1'', p_totalUnits = 2\<rparr>],
      units = [\<lparr>u_id = ''unit-1'', u_propertyId = ''prop-1'', u_status = OCCUPIED,
                u_monthlyRent = 1200, u_depositAmount = 1200\<rparr>,
               \<lparr>u_id = ''unit-2'', u_propertyId = ''prop-1'', u_status = VACANT,
                u_monthlyRent = 900, u_depositAmount = 900\<rparr>],
      leases = [lease1],
      payments = [],
      maintenanceRequests = [request1],
      maintenanceUpdates = [],
      auditLogs = []\<rparr>"

definition noInput :: update_input where
  "noInput =
     \<lparr>ui_status = None, ui_priority = None, ui_assignedToId = None, ui_scheduledDate = None,
      ui_scheduledTimeSlot = None, ui_estimatedCost = None, ui_actualCost = None,
      ui_vendorName = None, ui_vendorPhone = None, ui_resolutionNotes = None\<rparr>"

text \<open>\<open>landlord-1\<close> sets the status of the request through the PUT handler, or adds a
  note with a status through the POST handler.\<close>

definition putStatus :: "timestamp \<Rightarrow> ident \<Rightarrow> maintenance_status \<Rightarrow> landlord_call" where
  "putStatus t i s =
     CallPUT \<lparr>now = t, newId = i\<rparr> (\<lambda>_. InvalidDate) (Some landlord1) ''req-1''
       (Parsed (noInput\<lparr>ui_status := Some s\<rparr>))"

definition postNote :: "timestamp \<Rightarrow> ident \<Rightarrow> maintenance_status option \<Rightarrow> bool \<Rightarrow> landlord_call" where
  "postNote t i s pub =
     CallPOST \<lparr>now = t, newId = i\<rparr> (Some landlord1) ''req-1''
       (Parsed \<lparr>au_message = ''Plumber booked'', au_newStatus = s, au_isPublic = pub,
                au_photoUrls = []\<rparr>)"

definition noteAt :: "ident \<Rightarrow> timestamp \<Rightarrow> bool \<Rightarrow> maintenance_update" where
  "noteAt i t pub =
     \<lparr>mu_id = i, mu_requestId = ''req-1'', mu_previousStatus = SUBMITTED,
      mu_newStatus = SUBMITTED, mu_message = ''Still waiting for parts'', mu_isPublic = pub,
      mu_photoUrls = [], mu_createdBy = ''landlord-1'', mu_createdAt = t\<rparr>"

text \<open>The example database with six notes on the request, the second one internal.\<close>

definition db6 :: db where
  "db6 =
     db0\<lparr>maintenanceUpdates :=
       [noteAt ''n1'' 1 True, noteAt ''n2'' 2 False, noteAt ''n3'' 3 True,
        noteAt ''n4'' 4 True, noteAt ''n5'' 5 True, noteAt ''n6'' 6 True]\<rparr>"

text \<open>A platform that reads two date strings, counts a month as thirty time units and
  marks the cipher text; \<open>tenant-1\<close> applies for the vacant \<open>unit-2\<close>, or for the occupied
  \<open>unit-1\<close>.\<close>

definition platform0 :: platform where
  "platform0 =
     \<lparr>newDate = (\<lambda>s. if s = ''2025-01-01'' then Date 1000
                     else if s = ''1990-05-05'' then Date 5 else InvalidDate),
      addMonthsValid = (\<lambda>t n. t + 30 * n),
      aes = (\<lambda>s. ''aes:'' @ s)\<rparr>"

definition application :: "ident \<Rightarrow> onboarding_input" where
  "application unitId =
     \<lparr>ob_firstName = ''Ada'', ob_lastName = ''Byron'', ob_phone = ''5551234567'',
      ob_dateOfBirth = ''1990-05-05'', ob_ssnLast4 = ''1234'',
      ob_emergencyContactName = ''Bea'', ob_emergencyContactPhone = ''5557654321'',
      ob_emergencyContactRelation = ''sister'', ob_unitId = unitId,
      ob_moveInDate = ''2025-01-01'', ob_leaseTerm = Term12, ob_signature = ''Ada Byron''\<rparr>"

text \<open>A gateway that knows no customer yet, creates the customer \<open>cus_1\<close> and accepts
  an intent of 120000 cents in US dollars for that customer; and the rounding at the
  amount of the example, where 1200 becomes 120000 cents.\<close>

definition gateway0 :: stripe where
  "gateway0 =
     \<lparr>customers_retrieve = (\<lambda>_. None),
      customers_create = (\<lambda>email name metadata. Some \<lparr>sc_id = ''cus_1'', sc_deleted = False\<rparr>),
      paymentIntents_create =
        (\<lambda>ps. if ip_amount ps = 120000 \<and> ip_currency ps = ''usd'' \<and> ip_customer ps = ''cus_1''
              then Some \<lparr>pin_id = ''pi_1'', pin_client_secret = Some ''pi_1_secret''\<rparr>
              else None)\<rparr>"

definition exampleCents :: "number \<Rightarrow> int" where
  "exampleCents amount = (if amount = 1200 then 120000 else 0)"

definition rentPayment :: payment_input where
  "rentPayment =
     \<lparr>pi_leaseId = ''lease-1'', pi_type = RENT, pi_method = ACH, pi_amount = 1200,
      pi_periodStart = None, pi_periodEnd = None, pi_notes = None\<rparr>"

text \<open>The ids of the updates in a view, and a platform on which every string is a URL.\<close>

definition updateIdsOf :: "maintenance_view \<Rightarrow> ident list" where
  "updateIdsOf v = map mu_id (mv_updates v)"

definition anyUrl :: "string \<Rightarrow> bool" where
  "anyUrl s = True"

text \<open>Bodies for a new maintenance request: without a priority; with a description of
  five characters; and with that description and an empty title, a title of 201
  characters, or no title.\<close>

definition bodyNoPriority :: json where
  "bodyNoPriority =
     JObject [(''title'', JString ''Leaking tap''),
              (''description'', JString ''The kitchen tap drips all night''),
              (''category'', JString ''PLUMBING'')]"

definition bodyShortDescription :: json where
  "bodyShortDescription =
     JObject [(''title'', JString ''Leaking tap''), (''description'', JString ''Drips''),
              (''category'', JString ''PLUMBING'')]"

definition bodyShortDescriptionNoTitle :: json where
  "bodyShortDescriptionNoTitle =
     JObject [(''title'', JString ''''), (''description'', JString ''Drips''),
              (''category'', JString ''PLUMBING'')]"

definition bodyShortDescriptionLongTitle :: json where
  "bodyShortDescriptionLongTitle =
     JObject [(''title'', JString (replicate 201 CHR ''a'')),
              (''description'', JString ''Drips''), (''category'', JString ''PLUMBING'')]"

definition bodyShortDescriptionMissingTitle :: json where
  "bodyShortDescriptionMissingTitle =
     JObject [(''description'', JString ''Drips''), (''category'', JString ''PLUMBING'')]"

text \<open>Four status changes of the request by \<open>landlord-1\<close>, at the times 100 to 400, and
  the first of them alone.\<close>

definition fourChanges :: "landlord_call list" where
  "fourChanges =
     [putStatus 100 ''upd-1'' ACKNOWLEDGED, putStatus 200 ''upd-2'' IN_PROGRESS,
      putStatus 300 ''upd-3'' ON_HOLD, putStatus 400 ''upd-4'' IN_PROGRESS]"

definition firstChange :: "landlord_call list" where
  "firstChange = [putStatus 100 ''upd-1'' ACKNOWLEDGED]"

lemmas example_defs =
  landlord1_def landlord2_def tenant1_def tenant2_def request1_def lease1_def user1_def
  db0_def noInput_def putStatus_def postNote_def noteAt_def db6_def platform0_def
  application_def gateway0_def exampleCents_def rentPayment_def bodyNoPriority_def
  bodyShortDescription_def bodyShortDescriptionNoTitle_def bodyShortDescriptionLongTitle_def
  bodyShortDescriptionMissingTitle_def fourChanges_def firstChange_def updateIdsOf_def
  anyUrl_def

lemmas lookup_defs =
  findUser_def findLease_def findProperty_def findUnit_def findMaintenanceRequest_def
  requestOwnerId_def updatesOf_def

lemmas landlord_write_defs =
  landlord_maintenance_id_PUT_def landlord_maintenance_id_POST_def buildUpdateData_def
  maintenanceRequest_update_def applyUpdateData_def orElse_def orKeep_def keep_def
  maintenanceUpdate_create_def statusLogRow_def newUpdateRow_def statusWrite_def
  statusChangeMessage_def json_data_def json_error_def Let_def

section \<open>Facts about the landlord's handlers\<close>

lemma find_map_same_id:
  assumes "\<And>x. mr_id (f x) = mr_id x"
  shows "find (\<lambda>x. mr_id x = i) (map f xs) = map_option f (find (\<lambda>x. mr_id x = i) xs)"
  using assms by (induction xs) auto

lemma findMaintenanceRequest_id:
  "findMaintenanceRequest i d = Some r \<Longrightarrow> mr_id r = i"
  by (auto simp: findMaintenanceRequest_def find_Some_iff)

lemma landlordAccessE:
  assumes "landlordAccess session pid d"
  obtains user r ownerId where "session = Some user" "findMaintenanceRequest pid d = Some r"
    "requestOwnerId d r = Some ownerId" "ownerId = su_id user \<or> su_role user = ADMIN"
  using assms by (auto simp: landlordAccess_def split: option.splits)

lemma landlordAccessI:
  assumes "session = Some user" "findMaintenanceRequest pid d = Some r"
    "requestOwnerId d r = Some ownerId" "ownerId = su_id user \<or> su_role user = ADMIN"
  shows "landlordAccess session pid d"
  using assms by (auto simp: landlordAccess_def)

lemma PUT_denied:
  assumes "\<not> landlordAccess session pid d"
  shows "snd (landlord_maintenance_id_PUT e mk session pid body d) = d"
    and "status (fst (landlord_maintenance_id_PUT e mk session pid body d)) \<in> {401, 403, 404, 500}"
    and "data (fst (landlord_maintenance_id_PUT e mk session pid body d)) = None"
  using assms
  by (auto simp: landlordAccess_def landlord_maintenance_id_PUT_def json_error_def
      split: option.splits)

lemma PUT_unparsed:
  assumes "\<And>inp. body \<noteq> Parsed inp"
  shows "snd (landlord_maintenance_id_PUT e mk session pid body d) = d"
    and "status (fst (landlord_maintenance_id_PUT e mk session pid body d)) \<noteq> 200"
  using assms
  by (auto simp: landlord_maintenance_id_PUT_def json_error_def
      split: option.splits body.splits)

lemma PUT_granted:
  assumes "session = Some user" "findMaintenanceRequest pid d = Some r"
    "requestOwnerId d r = Some ownerId" "ownerId = su_id user \<or> su_role user = ADMIN"
  shows "landlord_maintenance_id_PUT e mk session pid (Parsed inp) d =
     (if ud_scheduledDate (buildUpdateData mk (now e) r inp) = Some InvalidDate
      then (json_error 500 ''Failed to update maintenance request'', d)
      else (json_data 200 (applyUpdateData (buildUpdateData mk (now e) r inp) r)
              (Some ''Maintenance request updated successfully''),
            (case ui_status inp of
               None \<Rightarrow>
                 d\<lparr>maintenanceRequests :=
                    map (\<lambda>x. if mr_id x = pid
                           then applyUpdateData (buildUpdateData mk (now e) r inp) x else x)
                      (maintenanceRequests d)\<rparr>
             | Some s \<Rightarrow>
                 if s \<noteq> mr_status r
                 then d\<lparr>maintenanceRequests :=
                        map (\<lambda>x. if mr_id x = pid
                               then applyUpdateData (buildUpdateData mk (now e) r inp) x else x)
                          (maintenanceRequests d),
                        maintenanceUpdates :=
                          maintenanceUpdates d @ [statusLogRow e user pid r s]\<rparr>
                 else d\<lparr>maintenanceRequests :=
                        map (\<lambda>x. if mr_id x = pid
                               then applyUpdateData (buildUpdateData mk (now e) r inp) x else x)
                          (maintenanceRequests d)\<rparr>)))"
  using assms
  by (auto simp: landlord_maintenance_id_PUT_def maintenanceRequest_update_def Let_def
      maintenanceUpdate_create_def split: option.splits)

lemma POST_denied:
  assumes "\<not> landlordAccess session pid d"
  shows "snd (landlord_maintenance_id_POST e session pid body d) = d"
    and "status (fst (landlord_maintenance_id_POST e session pid body d)) \<in> {401, 403, 404, 500}"
    and "data (fst (landlord_maintenance_id_POST e session pid body d)) = None"
  using assms
  by (auto simp: landlordAccess_def landlord_maintenance_id_POST_def json_error_def
      split: option.splits)

lemma POST_unparsed:
  assumes "\<And>inp. body \<noteq> Parsed inp"
  shows "snd (landlord_maintenance_id_POST e session pid body d) = d"
    and "status (fst (landlord_maintenance_id_POST e session pid body d)) \<noteq> 201"
  using assms
  by (auto simp: landlord_maintenance_id_POST_def json_error_def
      split: option.splits body.splits)

lemma POST_granted:
  assumes "session = Some user" "findMaintenanceRequest pid d = Some r"
    "requestOwnerId d r = Some ownerId" "ownerId = su_id user \<or> su_role user = ADMIN"
  shows "landlord_maintenance_id_POST e session pid (Parsed inp) d =
     (json_data 201 (newUpdateRow e user pid r inp) (Some ''Update added successfully''),
      (case au_newStatus inp of
         None \<Rightarrow> d\<lparr>maintenanceUpdates := maintenanceUpdates d @ [newUpdateRow e user pid r inp]\<rparr>
       | Some s \<Rightarrow>
           if s \<noteq> mr_status r
           then d\<lparr>maintenanceUpdates := maintenanceUpdates d @ [newUpdateRow e user pid r inp],
                  maintenanceRequests :=
                    map (\<lambda>x. if mr_id x = pid then statusWrite e r s x else x)
                      (maintenanceRequests d)\<rparr>
           else d\<lparr>maintenanceUpdates := maintenanceUpdates d @ [newUpdateRow e user pid r inp]\<rparr>))"
  using assms
  by (auto simp: landlord_maintenance_id_POST_def Let_def
      maintenanceUpdate_create_def split: option.splits)

section \<open>Timestamps are set once\<close>

lemma keepsTimestamps_refl: "keepsTimestamps r r"
  by (simp add: keepsTimestamps_def split: option.splits)

lemma keepsTimestamps_trans:
  "keepsTimestamps a b \<Longrightarrow> keepsTimestamps b c \<Longrightarrow> keepsTimestamps a c"
  by (auto simp: keepsTimestamps_def split: option.splits)

lemma applyUpdateData_id: "mr_id (applyUpdateData u r) = mr_id r"
  by (simp add: applyUpdateData_def)

lemma statusWrite_id: "mr_id (statusWrite e r s x) = mr_id x"
  by (simp add: statusWrite_def)

lemma applyUpdateData_keeps:
  "keepsTimestamps r (applyUpdateData (buildUpdateData mk t r inp) r)"
  by (simp add: keepsTimestamps_def applyUpdateData_def buildUpdateData_def orKeep_def
      split: option.splits)

lemma statusWrite_keeps: "keepsTimestamps r (statusWrite e r s r)"
  by (simp add: keepsTimestamps_def statusWrite_def split: option.splits)

lemma gentle_find:
  assumes "gentle pid d d'" "findMaintenanceRequest i d = Some r"
  shows "\<exists>r'. findMaintenanceRequest i d' = Some r' \<and> keepsTimestamps r r'"
  using assms(1) unfolding gentle_def
proof
  assume "maintenanceRequests d' = maintenanceRequests d"
  with assms(2) have "findMaintenanceRequest i d' = Some r"
    by (simp add: findMaintenanceRequest_def)
  then show ?thesis by (auto intro: keepsTimestamps_refl)
next
  assume "\<exists>r f. findMaintenanceRequest pid d = Some r \<and> (\<forall>x. mr_id (f x) = mr_id x)
          \<and> keepsTimestamps r (f r)
          \<and> maintenanceRequests d' =
              map (\<lambda>x. if mr_id x = pid then f x else x) (maintenanceRequests d)"
  then obtain ex f where ex: "findMaintenanceRequest pid d = Some ex"
    and ids: "\<And>x. mr_id (f x) = mr_id x" and keeps: "keepsTimestamps ex (f ex)"
    and reqs: "maintenanceRequests d' =
              map (\<lambda>x. if mr_id x = pid then f x else x) (maintenanceRequests d)"
    by blast
  have "findMaintenanceRequest i d' = map_option (\<lambda>x. if mr_id x = pid then f x else x)
      (findMaintenanceRequest i d)"
    unfolding findMaintenanceRequest_def reqs
    by (rule find_map_same_id) (simp add: ids)
  with assms(2) have f: "findMaintenanceRequest i d' = Some (if mr_id r = pid then f r else r)"
    by simp
  show ?thesis
  proof (cases "mr_id r = pid")
    case False
    with f show ?thesis by (auto intro: keepsTimestamps_refl)
  next
    case True
    with findMaintenanceRequest_id [OF assms(2)] ex assms(2) have "ex = r" by simp
    with f True keeps show ?thesis by auto
  qed
qed

lemma PUT_gentle: "gentle pid d (snd (landlord_maintenance_id_PUT e mk session pid body d))"
proof (cases "landlordAccess session pid d")
  case False
  then show ?thesis by (simp add: PUT_denied(1) gentle_def)
next
  case True
  then obtain user r ownerId where h: "session = Some user" "findMaintenanceRequest pid d = Some r"
    "requestOwnerId d r = Some ownerId" "ownerId = su_id user \<or> su_role user = ADMIN"
    by (rule landlordAccessE)
  show ?thesis
  proof (cases body)
    case (Parsed inp)
    have "maintenanceRequests (snd (landlord_maintenance_id_PUT e mk session pid (Parsed inp) d))
        = maintenanceRequests d
      \<or> maintenanceRequests (snd (landlord_maintenance_id_PUT e mk session pid (Parsed inp) d))
        = map (\<lambda>x. if mr_id x = pid
                 then applyUpdateData (buildUpdateData mk (now e) r inp) x else x)
            (maintenanceRequests d)"
      by (simp add: PUT_granted [OF h] split: option.splits)
    then show ?thesis
      unfolding gentle_def Parsed
      using h(2) applyUpdateData_id applyUpdateData_keeps by blast
  qed (simp_all add: PUT_unparsed(1) gentle_def)
qed

lemma POST_gentle: "gentle pid d (snd (landlord_maintenance_id_POST e session pid body d))"
proof (cases "landlordAccess session pid d")
  case False
  then show ?thesis by (simp add: POST_denied(1) gentle_def)
next
  case True
  then obtain user r ownerId where h: "session = Some user" "findMaintenanceRequest pid d = Some r"
    "requestOwnerId d r = Some ownerId" "ownerId = su_id user \<or> su_role user = ADMIN"
    by (rule landlordAccessE)
  show ?thesis
  proof (cases body)
    case (Parsed inp)
    have "maintenanceRequests (snd (landlord_maintenance_id_POST e session pid (Parsed inp) d))
        = maintenanceRequests d
      \<or> (\<exists>s. maintenanceRequests (snd (landlord_maintenance_id_POST e session pid (Parsed inp) d))
        = map (\<lambda>x. if mr_id x = pid then statusWrite e r s x else x) (maintenanceRequests d))"
    proof (cases "au_newStatus inp")
      case None
      then show ?thesis by (simp add: POST_granted [OF h])
    next
      case (Some s)
      then show ?thesis by (cases "s = mr_status r") (auto simp: POST_granted [OF h])
    qed
    then show ?thesis
      unfolding gentle_def Parsed
      using h(2) statusWrite_id statusWrite_keeps by blast
  qed (simp_all add: POST_unparsed(1) gentle_def)
qed

lemma run_call_keeps:
  assumes "findMaintenanceRequest i d = Some r"
  shows "\<exists>r'. findMaintenanceRequest i (run_call c d) = Some r' \<and> keepsTimestamps r r'"
proof (cases c)
  case (CallPUT e mk session pid body)
  with gentle_find [OF PUT_gentle assms] show ?thesis by simp
next
  case (CallPOST e session pid body)
  with gentle_find [OF POST_gentle assms] show ?thesis by simp
qed

lemma run_calls_keeps:
  assumes "findMaintenanceRequest i d = Some r"
  shows "\<exists>r'. findMaintenanceRequest i (run_calls cs d) = Some r' \<and> keepsTimestamps r r'"
  using assms
proof (induction cs arbitrary: d r)
  case Nil
  then show ?case by (simp add: keepsTimestamps_refl)
next
  case (Cons c cs)
  from run_call_keeps [OF Cons.prems, of c] obtain r1 where
    r1: "findMaintenanceRequest i (run_call c d) = Some r1" "keepsTimestamps r r1" by blast
  from Cons.IH [OF r1(1)] obtain r' where
    "findMaintenanceRequest i (run_calls cs (run_call c d)) = Some r'" "keepsTimestamps r1 r'"
    by blast
  with r1(2) show ?case by (auto intro: keepsTimestamps_trans)
qed

text \<open>
  C2. Over any history of PUT and POST calls, by any callers and with any bodies, a
  request that exists keeps existing, and once its \<open>acknowledgedAt\<close> (its
  \<open>completedAt\<close>) is set the value never changes again: re-entering \<open>ACKNOWLEDGED\<close>
  (\<open>COMPLETED\<close>) does not set it a second time.
\<close>

theorem timestamps_set_at_most_once:
  assumes "findMaintenanceRequest i d = Some r"
  shows "\<exists>r'. findMaintenanceRequest i (run_calls cs d) = Some r' \<and>
    (\<forall>t. mr_acknowledgedAt r = Some t \<longrightarrow> mr_acknowledgedAt r' = Some t) \<and>
    (\<forall>t. mr_completedAt r = Some t \<longrightarrow> mr_completedAt r' = Some t)"
proof -
  from run_calls_keeps [OF assms, of cs] obtain r' where
    "findMaintenanceRequest i (run_calls cs d) = Some r'" "keepsTimestamps r r'" by blast
  then show ?thesis by (auto simp: keepsTimestamps_def split: option.splits)
qed

text \<open>The first PUT to \<open>ACKNOWLEDGED\<close> at time 100 sets the timestamp; leaving the status
  and entering it again at times 200 to 400, through either handler, keeps 100.\<close>

theorem timestamps_set_at_most_once_witness:
  "map_option mr_acknowledgedAt
     (findMaintenanceRequest ''req-1'' (run_call (putStatus 100 ''upd-1'' ACKNOWLEDGED) db0))
     = Some (Some 100)
   \<and> (\<exists>r'. findMaintenanceRequest ''req-1''
          (run_calls [putStatus 200 ''upd-2'' IN_PROGRESS, putStatus 300 ''upd-3'' ACKNOWLEDGED,
             postNote 350 ''upd-4'' (Some ON_HOLD) True,
             postNote 400 ''upd-5'' (Some ACKNOWLEDGED) True]
            (run_call (putStatus 100 ''upd-1'' ACKNOWLEDGED) db0)) = Some r'
        \<and> mr_acknowledgedAt r' = Some 100)"
proof -
  obtain r where r: "findMaintenanceRequest ''req-1''
      (run_call (putStatus 100 ''upd-1'' ACKNOWLEDGED) db0) = Some r"
    and ack: "mr_acknowledgedAt r = Some 100"
    by (simp add: example_defs lookup_defs landlord_write_defs)
  from timestamps_set_at_most_once [OF r,
      of "[putStatus 200 ''upd-2'' IN_PROGRESS, putStatus 300 ''upd-3'' ACKNOWLEDGED,
           postNote 350 ''upd-4'' (Some ON_HOLD) True,
           postNote 400 ''upd-5'' (Some ACKNOWLEDGED) True]"] ack r
  show ?thesis by auto
qed

section \<open>The update log of the landlord's writes\<close>

lemma PUT_status_200:
  assumes "status (fst (landlord_maintenance_id_PUT e mk session pid body d)) = 200"
  obtains user r ownerId inp where "session = Some user" "findMaintenanceRequest pid d = Some r"
    "requestOwnerId d r = Some ownerId" "ownerId = su_id user \<or> su_role user = ADMIN"
    "body = Parsed inp" "ud_scheduledDate (buildUpdateData mk (now e) r inp) \<noteq> Some InvalidDate"
proof -
  have a: "landlordAccess session pid d"
    using assms PUT_denied(2) [of session pid d e mk body] by auto
  obtain inp where b: "body = Parsed inp"
    using assms PUT_unparsed(2) [of body e mk session pid d] by auto
  from a obtain user r ownerId where h: "session = Some user" "findMaintenanceRequest pid d = Some r"
    "requestOwnerId d r = Some ownerId" "ownerId = su_id user \<or> su_role user = ADMIN"
    by (rule landlordAccessE)
  have "ud_scheduledDate (buildUpdateData mk (now e) r inp) \<noteq> Some InvalidDate"
    using assms unfolding b PUT_granted [OF h] by (auto simp: json_error_def split: if_splits)
  with h b that show ?thesis by blast
qed

lemma PUT_not_200:
  assumes "status (fst (landlord_maintenance_id_PUT e mk session pid body d)) \<noteq> 200"
  shows "snd (landlord_maintenance_id_PUT e mk session pid body d) = d"
proof (cases "landlordAccess session pid d")
  case False
  then show ?thesis by (rule PUT_denied(1))
next
  case True
  then obtain user r ownerId where h: "session = Some user" "findMaintenanceRequest pid d = Some r"
    "requestOwnerId d r = Some ownerId" "ownerId = su_id user \<or> su_role user = ADMIN"
    by (rule landlordAccessE)
  show ?thesis
  proof (cases body)
    case (Parsed inp)
    with assms show ?thesis
      unfolding Parsed PUT_granted [OF h] by (auto simp: json_data_def split: if_splits)
  qed (simp_all add: PUT_unparsed(1))
qed

lemma PUT_log:
  assumes "status (fst (landlord_maintenance_id_PUT e mk session pid body d)) = 200"
  shows "\<exists>user r inp. session = Some user \<and> findMaintenanceRequest pid d = Some r
    \<and> body = Parsed inp
    \<and> maintenanceUpdates (snd (landlord_maintenance_id_PUT e mk session pid body d)) =
        maintenanceUpdates d @
          (case ui_status inp of
             None \<Rightarrow> []
           | Some s \<Rightarrow> if s \<noteq> mr_status r then [statusLogRow e user pid r s] else [])"
proof -
  from assms obtain user r ownerId inp where h: "session = Some user"
    "findMaintenanceRequest pid d = Some r"
    "requestOwnerId d r = Some ownerId" "ownerId = su_id user \<or> su_role user = ADMIN"
    and b: "body = Parsed inp"
    and ok: "ud_scheduledDate (buildUpdateData mk (now e) r inp) \<noteq> Some InvalidDate"
    by (rule PUT_status_200)
  have "maintenanceUpdates (snd (landlord_maintenance_id_PUT e mk session pid body d)) =
        maintenanceUpdates d @
          (case ui_status inp of
             None \<Rightarrow> []
           | Some s \<Rightarrow> if s \<noteq> mr_status r then [statusLogRow e user pid r s] else [])"
    unfolding b PUT_granted [OF h] using ok by (simp split: option.splits)
  with h(1,2) b show ?thesis by blast
qed

lemma POST_status_201:
  assumes "status (fst (landlord_maintenance_id_POST e session pid body d)) = 201"
  obtains user r ownerId inp where "session = Some user" "findMaintenanceRequest pid d = Some r"
    "requestOwnerId d r = Some ownerId" "ownerId = su_id user \<or> su_role user = ADMIN"
    "body = Parsed inp"
proof -
  have a: "landlordAccess session pid d"
    using assms POST_denied(2) [of session pid d e body] by auto
  obtain inp where b: "body = Parsed inp"
    using assms POST_unparsed(2) [of body e session pid d] by auto
  from a b that show ?thesis by (auto elim: landlordAccessE)
qed

lemma POST_not_201:
  assumes "status (fst (landlord_maintenance_id_POST e session pid body d)) \<noteq> 201"
  shows "snd (landlord_maintenance_id_POST e session pid body d) = d"
proof (cases "landlordAccess session pid d")
  case False
  then show ?thesis by (rule POST_denied(1))
next
  case True
  then obtain user r ownerId where h: "session = Some user" "findMaintenanceRequest pid d = Some r"
    "requestOwnerId d r = Some ownerId" "ownerId = su_id user \<or> su_role user = ADMIN"
    by (rule landlordAccessE)
  show ?thesis
  proof (cases body)
    case (Parsed inp)
    with assms show ?thesis
      unfolding Parsed PUT_granted [OF h] by (simp add: POST_granted [OF h] json_data_def)
  qed (simp_all add: POST_unparsed(1))
qed

lemma find_map_at_id:
  assumes "findMaintenanceRequest pid d = Some r" "\<And>x. mr_id (f x) = mr_id x"
  shows "findMaintenanceRequest pid
     (d\<lparr>maintenanceRequests :=
          map (\<lambda>x. if mr_id x = pid then f x else x) (maintenanceRequests d)\<rparr>) = Some (f r)"
proof -
  have "find (\<lambda>x. mr_id x = pid)
      (map (\<lambda>x. if mr_id x = pid then f x else x) (maintenanceRequests d))
      = map_option (\<lambda>x. if mr_id x = pid then f x else x)
          (find (\<lambda>x. mr_id x = pid) (maintenanceRequests d))"
    by (rule find_map_same_id) (simp add: assms(2))
  with assms(1) findMaintenanceRequest_id [OF assms(1)] show ?thesis
    by (simp add: findMaintenanceRequest_def)
qed

lemma POST_log:
  assumes "status (fst (landlord_maintenance_id_POST e session pid body d)) = 201"
  shows "\<exists>user r inp. session = Some user \<and> findMaintenanceRequest pid d = Some r
    \<and> body = Parsed inp
    \<and> maintenanceUpdates (snd (landlord_maintenance_id_POST e session pid body d)) =
        maintenanceUpdates d @ [newUpdateRow e user pid r inp]
    \<and> map_option mr_status
        (findMaintenanceRequest pid (snd (landlord_maintenance_id_POST e session pid body d))) =
        Some (orElse (au_newStatus inp) (mr_status r))"
proof -
  from assms obtain user r ownerId inp where h: "session = Some user"
    "findMaintenanceRequest pid d = Some r"
    "requestOwnerId d r = Some ownerId" "ownerId = su_id user \<or> su_role user = ADMIN"
    and b: "body = Parsed inp"
    by (rule POST_status_201)
  have u: "maintenanceUpdates (snd (landlord_maintenance_id_POST e session pid body d)) =
        maintenanceUpdates d @ [newUpdateRow e user pid r inp]"
    unfolding b POST_granted [OF h] by (simp split: option.splits)
  have w: "findMaintenanceRequest pid
       (d\<lparr>maintenanceRequests :=
          map (\<lambda>x. if mr_id x = pid then statusWrite e r s x else x) (maintenanceRequests d)\<rparr>)
       = Some (statusWrite e r s r)" for s
    by (rule find_map_at_id [OF h(2)]) (simp add: statusWrite_def)
  have keep: "findMaintenanceRequest pid (d\<lparr>maintenanceUpdates := us\<rparr>) = Some r" for us
    using h(2) by (simp add: findMaintenanceRequest_def)
  have s: "map_option mr_status
        (findMaintenanceRequest pid (snd (landlord_maintenance_id_POST e session pid body d))) =
        Some (orElse (au_newStatus inp) (mr_status r))"
  proof (cases "au_newStatus inp")
    case None
    then show ?thesis unfolding b POST_granted [OF h] by (simp add: keep orElse_def)
  next
    case (Some s)
    show ?thesis
    proof (cases "s = mr_status r")
      case True
      with Some show ?thesis unfolding b POST_granted [OF h] by (simp add: keep orElse_def)
    next
      case False
      have "findMaintenanceRequest pid
          (d\<lparr>maintenanceUpdates := maintenanceUpdates d @ [newUpdateRow e user pid r inp],
             maintenanceRequests :=
               map (\<lambda>x. if mr_id x = pid then statusWrite e r s x else x)
                 (maintenanceRequests d)\<rparr>) = Some (statusWrite e r s r)"
        using w [of s] by (simp add: findMaintenanceRequest_def)
      with Some False show ?thesis
        unfolding b POST_granted [OF h] by (simp add: orElse_def statusWrite_def)
    qed
  qed
  from h(1,2) b u s show ?thesis by blast
qed

text \<open>
  C1, as amended. A call that does not succeed writes nothing. A successful PUT appends
  one log row exactly when a status is given that differs from the status read, and
  otherwise none; the row's \<open>previousStatus\<close> is the status read and its \<open>newStatus\<close>
  the status given, it is public and carries the message of the status change. A
  successful POST always appends one row: its \<open>previousStatus\<close> is the status read and
  its \<open>newStatus\<close> the status given or, when none is given, the status read; its
  message and visibility are those of the body; the request then has that status.
\<close>

theorem update_rows_of_landlord_writes:
  "(status (fst (landlord_maintenance_id_PUT e mk session pid body d)) \<noteq> 200 \<longrightarrow>
      snd (landlord_maintenance_id_PUT e mk session pid body d) = d)
   \<and> (status (fst (landlord_maintenance_id_PUT e mk session pid body d)) = 200 \<longrightarrow>
       (\<exists>user r inp. session = Some user \<and> findMaintenanceRequest pid d = Some r
          \<and> body = Parsed inp
          \<and> maintenanceUpdates (snd (landlord_maintenance_id_PUT e mk session pid body d)) =
              maintenanceUpdates d @
                (case ui_status inp of
                   None \<Rightarrow> []
                 | Some s \<Rightarrow>
                     if s \<noteq> mr_status r
                     then [\<lparr>mu_id = newId e, mu_requestId = pid,
                            mu_previousStatus = mr_status r, mu_newStatus = s,
                            mu_message =
                              ''Status changed from '' @ status_text (mr_status r) @
                              '' to '' @ status_text s,
                            mu_isPublic = True, mu_photoUrls = [],
                            mu_createdBy = su_id user, mu_createdAt = now e\<rparr>]
                     else [])))
   \<and> (status (fst (landlord_maintenance_id_POST e session pid posted d)) \<noteq> 201 \<longrightarrow>
      snd (landlord_maintenance_id_POST e session pid posted d) = d)
   \<and> (status (fst (landlord_maintenance_id_POST e session pid posted d)) = 201 \<longrightarrow>
       (\<exists>user r inp. session = Some user \<and> findMaintenanceRequest pid d = Some r
          \<and> posted = Parsed inp
          \<and> maintenanceUpdates (snd (landlord_maintenance_id_POST e session pid posted d)) =
              maintenanceUpdates d @
                [\<lparr>mu_id = newId e, mu_requestId = pid,
                  mu_previousStatus = mr_status r,
                  mu_newStatus =
                    (case au_newStatus inp of None \<Rightarrow> mr_status r | Some s \<Rightarrow> s),
                  mu_message = au_message inp, mu_isPublic = au_isPublic inp,
                  mu_photoUrls = au_photoUrls inp,
                  mu_createdBy = su_id user, mu_createdAt = now e\<rparr>]
          \<and> map_option mr_status
              (findMaintenanceRequest pid (snd (landlord_maintenance_id_POST e session pid posted d))) =
              Some (case au_newStatus inp of None \<Rightarrow> mr_status r | Some s \<Rightarrow> s)))"
proof (intro conjI impI)
  assume "status (fst (landlord_maintenance_id_PUT e mk session pid body d)) \<noteq> 200"
  then show "snd (landlord_maintenance_id_PUT e mk session pid body d) = d"
    by (rule PUT_not_200)
next
  assume "status (fst (landlord_maintenance_id_PUT e mk session pid body d)) = 200"
  then show "\<exists>user r inp. session = Some user \<and> findMaintenanceRequest pid d = Some r
          \<and> body = Parsed inp
          \<and> maintenanceUpdates (snd (landlord_maintenance_id_PUT e mk session pid body d)) =
              maintenanceUpdates d @
                (case ui_status inp of
                   None \<Rightarrow> []
                 | Some s \<Rightarrow>
                     if s \<noteq> mr_status r
                     then [\<lparr>mu_id = newId e, mu_requestId = pid,
                            mu_previousStatus = mr_status r, mu_newStatus = s,
                            mu_message =
                              ''Status changed from '' @ status_text (mr_status r) @
                              '' to '' @ status_text s,
                            mu_isPublic = True, mu_photoUrls = [],
                            mu_createdBy = su_id user, mu_createdAt = now e\<rparr>]
                     else [])"
    by (rule PUT_log [unfolded statusLogRow_def statusChangeMessage_def])
next
  assume "status (fst (landlord_maintenance_id_POST e session pid posted d)) \<noteq> 201"
  then show "snd (landlord_maintenance_id_POST e session pid posted d) = d"
    by (rule POST_not_201)
next
  assume "status (fst (landlord_maintenance_id_POST e session pid posted d)) = 201"
  then show "\<exists>user r inp. session = Some user \<and> findMaintenanceRequest pid d = Some r
          \<and> posted = Parsed inp
          \<and> maintenanceUpdates (snd (landlord_maintenance_id_POST e session pid posted d)) =
              maintenanceUpdates d @
                [\<lparr>mu_id = newId e, mu_requestId = pid,
                  mu_previousStatus = mr_status r,
                  mu_newStatus =
                    (case au_newStatus inp of None \<Rightarrow> mr_status r | Some s \<Rightarrow> s),
                  mu_message = au_message inp, mu_isPublic = au_isPublic inp,
                  mu_photoUrls = au_photoUrls inp,
                  mu_createdBy = su_id user, mu_createdAt = now e\<rparr>]
          \<and> map_option mr_status
              (findMaintenanceRequest pid (snd (landlord_maintenance_id_POST e session pid posted d))) =
              Some (case au_newStatus inp of None \<Rightarrow> mr_status r | Some s \<Rightarrow> s)"
    by (rule POST_log [unfolded newUpdateRow_def orElse_def])
qed

text \<open>A PUT to a new status logs one row, from \<open>SUBMITTED\<close> to \<open>ACKNOWLEDGED\<close>; a PUT
  to the current status logs none; a POST with the status \<open>IN_PROGRESS\<close> logs a row from
  \<open>SUBMITTED\<close> to \<open>IN_PROGRESS\<close> and the request is then \<open>IN_PROGRESS\<close>.\<close>

theorem update_rows_of_landlord_writes_witness:
  "maintenanceUpdates
     (snd (landlord_maintenance_id_PUT \<lparr>now = 100, newId = ''upd-1''\<rparr> (\<lambda>_. InvalidDate)
        (Some landlord1) ''req-1'' (Parsed (noInput\<lparr>ui_status := Some ACKNOWLEDGED\<rparr>)) db0)) =
     [\<lparr>mu_id = ''upd-1'', mu_requestId = ''req-1'', mu_previousStatus = SUBMITTED,
       mu_newStatus = ACKNOWLEDGED,
       mu_message = ''Status changed from SUBMITTED to ACKNOWLEDGED'', mu_isPublic = True,
       mu_photoUrls = [], mu_createdBy = ''landlord-1'', mu_createdAt = 100\<rparr>]
   \<and> maintenanceUpdates
     (snd (landlord_maintenance_id_PUT \<lparr>now = 100, newId = ''upd-1''\<rparr> (\<lambda>_. InvalidDate)
        (Some landlord1) ''req-1'' (Parsed (noInput\<lparr>ui_status := Some SUBMITTED\<rparr>)) db0)) = []
   \<and> maintenanceUpdates
     (snd (landlord_maintenance_id_POST \<lparr>now = 100, newId = ''upd-1''\<rparr>
        (Some landlord1) ''req-1''
        (Parsed \<lparr>au_message = ''On it'', au_newStatus = Some IN_PROGRESS, au_isPublic = True,
                 au_photoUrls = []\<rparr>) db0)) =
     [\<lparr>mu_id = ''upd-1'', mu_requestId = ''req-1'', mu_previousStatus = SUBMITTED,
       mu_newStatus = IN_PROGRESS, mu_message = ''On it'', mu_isPublic = True,
       mu_photoUrls = [], mu_createdBy = ''landlord-1'', mu_createdAt = 100\<rparr>]
   \<and> map_option mr_status (findMaintenanceRequest ''req-1''
     (snd (landlord_maintenance_id_POST \<lparr>now = 100, newId = ''upd-1''\<rparr>
        (Some landlord1) ''req-1''
        (Parsed \<lparr>au_message = ''On it'', au_newStatus = Some IN_PROGRESS, au_isPublic = True,
                 au_photoUrls = []\<rparr>) db0))) = Some IN_PROGRESS"
proof -
  let ?e = "\<lparr>now = 100, newId = ''upd-1''\<rparr>"
  let ?mk = "\<lambda>_::string. InvalidDate"
  have r: "findMaintenanceRequest ''req-1'' db0 = Some request1"
    by (simp add: example_defs lookup_defs)
  have a: "status (fst (landlord_maintenance_id_PUT ?e ?mk (Some landlord1) ''req-1''
      (Parsed (noInput\<lparr>ui_status := Some ACKNOWLEDGED\<rparr>)) db0)) = 200"
    by (simp add: example_defs lookup_defs landlord_write_defs)
  have b: "status (fst (landlord_maintenance_id_PUT ?e ?mk (Some landlord1) ''req-1''
      (Parsed (noInput\<lparr>ui_status := Some SUBMITTED\<rparr>)) db0)) = 200"
    by (simp add: example_defs lookup_defs landlord_write_defs)
  have c: "status (fst (landlord_maintenance_id_POST ?e (Some landlord1) ''req-1''
      (Parsed \<lparr>au_message = ''On it'', au_newStatus = Some IN_PROGRESS, au_isPublic = True,
                 au_photoUrls = []\<rparr>) db0)) = 201"
    by (simp add: example_defs lookup_defs landlord_write_defs)
  have s: "mr_status request1 = SUBMITTED" "maintenanceUpdates db0 = []"
    "su_id landlord1 = ''landlord-1''"
    by (simp_all add: example_defs)
  from update_rows_of_landlord_writes [of ?e ?mk "Some landlord1" "''req-1''"
      "Parsed (noInput\<lparr>ui_status := Some ACKNOWLEDGED\<rparr>)" db0
      "Parsed \<lparr>au_message = ''On it'', au_newStatus = Some IN_PROGRESS, au_isPublic = True,
                 au_photoUrls = []\<rparr>"]
    update_rows_of_landlord_writes [of ?e ?mk "Some landlord1" "''req-1''"
      "Parsed (noInput\<lparr>ui_status := Some SUBMITTED\<rparr>)" db0 MalformedJson]
    a b c r s
  show ?thesis by (auto simp: noInput_def)
qed

text \<open>
  C1 as stated fails for the POST handler: a note posted without a new status creates
  an update row although the status does not change. Before the call the log is empty
  and the request is \<open>SUBMITTED\<close>; after it the log has one row, from \<open>SUBMITTED\<close> to
  \<open>SUBMITTED\<close>, and the request is still \<open>SUBMITTED\<close>.
\<close>

theorem update_row_without_status_change:
  "map_option mr_status (findMaintenanceRequest ''req-1'' db0) = Some SUBMITTED
   \<and> maintenanceUpdates db0 = []
   \<and> landlord_maintenance_id_POST \<lparr>now = 100, newId = ''upd-1''\<rparr> (Some landlord1) ''req-1''
       (Parsed \<lparr>au_message = ''Plumber booked'', au_newStatus = None, au_isPublic = True,
                au_photoUrls = []\<rparr>) db0
     = (json_data 201
          \<lparr>mu_id = ''upd-1'', mu_requestId = ''req-1'', mu_previousStatus = SUBMITTED,
           mu_newStatus = SUBMITTED, mu_message = ''Plumber booked'', mu_isPublic = True,
           mu_photoUrls = [], mu_createdBy = ''landlord-1'', mu_createdAt = 100\<rparr>
          (Some ''Update added successfully''),
        db0\<lparr>maintenanceUpdates :=
          [\<lparr>mu_id = ''upd-1'', mu_requestId = ''req-1'', mu_previousStatus = SUBMITTED,
            mu_newStatus = SUBMITTED, mu_message = ''Plumber booked'', mu_isPublic = True,
            mu_photoUrls = [], mu_createdBy = ''landlord-1'', mu_createdAt = 100\<rparr>]\<rparr>)"
  by (simp add: example_defs lookup_defs landlord_write_defs)

section \<open>The row of a status change is public\<close>

lemma statusLogRow_fields:
  "mu_isPublic (statusLogRow e user pid r s)"
  "mu_requestId (statusLogRow e user pid r s) = pid"
  "mu_previousStatus (statusLogRow e user pid r s) = mr_status r"
  "mu_newStatus (statusLogRow e user pid r s) = s"
  "mu_message (statusLogRow e user pid r s) =
     ''Status changed from '' @ status_text (mr_status r) @ '' to '' @ status_text s"
  by (simp_all add: statusLogRow_def statusChangeMessage_def)

lemma set_orderByCreatedAtDesc: "set (orderByCreatedAtDesc us) = set us"
  by (simp add: orderByCreatedAtDesc_def)

lemma tenant_GET_own:
  assumes "findMaintenanceRequest pid d = Some r" "mr_tenantId r = su_id tenant"
  shows "tenant_maintenance_id_GET (Some tenant) pid d =
     json_data 200
       \<lparr>mv_request = r,
        mv_updates = orderByCreatedAtDesc (filter mu_isPublic (updatesOf d pid))\<rparr> None"
  using assms by (simp add: tenant_maintenance_id_GET_def)

lemma PUT_find:
  assumes "status (fst (landlord_maintenance_id_PUT e mk session pid body d)) = 200"
    and "findMaintenanceRequest pid d = Some r"
  shows "\<exists>r'. findMaintenanceRequest pid (snd (landlord_maintenance_id_PUT e mk session pid body d))
      = Some r' \<and> mr_tenantId r' = mr_tenantId r"
proof -
  from assms(1) obtain user r0 ownerId inp where h: "session = Some user"
    "findMaintenanceRequest pid d = Some r0"
    "requestOwnerId d r0 = Some ownerId" "ownerId = su_id user \<or> su_role user = ADMIN"
    and b: "body = Parsed inp"
    and ok: "ud_scheduledDate (buildUpdateData mk (now e) r0 inp) \<noteq> Some InvalidDate"
    by (rule PUT_status_200)
  from h(2) assms(2) have eq: "r0 = r" by simp
  note h = h [unfolded eq] and ok = ok [unfolded eq]
  let ?u = "buildUpdateData mk (now e) r inp"
  have w: "findMaintenanceRequest pid
       (d\<lparr>maintenanceRequests :=
          map (\<lambda>x. if mr_id x = pid then applyUpdateData ?u x else x) (maintenanceRequests d)\<rparr>)
       = Some (applyUpdateData ?u r)"
    by (rule find_map_at_id [OF assms(2)]) (simp add: applyUpdateData_id)
  then have w': "findMaintenanceRequest pid
       (d\<lparr>maintenanceRequests :=
          map (\<lambda>x. if mr_id x = pid then applyUpdateData ?u x else x) (maintenanceRequests d),
          maintenanceUpdates := us\<rparr>)
       = Some (applyUpdateData ?u r)" for us
    by (simp add: findMaintenanceRequest_def)
  have "findMaintenanceRequest pid (snd (landlord_maintenance_id_PUT e mk session pid body d))
      = Some (applyUpdateData ?u r)"
    unfolding b PUT_granted [OF h] using ok w w' by (simp split: option.splits)
  moreover have "mr_tenantId (applyUpdateData ?u r) = mr_tenantId r"
    by (simp add: applyUpdateData_def)
  ultimately show ?thesis by simp
qed

lemma insort_key_before_last:
  "f a \<le> f x \<Longrightarrow> insort_key f a (ys @ [x]) = insort_key f a ys @ [x]"
  by (induction ys) auto

lemma sort_key_newest_last:
  assumes "\<And>y. y \<in> set xs \<Longrightarrow> f y \<le> f x"
  shows "sort_key f (xs @ [x]) = sort_key f xs @ [x]"
proof -
  have "foldr (insort_key f) xs [x] = sort_key f xs @ [x]"
    using assms
  proof (induction xs)
    case Nil
    then show ?case by simp
  next
    case (Cons a xs)
    then have "foldr (insort_key f) xs [x] = sort_key f xs @ [x]" by simp
    moreover have "f a \<le> f x" using Cons.prems by simp
    ultimately show ?case by (simp add: insort_key_before_last)
  qed
  then show ?thesis by (simp add: sort_key_def)
qed

lemma newest_update_first:
  assumes "\<And>u. u \<in> set us \<Longrightarrow> mu_createdAt u \<le> mu_createdAt row"
  shows "orderByCreatedAtDesc (us @ [row]) = row # orderByCreatedAtDesc us"
  using assms by (simp add: orderByCreatedAtDesc_def sort_key_newest_last)

lemma tenant_GET_views:
  "tenant_maintenance_GET (Some tenant) None d =
     json_data 200
       (map (\<lambda>r. \<lparr>mv_request = r,
                   mv_updates =
                     take 3 (orderByCreatedAtDesc
                       (filter mu_isPublic (updatesOf d (mr_id r))))\<rparr>)
          (rev (sort_key mr_createdAt
             (filter (\<lambda>r. mr_tenantId r = su_id tenant) (maintenanceRequests d)))))
       None"
  by (simp add: tenant_maintenance_GET_def enumFilter_def)

lemma findMaintenanceRequest_in_set:
  "findMaintenanceRequest i d = Some r \<Longrightarrow> r \<in> set (maintenanceRequests d)"
  by (auto simp: findMaintenanceRequest_def find_Some_iff)

lemma tenant_list_view:
  assumes "findMaintenanceRequest pid d = Some r" "mr_tenantId r = su_id tenant"
  shows "\<exists>vs x. data (tenant_maintenance_GET (Some tenant) None d) = Some vs
    \<and> x \<in> set vs \<and> mv_request x = r
    \<and> mv_updates x = take 3 (orderByCreatedAtDesc (filter mu_isPublic (updatesOf d pid)))"
proof -
  let ?view = "\<lambda>r. \<lparr>mv_request = r,
      mv_updates = take 3 (orderByCreatedAtDesc
        (filter mu_isPublic (updatesOf d (mr_id r))))\<rparr>"
  have i: "mr_id r = pid" using assms(1) by (rule findMaintenanceRequest_id)
  have "r \<in> set (filter (\<lambda>r. mr_tenantId r = su_id tenant) (maintenanceRequests d))"
    using findMaintenanceRequest_in_set [OF assms(1)] assms(2) by simp
  then have "?view r \<in> set (map ?view (rev (sort_key mr_createdAt
      (filter (\<lambda>r. mr_tenantId r = su_id tenant) (maintenanceRequests d)))))"
    by simp
  moreover have "mv_request (?view r) = r" by simp
  moreover have "mv_updates (?view r) =
      take 3 (orderByCreatedAtDesc (filter mu_isPublic (updatesOf d pid)))"
    by (simp only: i maintenance_view.simps)
  ultimately show ?thesis
    unfolding tenant_GET_views by (simp only: json_data_def response.simps) blast
qed

lemma tenant_single_view:
  assumes "findMaintenanceRequest pid d = Some r" "mr_tenantId r = su_id tenant"
    and "row \<in> set (maintenanceUpdates d)" "mu_requestId row = pid" "mu_isPublic row"
  shows "\<exists>v. data (tenant_maintenance_id_GET (Some tenant) pid d) = Some v
    \<and> row \<in> set (mv_updates v)"
  unfolding tenant_GET_own [OF assms(1,2)] using assms(3,4,5)
  by (simp add: json_data_def set_orderByCreatedAtDesc updatesOf_def)

text \<open>
  C10, as amended. When a successful PUT changes the status, the row it appends to the
  log is public and carries the message \<open>Status changed from <previous> to <new>\<close>
  with the two statuses; the request is still there, with the same tenant. In every
  state that holds the row and the request, the request's tenant reads the row in the
  single-request view; the tenant's list shows, for the request, the first three of its
  public updates, newest first, and no more. So the list shows the row while it is
  among these three: it is the first of them right after a change that is later than
  every update the request already has.
\<close>

theorem status_change_row_is_public:
  assumes "status (fst (landlord_maintenance_id_PUT e mk session pid (Parsed inp) d)) = 200"
    and "findMaintenanceRequest pid d = Some r"
    and "ui_status inp = Some s" and "s \<noteq> mr_status r"
  shows "\<exists>row r'. maintenanceUpdates (snd (landlord_maintenance_id_PUT e mk session pid (Parsed inp) d))
        = maintenanceUpdates d @ [row]
    \<and> mu_isPublic row
    \<and> mu_message row =
        ''Status changed from '' @ status_text (mr_status r) @ '' to '' @ status_text s
    \<and> mu_requestId row = pid \<and> mu_previousStatus row = mr_status r \<and> mu_newStatus row = s
    \<and> mu_createdAt row = now e
    \<and> findMaintenanceRequest pid (snd (landlord_maintenance_id_PUT e mk session pid (Parsed inp) d))
        = Some r'
    \<and> mr_tenantId r' = mr_tenantId r
    \<and> (\<forall>tenant d2 r2. row \<in> set (maintenanceUpdates d2)
          \<and> findMaintenanceRequest pid d2 = Some r2 \<and> mr_tenantId r2 = su_id tenant \<longrightarrow>
        (\<exists>v. data (tenant_maintenance_id_GET (Some tenant) pid d2) = Some v
           \<and> row \<in> set (mv_updates v))
        \<and> (\<exists>vs x. data (tenant_maintenance_GET (Some tenant) None d2) = Some vs
           \<and> x \<in> set vs \<and> mv_request x = r2
           \<and> mv_updates x =
               take 3 (orderByCreatedAtDesc (filter mu_isPublic (updatesOf d2 pid)))))
    \<and> ((\<forall>u \<in> set (updatesOf d pid). mu_createdAt u < now e) \<longrightarrow>
        take 3 (orderByCreatedAtDesc (filter mu_isPublic
          (updatesOf (snd (landlord_maintenance_id_PUT e mk session pid (Parsed inp) d)) pid))) =
        take 3 (row # orderByCreatedAtDesc (filter mu_isPublic (updatesOf d pid))))"
proof -
  let ?d' = "snd (landlord_maintenance_id_PUT e mk session pid (Parsed inp) d)"
  from PUT_log [OF assms(1)] assms(2,3,4) obtain user where
    log: "maintenanceUpdates ?d' = maintenanceUpdates d @ [statusLogRow e user pid r s]"
    by auto
  let ?row = "statusLogRow e user pid r s"
  from PUT_find [OF assms(1,2)] obtain r' where
    r': "findMaintenanceRequest pid ?d' = Some r'" "mr_tenantId r' = mr_tenantId r"
    by (elim exE conjE)
  have c: "mu_createdAt ?row = now e" by (simp add: statusLogRow_def)
  have ups: "updatesOf ?d' pid = updatesOf d pid @ [?row]"
    by (simp add: updatesOf_def log statusLogRow_fields)
  have reads: "\<forall>tenant d2 r2. ?row \<in> set (maintenanceUpdates d2)
          \<and> findMaintenanceRequest pid d2 = Some r2 \<and> mr_tenantId r2 = su_id tenant \<longrightarrow>
        (\<exists>v. data (tenant_maintenance_id_GET (Some tenant) pid d2) = Some v
           \<and> ?row \<in> set (mv_updates v))
        \<and> (\<exists>vs x. data (tenant_maintenance_GET (Some tenant) None d2) = Some vs
           \<and> x \<in> set vs \<and> mv_request x = r2
           \<and> mv_updates x =
               take 3 (orderByCreatedAtDesc (filter mu_isPublic (updatesOf d2 pid))))"
  proof (intro allI impI conjI)
    fix tenant :: session_user and d2 r2
    assume a: "?row \<in> set (maintenanceUpdates d2)
          \<and> findMaintenanceRequest pid d2 = Some r2 \<and> mr_tenantId r2 = su_id tenant"
    then have h: "findMaintenanceRequest pid d2 = Some r2" "mr_tenantId r2 = su_id tenant"
      "?row \<in> set (maintenanceUpdates d2)"
      by simp_all
    show "\<exists>v. data (tenant_maintenance_id_GET (Some tenant) pid d2) = Some v
           \<and> ?row \<in> set (mv_updates v)"
      by (rule tenant_single_view [OF h]) (simp_all add: statusLogRow_fields)
    show "\<exists>vs x. data (tenant_maintenance_GET (Some tenant) None d2) = Some vs
           \<and> x \<in> set vs \<and> mv_request x = r2
           \<and> mv_updates x =
               take 3 (orderByCreatedAtDesc (filter mu_isPublic (updatesOf d2 pid)))"
      by (rule tenant_list_view [OF h(1,2)])
  qed
  have newest: "(\<forall>u \<in> set (updatesOf d pid). mu_createdAt u < now e) \<longrightarrow>
        take 3 (orderByCreatedAtDesc (filter mu_isPublic (updatesOf ?d' pid))) =
        take 3 (?row # orderByCreatedAtDesc (filter mu_isPublic (updatesOf d pid)))"
  proof
    assume n: "\<forall>u \<in> set (updatesOf d pid). mu_createdAt u < now e"
    have "orderByCreatedAtDesc (filter mu_isPublic (updatesOf d pid) @ [?row]) =
        ?row # orderByCreatedAtDesc (filter mu_isPublic (updatesOf d pid))"
      by (rule newest_update_first) (use n c in auto)
    then have "orderByCreatedAtDesc (filter mu_isPublic (updatesOf ?d' pid)) =
        ?row # orderByCreatedAtDesc (filter mu_isPublic (updatesOf d pid))"
      by (simp add: ups statusLogRow_fields)
    then show "take 3 (orderByCreatedAtDesc (filter mu_isPublic (updatesOf ?d' pid))) =
        take 3 (?row # orderByCreatedAtDesc (filter mu_isPublic (updatesOf d pid)))"
      by (rule arg_cong)
  qed
  show ?thesis
    by (intro exI [of _ ?row] exI [of _ r'] conjI log r' reads newest c statusLogRow_fields)
qed

text \<open>\<open>landlord-1\<close> acknowledges the request of \<open>tenant-1\<close>: the log row \<open>upd-1\<close> is
  public and has the message, and \<open>tenant-1\<close>'s list shows it. After three more status
  changes \<open>tenant-1\<close> still reads it in the single-request view, last of four, while the
  list shows the three newer rows.\<close>

theorem status_change_row_is_public_witness:
  "\<exists>row. maintenanceUpdates (run_calls firstChange db0) = [row]
    \<and> mu_id row = ''upd-1''
    \<and> mu_isPublic row
    \<and> mu_message row = ''Status changed from SUBMITTED to ACKNOWLEDGED''
    \<and> (\<exists>vs x. data (tenant_maintenance_GET (Some tenant1) None (run_calls firstChange db0))
          = Some vs
        \<and> x \<in> set vs \<and> mv_updates x = [row])
    \<and> (\<exists>v. data (tenant_maintenance_id_GET (Some tenant1) ''req-1''
          (run_calls fourChanges db0)) = Some v
        \<and> row \<in> set (mv_updates v)
        \<and> updateIdsOf v = [''upd-4'', ''upd-3'', ''upd-2'', ''upd-1''])
    \<and> (\<exists>vs x. data (tenant_maintenance_GET (Some tenant1) None (run_calls fourChanges db0))
          = Some vs
        \<and> x \<in> set vs \<and> updateIdsOf x = [''upd-4'', ''upd-3'', ''upd-2''])"
proof -
  let ?e = "\<lparr>now = 100, newId = ''upd-1''\<rparr>"
  let ?mk = "\<lambda>_::string. InvalidDate"
  let ?inp = "noInput\<lparr>ui_status := Some ACKNOWLEDGED\<rparr>"
  let ?d1 = "snd (landlord_maintenance_id_PUT ?e ?mk (Some landlord1) ''req-1'' (Parsed ?inp)
      db0)"
  let ?row1 = "\<lparr>mu_id = ''upd-1'', mu_requestId = ''req-1'', mu_previousStatus = SUBMITTED,
       mu_newStatus = ACKNOWLEDGED,
       mu_message = ''Status changed from SUBMITTED to ACKNOWLEDGED'', mu_isPublic = True,
       mu_photoUrls = [], mu_createdBy = ''landlord-1'', mu_createdAt = 100\<rparr>"
  have d1: "run_calls firstChange db0 = ?d1"
    by (simp add: firstChange_def putStatus_def)
  have a: "status (fst (landlord_maintenance_id_PUT ?e ?mk (Some landlord1) ''req-1''
      (Parsed ?inp) db0)) = 200"
    by (simp add: example_defs lookup_defs landlord_write_defs)
  have r: "findMaintenanceRequest ''req-1'' db0 = Some request1"
    by (simp add: example_defs lookup_defs)
  have s: "ui_status ?inp = Some ACKNOWLEDGED" "ACKNOWLEDGED \<noteq> mr_status request1"
    by (simp_all add: example_defs)
  have t: "mr_tenantId request1 = su_id tenant1" "mr_status request1 = SUBMITTED"
    "maintenanceUpdates db0 = []" "updatesOf db0 ''req-1'' = []"
    by (simp_all add: example_defs lookup_defs)
  have l1: "maintenanceUpdates ?d1 = [?row1]"
    by (simp add: example_defs lookup_defs landlord_write_defs)
  have l4: "maintenanceUpdates (run_calls fourChanges db0) =
      [?row1,
       \<lparr>mu_id = ''upd-2'', mu_requestId = ''req-1'', mu_previousStatus = ACKNOWLEDGED,
        mu_newStatus = IN_PROGRESS,
        mu_message = ''Status changed from ACKNOWLEDGED to IN_PROGRESS'', mu_isPublic = True,
        mu_photoUrls = [], mu_createdBy = ''landlord-1'', mu_createdAt = 200\<rparr>,
       \<lparr>mu_id = ''upd-3'', mu_requestId = ''req-1'', mu_previousStatus = IN_PROGRESS,
        mu_newStatus = ON_HOLD,
        mu_message = ''Status changed from IN_PROGRESS to ON_HOLD'', mu_isPublic = True,
        mu_photoUrls = [], mu_createdBy = ''landlord-1'', mu_createdAt = 300\<rparr>,
       \<lparr>mu_id = ''upd-4'', mu_requestId = ''req-1'', mu_previousStatus = ON_HOLD,
        mu_newStatus = IN_PROGRESS,
        mu_message = ''Status changed from ON_HOLD to IN_PROGRESS'', mu_isPublic = True,
        mu_photoUrls = [], mu_createdBy = ''landlord-1'', mu_createdAt = 400\<rparr>]"
    by (simp add: example_defs lookup_defs landlord_write_defs)
  obtain r4 where r4: "findMaintenanceRequest ''req-1'' (run_calls fourChanges db0) = Some r4"
    "mr_tenantId r4 = su_id tenant1"
    by (simp add: example_defs lookup_defs landlord_write_defs)
  have v4: "map_option updateIdsOf (data (tenant_maintenance_id_GET (Some tenant1) ''req-1''
      (run_calls fourChanges db0))) = Some [''upd-4'', ''upd-3'', ''upd-2'', ''upd-1'']"
    unfolding tenant_GET_own [OF r4]
    by (simp add: updatesOf_def l4 orderByCreatedAtDesc_def json_data_def updateIdsOf_def)
  have o4: "map mu_id (take 3 (orderByCreatedAtDesc (filter mu_isPublic
      (updatesOf (run_calls fourChanges db0) ''req-1'')))) = [''upd-4'', ''upd-3'', ''upd-2'']"
    by (simp add: updatesOf_def l4 orderByCreatedAtDesc_def)
  from status_change_row_is_public [OF a r s] obtain row r' where
    h: "maintenanceUpdates ?d1 = maintenanceUpdates db0 @ [row]"
      "mu_isPublic row"
      "mu_message row =
        ''Status changed from '' @ status_text (mr_status request1) @ '' to '' @
        status_text ACKNOWLEDGED"
      "findMaintenanceRequest ''req-1'' ?d1 = Some r'"
      "mr_tenantId r' = mr_tenantId request1"
    and reads: "\<forall>tenant d2 r2. row \<in> set (maintenanceUpdates d2)
          \<and> findMaintenanceRequest ''req-1'' d2 = Some r2 \<and> mr_tenantId r2 = su_id tenant \<longrightarrow>
        (\<exists>v. data (tenant_maintenance_id_GET (Some tenant) ''req-1'' d2) = Some v
           \<and> row \<in> set (mv_updates v))
        \<and> (\<exists>vs x. data (tenant_maintenance_GET (Some tenant) None d2) = Some vs
           \<and> x \<in> set vs \<and> mv_request x = r2
           \<and> mv_updates x =
               take 3 (orderByCreatedAtDesc (filter mu_isPublic (updatesOf d2 ''req-1''))))"
    and newest: "(\<forall>u \<in> set (updatesOf db0 ''req-1''). mu_createdAt u < now ?e) \<longrightarrow>
        take 3 (orderByCreatedAtDesc (filter mu_isPublic (updatesOf ?d1 ''req-1''))) =
        take 3 (row # orderByCreatedAtDesc (filter mu_isPublic (updatesOf db0 ''req-1'')))"
    by (elim exE conjE) (rule that)
  from h(1) have row: "row = ?row1" unfolding l1 t(3) by simp
  from newest have n1: "take 3 (orderByCreatedAtDesc (filter mu_isPublic
      (updatesOf ?d1 ''req-1''))) = [row]"
    unfolding t(4) by (simp add: orderByCreatedAtDesc_def)
  have in1: "row \<in> set (maintenanceUpdates ?d1)" unfolding h(1) by simp
  have in4: "row \<in> set (maintenanceUpdates (run_calls fourChanges db0))"
    unfolding l4 row by simp
  from h(5) have t1: "mr_tenantId r' = su_id tenant1" unfolding t(1) .
  from reads in1 h(4) t1
  have "\<exists>vs x. data (tenant_maintenance_GET (Some tenant1) None ?d1) = Some vs
           \<and> x \<in> set vs \<and> mv_request x = r'
           \<and> mv_updates x =
               take 3 (orderByCreatedAtDesc (filter mu_isPublic (updatesOf ?d1 ''req-1'')))"
    by blast
  then obtain vs1 x1 where
    list1: "data (tenant_maintenance_GET (Some tenant1) None ?d1) = Some vs1" "x1 \<in> set vs1"
      "mv_updates x1 = [row]"
    unfolding n1 by (elim exE conjE) (rule that)
  from reads in4 r4
  have "(\<exists>v. data (tenant_maintenance_id_GET (Some tenant1) ''req-1''
            (run_calls fourChanges db0)) = Some v \<and> row \<in> set (mv_updates v))
        \<and> (\<exists>vs x. data (tenant_maintenance_GET (Some tenant1) None
            (run_calls fourChanges db0)) = Some vs
           \<and> x \<in> set vs \<and> mv_request x = r4
           \<and> mv_updates x =
               take 3 (orderByCreatedAtDesc (filter mu_isPublic
                 (updatesOf (run_calls fourChanges db0) ''req-1''))))"
    by blast
  then obtain v vs4 x4 where
    single4: "data (tenant_maintenance_id_GET (Some tenant1) ''req-1''
        (run_calls fourChanges db0)) = Some v" "row \<in> set (mv_updates v)"
    and list4: "data (tenant_maintenance_GET (Some tenant1) None (run_calls fourChanges db0))
        = Some vs4" "x4 \<in> set vs4"
      "mv_updates x4 = take 3 (orderByCreatedAtDesc (filter mu_isPublic
                 (updatesOf (run_calls fourChanges db0) ''req-1'')))"
    by (elim exE conjE) (rule that)
  from v4 single4(1) have ids: "updateIdsOf v = [''upd-4'', ''upd-3'', ''upd-2'', ''upd-1'']"
    by simp
  from list4(3) o4 have ids4: "updateIdsOf x4 = [''upd-4'', ''upd-3'', ''upd-2'']"
    by (simp add: updateIdsOf_def)
  have f: "mu_id row = ''upd-1''" "mu_message row =
      ''Status changed from SUBMITTED to ACKNOWLEDGED''"
    unfolding row by simp_all
  show ?thesis
    unfolding d1
    by (intro exI [of _ row] exI [of _ vs1] exI [of _ x1] exI [of _ v] exI [of _ vs4]
        exI [of _ x4] conjI l1 [folded row] f h(2) list1 single4 ids list4(1,2) ids4)
qed

text \<open>
  C10 as stated fails for the tenant's list: after four status changes the row of the
  first, \<open>upd-1\<close>, public and still in the log, is not among the updates the list shows
  to \<open>tenant-1\<close>, which are the three most recent.
\<close>

theorem fourth_status_change_hides_the_first:
  "maintenanceUpdates (run_calls firstChange db0) =
     [\<lparr>mu_id = ''upd-1'', mu_requestId = ''req-1'', mu_previousStatus = SUBMITTED,
       mu_newStatus = ACKNOWLEDGED,
       mu_message = ''Status changed from SUBMITTED to ACKNOWLEDGED'', mu_isPublic = True,
       mu_photoUrls = [], mu_createdBy = ''landlord-1'', mu_createdAt = 100\<rparr>]
   \<and> map mu_id (maintenanceUpdates (run_calls fourChanges db0)) =
       [''upd-1'', ''upd-2'', ''upd-3'', ''upd-4'']
   \<and> map mu_isPublic (maintenanceUpdates (run_calls fourChanges db0)) =
       [True, True, True, True]
   \<and> map_option (map updateIdsOf)
       (data (tenant_maintenance_GET (Some tenant1) None (run_calls fourChanges db0))) =
       Some [[''upd-4'', ''upd-3'', ''upd-2'']]"
  by (simp add: example_defs lookup_defs landlord_write_defs tenant_maintenance_GET_def
      enumFilter_def orderByCreatedAtDesc_def)

section \<open>Requests of others are refused\<close>

lemma landlord_list_only_own:
  assumes "data (landlord_maintenance_GET (Some user) q1 q2 q3 d) = Some vs" "x \<in> set vs"
  shows "requestOwnerId d (mv_request x) = Some (su_id user)"
  using assms
  by (auto simp: landlord_maintenance_GET_def json_error_def json_data_def Let_def
      split: option.splits if_splits prod.splits)

lemma tenant_list_only_own:
  assumes "data (tenant_maintenance_GET (Some user) q d) = Some vs" "x \<in> set vs"
  shows "mr_tenantId (mv_request x) = su_id user"
  using assms
  by (auto simp: tenant_maintenance_GET_def json_error_def json_data_def Let_def
      split: option.splits if_splits)

lemma refused_by_id:
  "(findMaintenanceRequest pid d = None \<longrightarrow>
      landlord_maintenance_id_GET (Some user) pid d =
        \<lparr>status = 404, success = False, error = Some ''Maintenance request not found'',
         message = None, data = None\<rparr>
      \<and> landlord_maintenance_id_PUT e mk (Some user) pid body d =
        (\<lparr>status = 404, success = False, error = Some ''Maintenance request not found'',
          message = None, data = None\<rparr>, d)
      \<and> landlord_maintenance_id_POST e (Some user) pid posted d =
        (\<lparr>status = 404, success = False, error = Some ''Maintenance request not found'',
          message = None, data = None\<rparr>, d)
      \<and> tenant_maintenance_id_GET (Some user) pid d =
        \<lparr>status = 404, success = False, error = Some ''Maintenance request not found'',
         message = None, data = None\<rparr>)
   \<and> (\<forall>r ownerId.
        findMaintenanceRequest pid d = Some r \<and> requestOwnerId d r = Some ownerId
          \<and> ownerId \<noteq> su_id user \<and> su_role user \<noteq> ADMIN \<longrightarrow>
        landlord_maintenance_id_GET (Some user) pid d =
          \<lparr>status = 403, success = False, error = Some ''Forbidden'', message = None,
           data = None\<rparr>
        \<and> landlord_maintenance_id_PUT e mk (Some user) pid body d =
          (\<lparr>status = 403, success = False, error = Some ''Forbidden'', message = None,
            data = None\<rparr>, d)
        \<and> landlord_maintenance_id_POST e (Some user) pid posted d =
          (\<lparr>status = 403, success = False, error = Some ''Forbidden'', message = None,
            data = None\<rparr>, d))
   \<and> (\<forall>r. findMaintenanceRequest pid d = Some r \<and> mr_tenantId r \<noteq> su_id user \<longrightarrow>
        tenant_maintenance_id_GET (Some user) pid d =
          \<lparr>status = 403, success = False, error = Some ''Forbidden'', message = None,
           data = None\<rparr>)"
  by (simp add: landlord_maintenance_id_GET_def landlord_maintenance_id_PUT_def
      landlord_maintenance_id_POST_def tenant_maintenance_id_GET_def json_error_def)

text \<open>
  C3. A signed-in caller asks for a maintenance request by id. When no request has
  the id, the landlord's GET, PUT and POST and the tenant's GET answer 404. When the
  request exists and the caller neither owns the property of the request's unit nor
  is an administrator, the landlord's three handlers answer 403 \<open>Forbidden\<close>; when the
  caller is not the request's tenant, the tenant's GET answers 403 \<open>Forbidden\<close>. None of
  these responses carries data, and the database is left as it was. The two list reads
  return only requests under the caller's own properties, and only the caller's own
  requests.
\<close>

theorem foreign_request_is_refused:
  "(findMaintenanceRequest pid d = None \<longrightarrow>
      landlord_maintenance_id_GET (Some user) pid d =
        \<lparr>status = 404, success = False, error = Some ''Maintenance request not found'',
         message = None, data = None\<rparr>
      \<and> landlord_maintenance_id_PUT e mk (Some user) pid body d =
        (\<lparr>status = 404, success = False, error = Some ''Maintenance request not found'',
          message = None, data = None\<rparr>, d)
      \<and> landlord_maintenance_id_POST e (Some user) pid posted d =
        (\<lparr>status = 404, success = False, error = Some ''Maintenance request not found'',
          message = None, data = None\<rparr>, d)
      \<and> tenant_maintenance_id_GET (Some user) pid d =
        \<lparr>status = 404, success = False, error = Some ''Maintenance request not found'',
         message = None, data = None\<rparr>)
   \<and> (\<forall>r ownerId.
        findMaintenanceRequest pid d = Some r \<and> requestOwnerId d r = Some ownerId
          \<and> ownerId \<noteq> su_id user \<and> su_role user \<noteq> ADMIN \<longrightarrow>
        landlord_maintenance_id_GET (Some user) pid d =
          \<lparr>status = 403, success = False, error = Some ''Forbidden'', message = None,
           data = None\<rparr>
        \<and> landlord_maintenance_id_PUT e mk (Some user) pid body d =
          (\<lparr>status = 403, success = False, error = Some ''Forbidden'', message = None,
            data = None\<rparr>, d)
        \<and> landlord_maintenance_id_POST e (Some user) pid posted d =
          (\<lparr>status = 403, success = False, error = Some ''Forbidden'', message = None,
            data = None\<rparr>, d))
   \<and> (\<forall>r. findMaintenanceRequest pid d = Some r \<and> mr_tenantId r \<noteq> su_id user \<longrightarrow>
        tenant_maintenance_id_GET (Some user) pid d =
          \<lparr>status = 403, success = False, error = Some ''Forbidden'', message = None,
           data = None\<rparr>)
   \<and> (\<forall>vs. data (landlord_maintenance_GET (Some user) q1 q2 q3 d) = Some vs \<longrightarrow>
        (\<forall>x \<in> set vs. requestOwnerId d (mv_request x) = Some (su_id user)))
   \<and> (\<forall>vs. data (tenant_maintenance_GET (Some user) q d) = Some vs \<longrightarrow>
        (\<forall>x \<in> set vs. mr_tenantId (mv_request x) = su_id user))"
proof -
  have lists: "(\<forall>vs. data (landlord_maintenance_GET (Some user) q1 q2 q3 d) = Some vs \<longrightarrow>
        (\<forall>x \<in> set vs. requestOwnerId d (mv_request x) = Some (su_id user)))
   \<and> (\<forall>vs. data (tenant_maintenance_GET (Some user) q d) = Some vs \<longrightarrow>
        (\<forall>x \<in> set vs. mr_tenantId (mv_request x) = su_id user))"
    using landlord_list_only_own [of user q1 q2 q3 d] tenant_list_only_own [of user q d]
    by blast
  note byId = refused_by_id [of pid d user e mk body posted]
  show ?thesis
    by (rule conjI [OF conjunct1 [OF byId]
          conjI [OF conjunct1 [OF conjunct2 [OF byId]]
            conjI [OF conjunct2 [OF conjunct2 [OF byId]] lists]]])
qed

text \<open>\<open>landlord-2\<close> and \<open>tenant-2\<close> ask for the request of \<open>tenant-1\<close> under
  \<open>landlord-1\<close>'s property, and for an id that no request has.\<close>

theorem foreign_request_is_refused_witness:
  "status (landlord_maintenance_id_GET (Some landlord2) ''req-1'' db0) = 403
   \<and> data (landlord_maintenance_id_GET (Some landlord2) ''req-1'' db0) = None
   \<and> landlord_maintenance_id_PUT \<lparr>now = 100, newId = ''upd-1''\<rparr> (\<lambda>_. InvalidDate)
        (Some landlord2) ''req-1'' (Parsed (noInput\<lparr>ui_status := Some CANCELLED\<rparr>)) db0 =
        (\<lparr>status = 403, success = False, error = Some ''Forbidden'', message = None,
          data = None\<rparr>, db0)
   \<and> status (tenant_maintenance_id_GET (Some tenant2) ''req-1'' db0) = 403
   \<and> data (tenant_maintenance_id_GET (Some tenant2) ''req-1'' db0) = None
   \<and> status (landlord_maintenance_id_GET (Some landlord2) ''req-9'' db0) = 404
   \<and> status (tenant_maintenance_id_GET (Some tenant2) ''req-9'' db0) = 404"
proof -
  have r: "findMaintenanceRequest ''req-1'' db0 = Some request1"
    "requestOwnerId db0 request1 = Some ''landlord-1''"
    "findMaintenanceRequest ''req-9'' db0 = None"
    by (simp_all add: example_defs lookup_defs)
  have u: "''landlord-1'' \<noteq> su_id landlord2" "su_role landlord2 \<noteq> ADMIN"
    "mr_tenantId request1 \<noteq> su_id tenant2"
    by (simp_all add: example_defs)
  from foreign_request_is_refused [of "''req-1''" db0 landlord2 "\<lparr>now = 100, newId = ''upd-1''\<rparr>"
      "\<lambda>_. InvalidDate" "Parsed (noInput\<lparr>ui_status := Some CANCELLED\<rparr>)" MalformedJson]
    foreign_request_is_refused [of "''req-1''" db0 tenant2 "\<lparr>now = 100, newId = ''upd-1''\<rparr>"
      "\<lambda>_. InvalidDate" MalformedJson MalformedJson]
    foreign_request_is_refused [of "''req-9''" db0 landlord2 "\<lparr>now = 100, newId = ''upd-1''\<rparr>"
      "\<lambda>_. InvalidDate" MalformedJson MalformedJson]
    foreign_request_is_refused [of "''req-9''" db0 tenant2 "\<lparr>now = 100, newId = ''upd-1''\<rparr>"
      "\<lambda>_. InvalidDate" MalformedJson MalformedJson]
    r u
  show ?thesis by simp
qed

section \<open>Which updates a read returns\<close>

lemma mset_orderByCreatedAtDesc: "mset (orderByCreatedAtDesc us) = mset us"
  by (simp add: orderByCreatedAtDesc_def)

lemma orderByCreatedAtDesc_descending:
  "sorted (rev (map mu_createdAt (orderByCreatedAtDesc us)))"
  by (simp add: orderByCreatedAtDesc_def rev_map)

lemma tenant_id_GET_data:
  assumes "data (tenant_maintenance_id_GET session pid d) = Some v"
  shows "mv_updates v = orderByCreatedAtDesc (filter mu_isPublic (updatesOf d pid))"
  using assms
  by (auto simp: tenant_maintenance_id_GET_def json_error_def json_data_def
      split: option.splits if_splits)

lemma tenant_GET_data:
  assumes "data (tenant_maintenance_GET session q d) = Some vs" "v \<in> set vs"
  shows "mv_updates v =
     take 3 (orderByCreatedAtDesc (filter mu_isPublic (updatesOf d (mr_id (mv_request v)))))"
  using assms
  by (auto simp: tenant_maintenance_GET_def json_error_def json_data_def Let_def
      split: option.splits if_splits)

lemma landlord_id_GET_data:
  assumes "data (landlord_maintenance_id_GET session pid d) = Some v"
  shows "mv_updates v = orderByCreatedAtDesc (updatesOf d pid)"
  using assms
  by (auto simp: landlord_maintenance_id_GET_def json_error_def json_data_def
      split: option.splits if_splits)

lemma landlord_GET_data:
  assumes "data (landlord_maintenance_GET session q1 q2 q3 d) = Some vs" "v \<in> set vs"
  shows "mv_updates v = take 5 (orderByCreatedAtDesc (updatesOf d (mr_id (mv_request v))))"
  using assms
  by (auto simp: landlord_maintenance_GET_def json_error_def json_data_def Let_def
      split: option.splits if_splits prod.splits)

text \<open>
  C4, as amended. The updates a tenant reads, in the single-request view and in the
  list view, contain no row with \<open>isPublic = false\<close>: the single-request view returns
  exactly the public updates of the request, the list view the first three of them.
  The landlord's single-request read returns all updates of the request, public or
  not. The landlord's list read applies no \<open>isPublic\<close> filter either, and returns the
  first five of each request's updates, most recent first.
\<close>

theorem updates_returned_by_reads:
  "(data (tenant_maintenance_id_GET session pid d) = Some v \<longrightarrow>
      (\<forall>u \<in> set (mv_updates v). mu_isPublic u)
      \<and> mset (mv_updates v) = mset (filter mu_isPublic (updatesOf d pid)))
   \<and> (data (tenant_maintenance_GET session q d) = Some vs \<longrightarrow>
      (\<forall>x \<in> set vs.
         (\<forall>u \<in> set (mv_updates x). mu_isPublic u)
         \<and> mv_updates x =
             take 3 (orderByCreatedAtDesc
               (filter mu_isPublic (updatesOf d (mr_id (mv_request x)))))))
   \<and> (data (landlord_maintenance_id_GET session pid d) = Some w \<longrightarrow>
      mset (mv_updates w) = mset (updatesOf d pid))
   \<and> (data (landlord_maintenance_GET session q1 q2 q3 d) = Some ws \<longrightarrow>
      (\<forall>x \<in> set ws.
         mv_updates x = take 5 (orderByCreatedAtDesc (updatesOf d (mr_id (mv_request x))))))"
proof (intro conjI impI ballI)
  fix u assume "data (tenant_maintenance_id_GET session pid d) = Some v" "u \<in> set (mv_updates v)"
  then show "mu_isPublic u"
    by (simp add: tenant_id_GET_data orderByCreatedAtDesc_def)
next
  assume "data (tenant_maintenance_id_GET session pid d) = Some v"
  then show "mset (mv_updates v) = mset (filter mu_isPublic (updatesOf d pid))"
    by (simp add: tenant_id_GET_data mset_orderByCreatedAtDesc)
next
  fix x u assume a: "data (tenant_maintenance_GET session q d) = Some vs" "x \<in> set vs"
    and u: "u \<in> set (mv_updates x)"
  from u have "u \<in> set (orderByCreatedAtDesc
      (filter mu_isPublic (updatesOf d (mr_id (mv_request x)))))"
    unfolding tenant_GET_data [OF a] by (rule in_set_takeD)
  then show "mu_isPublic u" by (simp add: orderByCreatedAtDesc_def)
next
  fix x assume "data (tenant_maintenance_GET session q d) = Some vs" "x \<in> set vs"
  then show "mv_updates x =
      take 3 (orderByCreatedAtDesc (filter mu_isPublic (updatesOf d (mr_id (mv_request x)))))"
    by (rule tenant_GET_data)
next
  assume "data (landlord_maintenance_id_GET session pid d) = Some w"
  then show "mset (mv_updates w) = mset (updatesOf d pid)"
    by (simp add: landlord_id_GET_data mset_orderByCreatedAtDesc)
next
  fix x assume "data (landlord_maintenance_GET session q1 q2 q3 d) = Some ws" "x \<in> set ws"
  then show "mv_updates x = take 5 (orderByCreatedAtDesc (updatesOf d (mr_id (mv_request x))))"
    by (rule landlord_GET_data)
qed

lemmas read_defs =
  tenant_maintenance_id_GET_def tenant_maintenance_GET_def landlord_maintenance_id_GET_def
  landlord_maintenance_GET_def enumFilter_def orderByCreatedAtDesc_def json_data_def
  json_error_def Let_def

text \<open>On the six notes: \<open>tenant-1\<close> never reads the internal note \<open>n2\<close>, the landlord's
  single-request read has all six, and the landlord's list has five.\<close>

theorem updates_returned_by_reads_witness:
  "map_option (\<lambda>v. map mu_id (mv_updates v))
      (data (tenant_maintenance_id_GET (Some tenant1) ''req-1'' db6))
     = Some [''n6'', ''n5'', ''n4'', ''n3'', ''n1'']
   \<and> map_option (map (\<lambda>v. map mu_id (mv_updates v)))
      (data (tenant_maintenance_GET (Some tenant1) None db6))
     = Some [[''n6'', ''n5'', ''n4'']]
   \<and> map_option (\<lambda>v. map mu_id (mv_updates v))
      (data (landlord_maintenance_id_GET (Some landlord1) ''req-1'' db6))
     = Some [''n6'', ''n5'', ''n4'', ''n3'', ''n2'', ''n1'']
   \<and> (\<exists>w. data (landlord_maintenance_id_GET (Some landlord1) ''req-1'' db6) = Some w
        \<and> mset (mv_updates w) = mset (updatesOf db6 ''req-1''))"
proof -
  have "map_option (\<lambda>v. map mu_id (mv_updates v))
      (data (tenant_maintenance_id_GET (Some tenant1) ''req-1'' db6))
     = Some [''n6'', ''n5'', ''n4'', ''n3'', ''n1'']"
    by (simp add: example_defs lookup_defs read_defs)
  moreover have "map_option (map (\<lambda>v. map mu_id (mv_updates v)))
      (data (tenant_maintenance_GET (Some tenant1) None db6))
     = Some [[''n6'', ''n5'', ''n4'']]"
    by (simp add: example_defs lookup_defs read_defs)
  moreover have "map_option (\<lambda>v. map mu_id (mv_updates v))
      (data (landlord_maintenance_id_GET (Some landlord1) ''req-1'' db6))
     = Some [''n6'', ''n5'', ''n4'', ''n3'', ''n2'', ''n1'']"
    by (simp add: example_defs lookup_defs read_defs)
  moreover have "\<exists>w. data (landlord_maintenance_id_GET (Some landlord1) ''req-1'' db6) = Some w
        \<and> mset (mv_updates w) = mset (updatesOf db6 ''req-1'')"
  proof -
    obtain w where w: "data (landlord_maintenance_id_GET (Some landlord1) ''req-1'' db6) = Some w"
      by (simp add: example_defs lookup_defs read_defs)
    with updates_returned_by_reads [where session = "Some landlord1" and pid = "''req-1''"
        and d = db6 and w = w]
    show ?thesis by blast
  qed
  ultimately show ?thesis by blast
qed

text \<open>
  C4 as stated fails for the landlord's list: of the six updates of the request it
  returns five, and the oldest, \<open>n1\<close>, is missing.
\<close>

theorem landlord_list_returns_five_updates:
  "map mu_id (updatesOf db6 ''req-1'') = [''n1'', ''n2'', ''n3'', ''n4'', ''n5'', ''n6'']
   \<and> map_option (map updateIdsOf)
      (data (landlord_maintenance_GET (Some landlord1) None None None db6))
     = Some [[''n6'', ''n5'', ''n4'', ''n3'', ''n2'']]"
  by (simp add: example_defs lookup_defs read_defs)

section \<open>Deleting under a running lease\<close>

lemma activeLeasesOf_nonempty:
  "length (activeLeasesOf d unitId) > 0 \<longleftrightarrow>
     (\<exists>l \<in> set (leases d). l_unitId l = unitId
        \<and> (l_status l = ACTIVE \<or> l_status l = PENDING_SIGNATURE))"
  by (auto simp: activeLeasesOf_def filter_empty_conv)

lemma unit_DELETE_outcomes:
  assumes "length (activeLeasesOf d unitId) > 0"
  shows "unit_DELETE session pid unitId d \<in>
     {(json_error 401 ''Unauthorized'', d), (json_error 404 ''Property not found'', d),
      (json_error 403 ''Forbidden'', d), (json_error 404 ''Unit not found'', d),
      (json_error 400 ''Unit does not belong to this property'', d),
      (json_error 400
         ''Cannot delete unit with active leases. Please terminate the lease first.'', d)}"
  using assms
  by (simp add: unit_DELETE_def verifyOwnership_def split: option.splits)

lemma unit_DELETE_rejected:
  assumes "\<exists>l \<in> set (leases d). l_unitId l = unitId
        \<and> (l_status l = ACTIVE \<or> l_status l = PENDING_SIGNATURE)"
  shows "snd (unit_DELETE session pid unitId d) = d"
    and "status (fst (unit_DELETE session pid unitId d)) \<in> {400, 401, 403, 404}"
    and "\<not> success (fst (unit_DELETE session pid unitId d))"
proof -
  from assms have a: "length (activeLeasesOf d unitId) > 0"
    by (simp only: activeLeasesOf_nonempty)
  from unit_DELETE_outcomes [OF a, of session pid]
  show "snd (unit_DELETE session pid unitId d) = d"
    and "status (fst (unit_DELETE session pid unitId d)) \<in> {400, 401, 403, 404}"
    and "\<not> success (fst (unit_DELETE session pid unitId d))"
    by (auto simp: json_error_def)
qed

lemma unit_DELETE_rejected_400:
  assumes "\<exists>l \<in> set (leases d). l_unitId l = unitId
        \<and> (l_status l = ACTIVE \<or> l_status l = PENDING_SIGNATURE)"
    and "findProperty pid d = Some p" "p_ownerId p = su_id user \<or> su_role user = ADMIN"
    and "findUnit unitId d = Some u" "u_propertyId u = pid"
  shows "fst (unit_DELETE (Some user) pid unitId d) =
     \<lparr>status = 400, success = False,
      error = Some ''Cannot delete unit with active leases. Please terminate the lease first.'',
      message = None, data = None\<rparr>"
proof -
  from assms(1) have a: "length (activeLeasesOf d unitId) > 0"
    by (simp only: activeLeasesOf_nonempty)
  with assms(2-) show ?thesis
    by (simp add: unit_DELETE_def verifyOwnership_def json_error_def)
qed

lemma hasActiveLeases_iff:
  "list_ex (\<lambda>u. length (activeLeasesOf d (u_id u)) > 0) (filter (\<lambda>u. u_propertyId u = pid) (units d))
   \<longleftrightarrow> (\<exists>u \<in> set (units d). u_propertyId u = pid
         \<and> (\<exists>l \<in> set (leases d). l_unitId l = u_id u
              \<and> (l_status l = ACTIVE \<or> l_status l = PENDING_SIGNATURE)))"
  unfolding list_ex_iff activeLeasesOf_nonempty by auto

lemma property_DELETE_outcomes:
  assumes "list_ex (\<lambda>u. length (activeLeasesOf d (u_id u)) > 0)
      (filter (\<lambda>u. u_propertyId u = pid) (units d))"
  shows "property_DELETE session pid d \<in>
     {(json_error 401 ''Unauthorized'', d), (json_error 404 ''Property not found'', d),
      (json_error 403 ''Forbidden'', d),
      (json_error 400
         ''Cannot delete property with active leases. Please terminate all leases first.'',
       d)}"
  using assms
  by (simp add: property_DELETE_def Let_def split: option.splits)

lemma property_DELETE_rejected:
  assumes "\<exists>u \<in> set (units d). u_propertyId u = pid
         \<and> (\<exists>l \<in> set (leases d). l_unitId l = u_id u
              \<and> (l_status l = ACTIVE \<or> l_status l = PENDING_SIGNATURE))"
  shows "snd (property_DELETE session pid d) = d"
    and "status (fst (property_DELETE session pid d)) \<in> {400, 401, 403, 404}"
    and "\<not> success (fst (property_DELETE session pid d))"
proof -
  from assms have a: "list_ex (\<lambda>u. length (activeLeasesOf d (u_id u)) > 0)
      (filter (\<lambda>u. u_propertyId u = pid) (units d))"
    by (simp only: hasActiveLeases_iff)
  from property_DELETE_outcomes [OF a, of session]
  show "snd (property_DELETE session pid d) = d"
    and "status (fst (property_DELETE session pid d)) \<in> {400, 401, 403, 404}"
    and "\<not> success (fst (property_DELETE session pid d))"
    by (auto simp: json_error_def)
qed

lemma property_DELETE_rejected_400:
  assumes "\<exists>u \<in> set (units d). u_propertyId u = pid
         \<and> (\<exists>l \<in> set (leases d). l_unitId l = u_id u
              \<and> (l_status l = ACTIVE \<or> l_status l = PENDING_SIGNATURE))"
    and "findProperty pid d = Some p" "p_ownerId p = su_id user \<or> su_role user = ADMIN"
  shows "fst (property_DELETE (Some user) pid d) =
     \<lparr>status = 400, success = False,
      error = Some ''Cannot delete property with active leases. Please terminate all leases first.'',
      message = None, data = None\<rparr>"
proof -
  from assms(1) have a: "list_ex (\<lambda>u. length (activeLeasesOf d (u_id u)) > 0)
      (filter (\<lambda>u. u_propertyId u = pid) (units d))"
    by (simp only: hasActiveLeases_iff)
  with assms(2-) show ?thesis
    by (simp add: property_DELETE_def json_error_def Let_def)
qed

text \<open>
  C5. When some lease of the unit is \<open>ACTIVE\<close> or \<open>PENDING_SIGNATURE\<close>, the unit's DELETE
  leaves the database as it was and fails with a 4xx status, whoever calls it; for a
  caller who may delete (signed in, owner of the property or administrator, the unit
  in the property) the status is 400 with the handler's message about active leases.
  The same holds for the property's DELETE when some unit of the property has such a
  lease.
\<close>

theorem delete_with_running_lease_is_rejected:
  "((\<exists>l \<in> set (leases d). l_unitId l = unitId
        \<and> (l_status l = ACTIVE \<or> l_status l = PENDING_SIGNATURE)) \<longrightarrow>
      snd (unit_DELETE session pid unitId d) = d
      \<and> status (fst (unit_DELETE session pid unitId d)) \<in> {400, 401, 403, 404}
      \<and> \<not> success (fst (unit_DELETE session pid unitId d))
      \<and> (\<forall>user p u. session = Some user \<and> findProperty pid d = Some p
            \<and> (p_ownerId p = su_id user \<or> su_role user = ADMIN)
            \<and> findUnit unitId d = Some u \<and> u_propertyId u = pid \<longrightarrow>
          fst (unit_DELETE session pid unitId d) =
            \<lparr>status = 400, success = False,
             error = Some
               ''Cannot delete unit with active leases. Please terminate the lease first.'',
             message = None, data = None\<rparr>))
   \<and> ((\<exists>u \<in> set (units d). u_propertyId u = pid
         \<and> (\<exists>l \<in> set (leases d). l_unitId l = u_id u
              \<and> (l_status l = ACTIVE \<or> l_status l = PENDING_SIGNATURE))) \<longrightarrow>
      snd (property_DELETE session pid d) = d
      \<and> status (fst (property_DELETE session pid d)) \<in> {400, 401, 403, 404}
      \<and> \<not> success (fst (property_DELETE session pid d))
      \<and> (\<forall>user p. session = Some user \<and> findProperty pid d = Some p
            \<and> (p_ownerId p = su_id user \<or> su_role user = ADMIN) \<longrightarrow>
          fst (property_DELETE session pid d) =
            \<lparr>status = 400, success = False,
             error = Some
               ''Cannot delete property with active leases. Please terminate all leases first.'',
             message = None, data = None\<rparr>))"
proof (intro conjI impI allI)
  assume a: "\<exists>l \<in> set (leases d). l_unitId l = unitId
        \<and> (l_status l = ACTIVE \<or> l_status l = PENDING_SIGNATURE)"
  show "snd (unit_DELETE session pid unitId d) = d"
    and "status (fst (unit_DELETE session pid unitId d)) \<in> {400, 401, 403, 404}"
    and "\<not> success (fst (unit_DELETE session pid unitId d))"
    by (rule unit_DELETE_rejected [OF a])+
  fix user p u
  assume "session = Some user \<and> findProperty pid d = Some p
            \<and> (p_ownerId p = su_id user \<or> su_role user = ADMIN)
            \<and> findUnit unitId d = Some u \<and> u_propertyId u = pid"
  then show "fst (unit_DELETE session pid unitId d) =
            \<lparr>status = 400, success = False,
             error = Some
               ''Cannot delete unit with active leases. Please terminate the lease first.'',
             message = None, data = None\<rparr>"
    using unit_DELETE_rejected_400 [OF a, of pid p user u] by simp
next
  assume a: "\<exists>u \<in> set (units d). u_propertyId u = pid
         \<and> (\<exists>l \<in> set (leases d). l_unitId l = u_id u
              \<and> (l_status l = ACTIVE \<or> l_status l = PENDING_SIGNATURE))"
  show "snd (property_DELETE session pid d) = d"
    and "status (fst (property_DELETE session pid d)) \<in> {400, 401, 403, 404}"
    and "\<not> success (fst (property_DELETE session pid d))"
    by (rule property_DELETE_rejected [OF a])+
  fix user p
  assume "session = Some user \<and> findProperty pid d = Some p
            \<and> (p_ownerId p = su_id user \<or> su_role user = ADMIN)"
  then show "fst (property_DELETE session pid d) =
            \<lparr>status = 400, success = False,
             error = Some
               ''Cannot delete property with active leases. Please terminate all leases first.'',
             message = None, data = None\<rparr>"
    using property_DELETE_rejected_400 [OF a, of p user] by simp
qed

text \<open>\<open>unit-1\<close> of \<open>prop-1\<close> is under the active \<open>lease-1\<close>: its owner can delete neither
  the unit nor the property, and gets 400.\<close>

theorem delete_with_running_lease_is_rejected_witness:
  "unit_DELETE (Some landlord1) ''prop-1'' ''unit-1'' db0 =
     (\<lparr>status = 400, success = False,
       error = Some ''Cannot delete unit with active leases. Please terminate the lease first.'',
       message = None, data = None\<rparr>, db0)
   \<and> property_DELETE (Some landlord1) ''prop-1'' db0 =
     (\<lparr>status = 400, success = False,
       error = Some
         ''Cannot delete property with active leases. Please terminate all leases first.'',
       message = None, data = None\<rparr>, db0)"
proof -
  have l: "\<exists>l \<in> set (leases db0). l_unitId l = ''unit-1''
        \<and> (l_status l = ACTIVE \<or> l_status l = PENDING_SIGNATURE)"
    by (simp add: example_defs)
  have u: "\<exists>u \<in> set (units db0). u_propertyId u = ''prop-1''
         \<and> (\<exists>l \<in> set (leases db0). l_unitId l = u_id u
              \<and> (l_status l = ACTIVE \<or> l_status l = PENDING_SIGNATURE))"
    by (simp add: example_defs)
  have p: "findProperty ''prop-1'' db0 =
      Some \<lparr>p_id = ''prop-1'', p_ownerId = ''landlord-1'', p_totalUnits = 2\<rparr>"
    "findUnit ''unit-1'' db0 = Some \<lparr>u_id = ''unit-1'', u_propertyId = ''prop-1'',
        u_status = OCCUPIED, u_monthlyRent = 1200, u_depositAmount = 1200\<rparr>"
    "su_id landlord1 = ''landlord-1''"
    by (simp_all add: example_defs lookup_defs)
  from delete_with_running_lease_is_rejected [of db0 "''unit-1''" "Some landlord1" "''prop-1''"]
    l u p
  show ?thesis by (auto simp: prod_eq_iff)
qed

section \<open>The onboarding transaction\<close>

lemma onboarding_transaction_Some:
  assumes "onboarding_transaction e pf uid inp u ip d = Some (nl, d')"
  shows "\<exists>dob start. findUser uid d \<noteq> None
    \<and> newDate pf (ob_dateOfBirth inp) = Date dob
    \<and> newDate pf (ob_moveInDate inp) = Date start
    \<and> nl = onboardingLease e uid inp u start
           (addMonthsValid pf start (leaseMonths (ob_leaseTerm inp))) ip
    \<and> d' = d\<lparr>users :=
               map (\<lambda>x. if usr_id x = uid then onboardedUser pf inp dob x else x) (users d),
             leases := leases d @ [nl],
             units :=
               map (\<lambda>x. if u_id x = ob_unitId inp then x\<lparr>u_status := RESERVED\<rparr> else x)
                 (units d),
             auditLogs := auditLogs d @ [onboardingAudit uid inp nl ip]\<rparr>"
proof -
  from assms obtain d1 where d1: "user_update_onboarding pf uid inp d = Some d1"
    by (auto simp: onboarding_transaction_def Let_def split: option.splits)
  then obtain x dob where x: "findUser uid d = Some x"
    and dob: "newDate pf (ob_dateOfBirth inp) = Date dob"
    and d1': "d1 = d\<lparr>users :=
        map (\<lambda>x. if usr_id x = uid then onboardedUser pf inp dob x else x) (users d)\<rparr>"
    by (auto simp: user_update_onboarding_def split: option.splits jsdate.splits)
  let ?start = "newDate pf (ob_moveInDate inp)"
  let ?end = "addMonths pf ?start (leaseMonths (ob_leaseTerm inp))"
  from assms d1 obtain nl0 d2 where
    d2: "lease_create_onboarding e uid inp u ?start ?end ip d1 = Some (nl0, d2)"
    by (auto simp: onboarding_transaction_def Let_def split: option.splits)
  then obtain start where start: "?start = Date start"
    and nl0: "nl0 = onboardingLease e uid inp u start
        (addMonthsValid pf start (leaseMonths (ob_leaseTerm inp))) ip"
    and d2': "d2 = d1\<lparr>leases := leases d1 @ [nl0]\<rparr>"
    by (auto simp: lease_create_onboarding_def addMonths_def Let_def split: jsdate.splits)
  from assms d1 d2 obtain d3 where
    d3: "unit_update_status (ob_unitId inp) RESERVED d2 = Some d3"
    and res: "nl = nl0" "d' = auditLog_create (onboardingAudit uid inp nl0 ip) d3"
    by (auto simp: onboarding_transaction_def Let_def split: option.splits)
  from d3 have d3': "d3 = d2\<lparr>units :=
      map (\<lambda>x. if u_id x = ob_unitId inp then x\<lparr>u_status := RESERVED\<rparr> else x) (units d2)\<rparr>"
    by (auto simp: unit_update_status_def split: option.splits)
  have "d' = d\<lparr>users :=
               map (\<lambda>x. if usr_id x = uid then onboardedUser pf inp dob x else x) (users d),
             leases := leases d @ [nl],
             units :=
               map (\<lambda>x. if u_id x = ob_unitId inp then x\<lparr>u_status := RESERVED\<rparr> else x)
                 (units d),
             auditLogs := auditLogs d @ [onboardingAudit uid inp nl ip]\<rparr>"
    unfolding res d3' d2' d1' auditLog_create_def by simp
  with x dob start nl0 res(1) show ?thesis by auto
qed

lemma onboarding_not_201:
  assumes "status (fst (onboarding_submit_POST e pf session fwd body d)) \<noteq> 201"
  shows "snd (onboarding_submit_POST e pf session fwd body d) = d"
  using assms
  by (auto simp: onboarding_submit_POST_def json_error_def json_data_def
      split: option.splits body.splits if_splits)

lemma onboarding_201:
  assumes "status (fst (onboarding_submit_POST e pf session fwd body d)) = 201"
  shows "\<exists>user inp u nl d'. session = Some user \<and> body = Parsed inp
    \<and> findUnit (ob_unitId inp) d = Some u \<and> u_status u = VACANT
    \<and> onboarding_transaction e pf (su_id user) inp u (clientIpOf fwd) d = Some (nl, d')
    \<and> onboarding_submit_POST e pf session fwd body d =
        (json_data 201
           (l_id nl, ''Application submitted successfully. Awaiting landlord approval.'') None,
         d')"
  using assms
  by (auto simp: onboarding_submit_POST_def json_error_def
      split: option.splits body.splits if_splits)

lemma onboarding_409:
  assumes "findUnit (ob_unitId inp) d = Some u" "u_status u \<noteq> VACANT"
  shows "onboarding_submit_POST e pf (Some user) fwd (Parsed inp) d =
     (\<lparr>status = 409, success = False, error = Some ''This unit is no longer available'',
       message = None, data = None\<rparr>, d)"
  using assms by (simp add: onboarding_submit_POST_def json_error_def)

lemmas onboarding_defs =
  onboarding_submit_POST_def onboarding_transaction_def user_update_onboarding_def
  lease_create_onboarding_def unit_update_status_def auditLog_create_def addMonths_def
  onboardedUser_def onboardingLease_def onboardingAudit_def encrypt_def clientIpOf_def
  trim_def isSpace_def json_data_def json_error_def Let_def

text \<open>
  C6. A submission that is not answered 201 leaves the database as it was. A
  submission answered 201 comes from a signed-in user with a valid body for a unit
  that was \<open>VACANT\<close>; the two dates of the body are valid; and the database after it
  differs from the one before in exactly four writes. The profile of the submitting
  user gets the names, the phone, the date of birth read from the body, the
  encrypted last four digits, the emergency contact and the status \<open>ACTIVE\<close>. One lease
  is added, of that user for the selected unit, with status \<open>PENDING_SIGNATURE\<close>, from
  the move-in date for the lease term, at the unit's rent and deposit, signed now from
  the client's address. The selected unit's status becomes \<open>RESERVED\<close>. One audit-log
  row is added, for that lease. The response carries the id of the lease. A signed-in,
  valid submission for a unit that exists and is not \<open>VACANT\<close> is answered 409 and
  writes nothing.
\<close>

theorem onboarding_writes_all_or_nothing:
  "(status (fst (onboarding_submit_POST e pf session fwd body d)) \<noteq> 201 \<longrightarrow>
      snd (onboarding_submit_POST e pf session fwd body d) = d)
   \<and> (status (fst (onboarding_submit_POST e pf session fwd body d)) = 201 \<longrightarrow>
      (\<exists>user inp u dob start. session = Some user \<and> body = Parsed inp
         \<and> findUnit (ob_unitId inp) d = Some u \<and> u_status u = VACANT
         \<and> findUser (su_id user) d \<noteq> None
         \<and> newDate pf (ob_dateOfBirth inp) = Date dob
         \<and> newDate pf (ob_moveInDate inp) = Date start
         \<and> data (fst (onboarding_submit_POST e pf session fwd body d)) =
             Some (newId e,
                   ''Application submitted successfully. Awaiting landlord approval.'')
         \<and> snd (onboarding_submit_POST e pf session fwd body d) =
             d\<lparr>users :=
                 map (\<lambda>x. if usr_id x = su_id user
                        then x\<lparr>usr_firstName := ob_firstName inp,
                               usr_lastName := ob_lastName inp,
                               usr_phone := Some (ob_phone inp),
                               usr_dateOfBirth := Some dob,
                               usr_ssnEncrypted :=
                                 Some (if ob_ssnLast4 inp = [] then []
                                       else aes pf (ob_ssnLast4 inp)),
                               usr_emergencyContactName := Some (ob_emergencyContactName inp),
                               usr_emergencyContactPhone := Some (ob_emergencyContactPhone inp),
                               usr_emergencyContactRelation :=
                                 Some (ob_emergencyContactRelation inp),
                               usr_status := USER_ACTIVE\<rparr>
                        else x)
                   (users d),
               leases :=
                 leases d @
                   [\<lparr>l_id = newId e, l_tenantId = su_id user, l_unitId = ob_unitId inp,
                     l_status = PENDING_SIGNATURE, l_startDate = start,
                     l_endDate = addMonthsValid pf start (leaseMonths (ob_leaseTerm inp)),
                     l_monthlyRent = u_monthlyRent u, l_depositAmount = u_depositAmount u,
                     l_rentDueDay = 1, l_gracePeriodDays = 5,
                     l_tenantSignature = Some (ob_signature inp),
                     l_tenantSignedAt = Some (now e),
                     l_tenantSignedIp = Some (clientIpOf fwd),
                     l_moveInDate = Some start\<rparr>],
               units :=
                 map (\<lambda>x. if u_id x = ob_unitId inp then x\<lparr>u_status := RESERVED\<rparr> else x)
                   (units d),
               auditLogs :=
                 auditLogs d @
                   [\<lparr>al_userId = su_id user, al_action = ''TENANT_ONBOARDING_COMPLETED'',
                     al_entityType = ''Lease'', al_entityId = newId e,
                     al_ipAddress = clientIpOf fwd,
                     al_newValues =
                       [(''unitId'', ob_unitId inp), (''leaseId'', newId e),
                        (''moveInDate'', ob_moveInDate inp),
                        (''leaseTerm'', leaseTerm_text (ob_leaseTerm inp))]\<rparr>]\<rparr>))
   \<and> (\<forall>user inp u. session = Some user \<and> body = Parsed inp
         \<and> findUnit (ob_unitId inp) d = Some u \<and> u_status u \<noteq> VACANT \<longrightarrow>
       onboarding_submit_POST e pf session fwd body d =
         (\<lparr>status = 409, success = False, error = Some ''This unit is no longer available'',
           message = None, data = None\<rparr>, d))"
proof (intro conjI impI allI)
  assume "status (fst (onboarding_submit_POST e pf session fwd body d)) \<noteq> 201"
  then show "snd (onboarding_submit_POST e pf session fwd body d) = d"
    by (rule onboarding_not_201)
next
  let ?R = "onboarding_submit_POST e pf session fwd body d"
  assume "status (fst ?R) = 201"
  from onboarding_201 [OF this] obtain user inp u nl d' where
    h: "session = Some user" "body = Parsed inp" "findUnit (ob_unitId inp) d = Some u"
      "u_status u = VACANT"
    and tx: "onboarding_transaction e pf (su_id user) inp u (clientIpOf fwd) d = Some (nl, d')"
    and res: "?R =
        (json_data 201
           (l_id nl, ''Application submitted successfully. Awaiting landlord approval.'') None,
         d')"
    by (elim exE conjE)
  from onboarding_transaction_Some [OF tx] obtain dob start where
    t: "findUser (su_id user) d \<noteq> None"
      "newDate pf (ob_dateOfBirth inp) = Date dob"
      "newDate pf (ob_moveInDate inp) = Date start"
    and nl: "nl = onboardingLease e (su_id user) inp u start
           (addMonthsValid pf start (leaseMonths (ob_leaseTerm inp))) (clientIpOf fwd)"
    and d': "d' = d\<lparr>users :=
               map (\<lambda>x. if usr_id x = su_id user then onboardedUser pf inp dob x else x)
                 (users d),
             leases := leases d @ [nl],
             units :=
               map (\<lambda>x. if u_id x = ob_unitId inp then x\<lparr>u_status := RESERVED\<rparr> else x)
                 (units d),
             auditLogs := auditLogs d @ [onboardingAudit (su_id user) inp nl (clientIpOf fwd)]\<rparr>"
    by (elim exE conjE)
  have i: "l_id nl = newId e" unfolding nl by (simp add: onboardingLease_def)
  have a: "data (fst ?R) =
      Some (newId e, ''Application submitted successfully. Awaiting landlord approval.'')"
    unfolding res by (simp add: json_data_def i)
  have b: "snd ?R = d'" unfolding res by simp
  note w = b [unfolded d' nl onboardedUser_def onboardingLease_def onboardingAudit_def
      encrypt_def lease.simps]
  show "\<exists>user inp u dob start. session = Some user \<and> body = Parsed inp
         \<and> findUnit (ob_unitId inp) d = Some u \<and> u_status u = VACANT
         \<and> findUser (su_id user) d \<noteq> None
         \<and> newDate pf (ob_dateOfBirth inp) = Date dob
         \<and> newDate pf (ob_moveInDate inp) = Date start
         \<and> data (fst (onboarding_submit_POST e pf session fwd body d)) =
             Some (newId e,
                   ''Application submitted successfully. Awaiting landlord approval.'')
         \<and> snd (onboarding_submit_POST e pf session fwd body d) =
             d\<lparr>users :=
                 map (\<lambda>x. if usr_id x = su_id user
                        then x\<lparr>usr_firstName := ob_firstName inp,
                               usr_lastName := ob_lastName inp,
                               usr_phone := Some (ob_phone inp),
                               usr_dateOfBirth := Some dob,
                               usr_ssnEncrypted :=
                                 Some (if ob_ssnLast4 inp = [] then []
                                       else aes pf (ob_ssnLast4 inp)),
                               usr_emergencyContactName := Some (ob_emergencyContactName inp),
                               usr_emergencyContactPhone := Some (ob_emergencyContactPhone inp),
                               usr_emergencyContactRelation :=
                                 Some (ob_emergencyContactRelation inp),
                               usr_status := USER_ACTIVE\<rparr>
                        else x)
                   (users d),
               leases :=
                 leases d @
                   [\<lparr>l_id = newId e, l_tenantId = su_id user, l_unitId = ob_unitId inp,
                     l_status = PENDING_SIGNATURE, l_startDate = start,
                     l_endDate = addMonthsValid pf start (leaseMonths (ob_leaseTerm inp)),
                     l_monthlyRent = u_monthlyRent u, l_depositAmount = u_depositAmount u,
                     l_rentDueDay = 1, l_gracePeriodDays = 5,
                     l_tenantSignature = Some (ob_signature inp),
                     l_tenantSignedAt = Some (now e),
                     l_tenantSignedIp = Some (clientIpOf fwd),
                     l_moveInDate = Some start\<rparr>],
               units :=
                 map (\<lambda>x. if u_id x = ob_unitId inp then x\<lparr>u_status := RESERVED\<rparr> else x)
                   (units d),
               auditLogs :=
                 auditLogs d @
                   [\<lparr>al_userId = su_id user, al_action = ''TENANT_ONBOARDING_COMPLETED'',
                     al_entityType = ''Lease'', al_entityId = newId e,
                     al_ipAddress = clientIpOf fwd,
                     al_newValues =
                       [(''unitId'', ob_unitId inp), (''leaseId'', newId e),
                        (''moveInDate'', ob_moveInDate inp),
                        (''leaseTerm'', leaseTerm_text (ob_leaseTerm inp))]\<rparr>]\<rparr>"
    by (intro exI [of _ user] exI [of _ inp] exI [of _ u] exI [of _ dob] exI [of _ start]
        conjI h t a w)
next
  fix user inp u
  assume "session = Some user \<and> body = Parsed inp
         \<and> findUnit (ob_unitId inp) d = Some u \<and> u_status u \<noteq> VACANT"
  then show "onboarding_submit_POST e pf session fwd body d =
         (\<lparr>status = 409, success = False, error = Some ''This unit is no longer available'',
           message = None, data = None\<rparr>, d)"
    using onboarding_409 [of inp d u e pf user fwd] by simp
qed

text \<open>\<open>tenant-1\<close> applies for the vacant \<open>unit-2\<close> at time 50: 201 with the id \<open>lease-2\<close>;
  the profile of \<open>tenant-1\<close> is filled in and active, the lease \<open>lease-2\<close> is pending
  signature for twelve months from the move-in date, the unit is reserved, and there is
  one audit row. Applying for the occupied \<open>unit-1\<close> is answered 409 and the database
  is as before.\<close>

theorem onboarding_writes_all_or_nothing_witness:
  "onboarding_submit_POST \<lparr>now = 50, newId = ''lease-2''\<rparr> platform0
      (Some tenant1) (Some ''10.0.0.7, 10.0.0.1'') (Parsed (application ''unit-2'')) db0 =
     (\<lparr>status = 201, success = True, error = None, message = None,
       data = Some (''lease-2'',
                    ''Application submitted successfully. Awaiting landlord approval.'')\<rparr>,
      \<lparr>users =
         [\<lparr>usr_id = ''tenant-1'', usr_email = ''t1@example.org'', usr_firstName = ''Ada'',
           usr_lastName = ''Byron'', usr_phone = Some ''5551234567'', usr_dateOfBirth = Some 5,
           usr_ssnEncrypted = Some ''aes:1234'', usr_emergencyContactName = Some ''Bea'',
           usr_emergencyContactPhone = Some ''5557654321'',
           usr_emergencyContactRelation = Some ''sister'',
           usr_status = USER_ACTIVE, usr_stripeCustomerId = None\<rparr>],
       properties = [\<lparr>p_id = ''prop-1'', p_ownerId = ''landlord-1'', p_totalUnits = 2\<rparr>],
       units = [\<lparr>u_id = ''unit-1'', u_propertyId = ''prop-1'', u_status = OCCUPIED,
                 u_monthlyRent = 1200, u_depositAmount = 1200\<rparr>,
                \<lparr>u_id = ''unit-2'', u_propertyId = ''prop-1'', u_status = RESERVED,
                 u_monthlyRent = 900, u_depositAmount = 900\<rparr>],
       leases =
         [lease1,
          \<lparr>l_id = ''lease-2'', l_tenantId = ''tenant-1'', l_unitId = ''unit-2'',
            l_status = PENDING_SIGNATURE, l_startDate = 1000, l_endDate = 1360,
            l_monthlyRent = 900, l_depositAmount = 900, l_rentDueDay = 1,
            l_gracePeriodDays = 5, l_tenantSignature = Some ''Ada Byron'',
            l_tenantSignedAt = Some 50, l_tenantSignedIp = Some ''10.0.0.7'',
            l_moveInDate = Some 1000\<rparr>],
       payments = [],
       maintenanceRequests = [request1],
       maintenanceUpdates = [],
       auditLogs =
         [\<lparr>al_userId = ''tenant-1'', al_action = ''TENANT_ONBOARDING_COMPLETED'',
           al_entityType = ''Lease'', al_entityId = ''lease-2'', al_ipAddress = ''10.0.0.7'',
           al_newValues = [(''unitId'', ''unit-2''), (''leaseId'', ''lease-2''),
                           (''moveInDate'', ''2025-01-01''), (''leaseTerm'', ''12'')]\<rparr>]\<rparr>)
   \<and> onboarding_submit_POST \<lparr>now = 50, newId = ''lease-2''\<rparr> platform0
      (Some tenant1) None (Parsed (application ''unit-1'')) db0 =
      (\<lparr>status = 409, success = False, error = Some ''This unit is no longer available'',
        message = None, data = None\<rparr>, db0)"
proof -
  let ?e = "\<lparr>now = 50, newId = ''lease-2''\<rparr>"
  let ?R = "onboarding_submit_POST ?e platform0 (Some tenant1) (Some ''10.0.0.7, 10.0.0.1'')
      (Parsed (application ''unit-2'')) db0"
  have a: "status (fst ?R) = 201"
    by (simp add: example_defs lookup_defs onboarding_defs)
  have f: "fst ?R = \<lparr>status = status (fst ?R), success = True, error = None, message = None,
      data = data (fst ?R)\<rparr>"
    by (simp add: example_defs lookup_defs onboarding_defs)
  have u1: "findUnit (ob_unitId (application ''unit-1'')) db0 =
      Some \<lparr>u_id = ''unit-1'', u_propertyId = ''prop-1'', u_status = OCCUPIED,
            u_monthlyRent = 1200, u_depositAmount = 1200\<rparr>"
    by (simp add: example_defs lookup_defs)
  have u2: "findUnit (ob_unitId (application ''unit-2'')) db0 =
      Some \<lparr>u_id = ''unit-2'', u_propertyId = ''prop-1'', u_status = VACANT,
            u_monthlyRent = 900, u_depositAmount = 900\<rparr>"
    by (simp add: example_defs lookup_defs)
  have c: "clientIpOf (Some ''10.0.0.7, 10.0.0.1'') = ''10.0.0.7''"
    by (simp add: clientIpOf_def trim_def isSpace_def)
  have dates: "newDate platform0 (ob_dateOfBirth (application ''unit-2'')) = Date 5"
    "newDate platform0 (ob_moveInDate (application ''unit-2'')) = Date 1000"
    by (simp_all add: example_defs)
  from a onboarding_writes_all_or_nothing [of ?e platform0 "Some tenant1"
      "Some ''10.0.0.7, 10.0.0.1''" "Parsed (application ''unit-2'')" db0]
  have "\<exists>user inp u dob start. Some tenant1 = Some user
         \<and> Parsed (application ''unit-2'') = Parsed inp
         \<and> findUnit (ob_unitId inp) db0 = Some u \<and> u_status u = VACANT
         \<and> findUser (su_id user) db0 \<noteq> None
         \<and> newDate platform0 (ob_dateOfBirth inp) = Date dob
         \<and> newDate platform0 (ob_moveInDate inp) = Date start
         \<and> data (fst ?R) =
             Some (newId ?e,
                   ''Application submitted successfully. Awaiting landlord approval.'')
         \<and> snd ?R =
             db0\<lparr>users :=
                 map (\<lambda>x. if usr_id x = su_id user
                        then x\<lparr>usr_firstName := ob_firstName inp,
                               usr_lastName := ob_lastName inp,
                               usr_phone := Some (ob_phone inp),
                               usr_dateOfBirth := Some dob,
                               usr_ssnEncrypted :=
                                 Some (if ob_ssnLast4 inp = [] then []
                                       else aes platform0 (ob_ssnLast4 inp)),
                               usr_emergencyContactName := Some (ob_emergencyContactName inp),
                               usr_emergencyContactPhone := Some (ob_emergencyContactPhone inp),
                               usr_emergencyContactRelation :=
                                 Some (ob_emergencyContactRelation inp),
                               usr_status := USER_ACTIVE\<rparr>
                        else x)
                   (users db0),
               leases :=
                 leases db0 @
                   [\<lparr>l_id = newId ?e, l_tenantId = su_id user, l_unitId = ob_unitId inp,
                     l_status = PENDING_SIGNATURE, l_startDate = start,
                     l_endDate = addMonthsValid platform0 start (leaseMonths (ob_leaseTerm inp)),
                     l_monthlyRent = u_monthlyRent u, l_depositAmount = u_depositAmount u,
                     l_rentDueDay = 1, l_gracePeriodDays = 5,
                     l_tenantSignature = Some (ob_signature inp),
                     l_tenantSignedAt = Some (now ?e),
                     l_tenantSignedIp = Some (clientIpOf (Some ''10.0.0.7, 10.0.0.1'')),
                     l_moveInDate = Some start\<rparr>],
               units :=
                 map (\<lambda>x. if u_id x = ob_unitId inp then x\<lparr>u_status := RESERVED\<rparr> else x)
                   (units db0),
               auditLogs :=
                 auditLogs db0 @
                   [\<lparr>al_userId = su_id user, al_action = ''TENANT_ONBOARDING_COMPLETED'',
                     al_entityType = ''Lease'', al_entityId = newId ?e,
                     al_ipAddress = clientIpOf (Some ''10.0.0.7, 10.0.0.1''),
                     al_newValues =
                       [(''unitId'', ob_unitId inp), (''leaseId'', newId ?e),
                        (''moveInDate'', ob_moveInDate inp),
                        (''leaseTerm'', leaseTerm_text (ob_leaseTerm inp))]\<rparr>]\<rparr>"
    by (rule mp [OF conjunct1 [OF conjunct2], rotated])
  then obtain inp u dob start and user :: session_user where
    e1: "Some tenant1 = Some user" "Parsed (application ''unit-2'') = Parsed inp"
    and e3: "findUnit (ob_unitId inp) db0 = Some u"
      "newDate platform0 (ob_dateOfBirth inp) = Date dob"
      "newDate platform0 (ob_moveInDate inp) = Date start"
    and n0: "data (fst ?R) =
        Some (newId ?e, ''Application submitted successfully. Awaiting landlord approval.'')"
    and w0: "snd ?R =
             db0\<lparr>users :=
                 map (\<lambda>x. if usr_id x = su_id user
                        then x\<lparr>usr_firstName := ob_firstName inp,
                               usr_lastName := ob_lastName inp,
                               usr_phone := Some (ob_phone inp),
                               usr_dateOfBirth := Some dob,
                               usr_ssnEncrypted :=
                                 Some (if ob_ssnLast4 inp = [] then []
                                       else aes platform0 (ob_ssnLast4 inp)),
                               usr_emergencyContactName := Some (ob_emergencyContactName inp),
                               usr_emergencyContactPhone := Some (ob_emergencyContactPhone inp),
                               usr_emergencyContactRelation :=
                                 Some (ob_emergencyContactRelation inp),
                               usr_status := USER_ACTIVE\<rparr>
                        else x)
                   (users db0),
               leases :=
                 leases db0 @
                   [\<lparr>l_id = newId ?e, l_tenantId = su_id user, l_unitId = ob_unitId inp,
                     l_status = PENDING_SIGNATURE, l_startDate = start,
                     l_endDate = addMonthsValid platform0 start (leaseMonths (ob_leaseTerm inp)),
                     l_monthlyRent = u_monthlyRent u, l_depositAmount = u_depositAmount u,
                     l_rentDueDay = 1, l_gracePeriodDays = 5,
                     l_tenantSignature = Some (ob_signature inp),
                     l_tenantSignedAt = Some (now ?e),
                     l_tenantSignedIp = Some (clientIpOf (Some ''10.0.0.7, 10.0.0.1'')),
                     l_moveInDate = Some start\<rparr>],
               units :=
                 map (\<lambda>x. if u_id x = ob_unitId inp then x\<lparr>u_status := RESERVED\<rparr> else x)
                   (units db0),
               auditLogs :=
                 auditLogs db0 @
                   [\<lparr>al_userId = su_id user, al_action = ''TENANT_ONBOARDING_COMPLETED'',
                     al_entityType = ''Lease'', al_entityId = newId ?e,
                     al_ipAddress = clientIpOf (Some ''10.0.0.7, 10.0.0.1''),
                     al_newValues =
                       [(''unitId'', ob_unitId inp), (''leaseId'', newId ?e),
                        (''moveInDate'', ob_moveInDate inp),
                        (''leaseTerm'', leaseTerm_text (ob_leaseTerm inp))]\<rparr>]\<rparr>"
    by (elim exE conjE) (rule that)
  from e1 have e2: "user = tenant1" "inp = application ''unit-2''" by simp_all
  from e3 have e4: "u = \<lparr>u_id = ''unit-2'', u_propertyId = ''prop-1'', u_status = VACANT,
            u_monthlyRent = 900, u_depositAmount = 900\<rparr>" "dob = 5" "start = 1000"
    unfolding e2 u2 dates by simp_all
  note w = w0 [unfolded e2 e4 c]
  have s: "snd ?R = snd ?R" by (rule refl)
  from onboarding_writes_all_or_nothing [of ?e platform0 "Some tenant1" None
      "Parsed (application ''unit-1'')" db0] u1
  have r: "onboarding_submit_POST ?e platform0 (Some tenant1) None
      (Parsed (application ''unit-1'')) db0 =
      (\<lparr>status = 409, success = False, error = Some ''This unit is no longer available'',
        message = None, data = None\<rparr>, db0)"
    by simp
  have "?R = (fst ?R, snd ?R)" by simp
  also have "fst ?R = \<lparr>status = 201, success = True, error = None, message = None,
       data = Some (''lease-2'',
                    ''Application submitted successfully. Awaiting landlord approval.'')\<rparr>"
    using f a n0 by simp
  finally show ?thesis
    unfolding w using r by (simp add: example_defs)
qed

section \<open>Payments start pending\<close>

lemma findLease_id: "findLease i d = Some l \<Longrightarrow> l_id l = i"
  by (auto simp: findLease_def find_Some_iff)

lemma pendingPayment_fields:
  "pay_status (pendingPayment e uid inp ps pe intent) = PENDING"
  "pay_leaseId (pendingPayment e uid inp ps pe intent) = pi_leaseId inp"
  "pay_userId (pendingPayment e uid inp ps pe intent) = uid"
  "pay_stripePaymentIntentId (pendingPayment e uid inp ps pe intent) = Some (pin_id intent)"
  by (simp_all add: pendingPayment_def)

lemmas payment_defs =
  tenant_payments_POST_def getOrCreateStripeCustomer_def createStripeCustomer_def
  createPaymentIntent_def optionalDate_def pendingPayment_def json_data_def
  json_error_def Let_def

lemma payments_201_ex:
  assumes "status (fst (tenant_payments_POST e mk gw rc baseUrl session body d)) = 201"
  shows "\<exists>su inp l usr (customer::stripe_customer) intent periodStart periodEnd.
      session = Some su \<and> body = Parsed inp
      \<and> findLease (pi_leaseId inp) d = Some l \<and> l_tenantId l = su_id su
      \<and> findUser (su_id su) d = Some usr
      \<and> getOrCreateStripeCustomer gw (usr_id usr) (usr_email usr)
           (usr_firstName usr @ '' '' @ usr_lastName usr) (usr_stripeCustomerId usr) =
           Some customer
      \<and> createPaymentIntent gw rc baseUrl (pi_amount inp) (sc_id customer) None
           [(''leaseId'', pi_leaseId inp), (''userId'', su_id su),
            (''type'', paymentType_text (pi_type inp))] = Some intent
      \<and> payments (snd (tenant_payments_POST e mk gw rc baseUrl session body d)) =
          payments d @ [pendingPayment e (su_id su) inp periodStart periodEnd intent]
      \<and> data (fst (tenant_payments_POST e mk gw rc baseUrl session body d)) =
          Some (pendingPayment e (su_id su) inp periodStart periodEnd intent,
                pin_client_secret intent)"
  using assms
  by (auto simp: tenant_payments_POST_def Let_def json_error_def json_data_def
      split: option.splits body.splits if_splits prod.splits)

lemma payments_201:
  assumes "status (fst (tenant_payments_POST e mk gw rc baseUrl session body d)) = 201"
  obtains su inp l usr and customer :: stripe_customer and intent periodStart periodEnd where
      "session = Some su" "body = Parsed inp"
      "findLease (pi_leaseId inp) d = Some l" "l_tenantId l = su_id su"
      "findUser (su_id su) d = Some usr"
      "getOrCreateStripeCustomer gw (usr_id usr) (usr_email usr)
           (usr_firstName usr @ '' '' @ usr_lastName usr) (usr_stripeCustomerId usr) =
           Some customer"
      "createPaymentIntent gw rc baseUrl (pi_amount inp) (sc_id customer) None
           [(''leaseId'', pi_leaseId inp), (''userId'', su_id su),
            (''type'', paymentType_text (pi_type inp))] = Some intent"
      "payments (snd (tenant_payments_POST e mk gw rc baseUrl session body d)) =
          payments d @ [pendingPayment e (su_id su) inp periodStart periodEnd intent]"
      "data (fst (tenant_payments_POST e mk gw rc baseUrl session body d)) =
          Some (pendingPayment e (su_id su) inp periodStart periodEnd intent,
                pin_client_secret intent)"
  using payments_201_ex [OF assms] by (elim exE conjE) (rule that)

lemma payments_not_201:
  assumes "status (fst (tenant_payments_POST e mk gw rc baseUrl session body d)) \<noteq> 201"
  shows "payments (snd (tenant_payments_POST e mk gw rc baseUrl session body d)) = payments d"
  using assms
  by (auto simp: tenant_payments_POST_def Let_def json_error_def json_data_def
      split: option.splits body.splits if_splits prod.splits)

lemma createPaymentIntent_unconfirmed:
  "createPaymentIntent gw rc baseUrl amount customerId None metadata =
     paymentIntents_create gw
       \<lparr>ip_amount = rc amount, ip_currency = ''usd'', ip_customer = customerId,
        ip_metadata = metadata, ip_automatic_payment_methods = True,
        ip_payment_method = None, ip_confirm = False, ip_return_url = None\<rparr>"
  by (simp add: createPaymentIntent_def)

text \<open>
  C8. A payment creation answered 201 comes from a signed-in tenant with a valid
  body for a lease of that tenant. The gateway has been asked for an intent over the
  amount in cents, in US dollars, for the tenant's gateway customer, unconfirmed and
  tagged with the lease, the tenant and the payment type, and has returned one. The call
  appends one row to the payments, with status \<open>PENDING\<close>, the lease, the tenant, the
  amount and the id of that intent, and hands back that row with the client secret of
  the same intent. A call that is not answered 201 leaves the payments as they were. So
  whatever the call, the payments afterwards are the payments before, followed by rows
  that are \<open>PENDING\<close>.
\<close>

theorem payment_is_created_pending:
  "(status (fst (tenant_payments_POST e mk gw rc baseUrl session body d)) = 201 \<longrightarrow>
      (\<exists>su inp l usr (customer::stripe_customer) intent row.
         session = Some su \<and> body = Parsed inp
         \<and> findLease (pi_leaseId inp) d = Some l \<and> l_tenantId l = su_id su
         \<and> findUser (su_id su) d = Some usr
         \<and> getOrCreateStripeCustomer gw (usr_id usr) (usr_email usr)
              (usr_firstName usr @ '' '' @ usr_lastName usr) (usr_stripeCustomerId usr) =
              Some customer
         \<and> paymentIntents_create gw
              \<lparr>ip_amount = rc (pi_amount inp), ip_currency = ''usd'',
               ip_customer = sc_id customer,
               ip_metadata =
                 [(''leaseId'', pi_leaseId inp), (''userId'', su_id su),
                  (''type'', paymentType_text (pi_type inp))],
               ip_automatic_payment_methods = True, ip_payment_method = None,
               ip_confirm = False, ip_return_url = None\<rparr> = Some intent
         \<and> payments (snd (tenant_payments_POST e mk gw rc baseUrl session body d)) =
             payments d @ [row]
         \<and> pay_id row = newId e
         \<and> pay_status row = PENDING \<and> pay_leaseId row = l_id l \<and> pay_userId row = su_id su
         \<and> pay_type row = pi_type inp \<and> pay_method row = pi_method inp
         \<and> pay_amount row = pi_amount inp \<and> pay_totalAmount row = pi_amount inp
         \<and> pay_dueDate row = now e
         \<and> pay_stripePaymentIntentId row = Some (pin_id intent)
         \<and> data (fst (tenant_payments_POST e mk gw rc baseUrl session body d)) =
             Some (row, pin_client_secret intent)))
   \<and> (status (fst (tenant_payments_POST e mk gw rc baseUrl session body d)) \<noteq> 201 \<longrightarrow>
      payments (snd (tenant_payments_POST e mk gw rc baseUrl session body d)) = payments d)
   \<and> (\<exists>rows. payments (snd (tenant_payments_POST e mk gw rc baseUrl session body d)) =
         payments d @ rows \<and> (\<forall>p \<in> set rows. pay_status p = PENDING))"
proof (intro conjI impI)
  let ?R = "tenant_payments_POST e mk gw rc baseUrl session body d"
  assume "status (fst ?R) = 201"
  then obtain su inp l usr and customer :: stripe_customer
    and intent periodStart periodEnd where
    h: "session = Some su" "body = Parsed inp" "findLease (pi_leaseId inp) d = Some l"
      "l_tenantId l = su_id su" "findUser (su_id su) d = Some usr"
      "getOrCreateStripeCustomer gw (usr_id usr) (usr_email usr)
           (usr_firstName usr @ '' '' @ usr_lastName usr) (usr_stripeCustomerId usr) =
           Some customer"
    and c: "createPaymentIntent gw rc baseUrl (pi_amount inp) (sc_id customer) None
           [(''leaseId'', pi_leaseId inp), (''userId'', su_id su),
            (''type'', paymentType_text (pi_type inp))] = Some intent"
    and p: "payments (snd ?R) =
          payments d @ [pendingPayment e (su_id su) inp periodStart periodEnd intent]"
      "data (fst ?R) =
          Some (pendingPayment e (su_id su) inp periodStart periodEnd intent,
                pin_client_secret intent)"
    by (rule payments_201)
  let ?row = "pendingPayment e (su_id su) inp periodStart periodEnd intent"
  from h(3) have i: "pi_leaseId inp = l_id l" by (simp add: findLease_id)
  have f: "pay_id ?row = newId e" "pay_status ?row = PENDING" "pay_leaseId ?row = l_id l"
    "pay_userId ?row = su_id su" "pay_type ?row = pi_type inp" "pay_method ?row = pi_method inp"
    "pay_amount ?row = pi_amount inp" "pay_totalAmount ?row = pi_amount inp"
    "pay_dueDate ?row = now e" "pay_stripePaymentIntentId ?row = Some (pin_id intent)"
    by (simp_all add: pendingPayment_def i)
  note g = c [unfolded createPaymentIntent_unconfirmed]
  show "\<exists>su inp l usr (customer::stripe_customer) intent row.
         session = Some su \<and> body = Parsed inp
         \<and> findLease (pi_leaseId inp) d = Some l \<and> l_tenantId l = su_id su
         \<and> findUser (su_id su) d = Some usr
         \<and> getOrCreateStripeCustomer gw (usr_id usr) (usr_email usr)
              (usr_firstName usr @ '' '' @ usr_lastName usr) (usr_stripeCustomerId usr) =
              Some customer
         \<and> paymentIntents_create gw
              \<lparr>ip_amount = rc (pi_amount inp), ip_currency = ''usd'',
               ip_customer = sc_id customer,
               ip_metadata =
                 [(''leaseId'', pi_leaseId inp), (''userId'', su_id su),
                  (''type'', paymentType_text (pi_type inp))],
               ip_automatic_payment_methods = True, ip_payment_method = None,
               ip_confirm = False, ip_return_url = None\<rparr> = Some intent
         \<and> payments (snd ?R) = payments d @ [row]
         \<and> pay_id row = newId e
         \<and> pay_status row = PENDING \<and> pay_leaseId row = l_id l \<and> pay_userId row = su_id su
         \<and> pay_type row = pi_type inp \<and> pay_method row = pi_method inp
         \<and> pay_amount row = pi_amount inp \<and> pay_totalAmount row = pi_amount inp
         \<and> pay_dueDate row = now e
         \<and> pay_stripePaymentIntentId row = Some (pin_id intent)
         \<and> data (fst ?R) = Some (row, pin_client_secret intent)"
    by (intro exI [of _ su] exI [of _ inp] exI [of _ l] exI [of _ usr] exI [of _ customer]
        exI [of _ intent] exI [of _ ?row] conjI h g p f)
next
  assume "status (fst (tenant_payments_POST e mk gw rc baseUrl session body d)) \<noteq> 201"
  then show "payments (snd (tenant_payments_POST e mk gw rc baseUrl session body d)) = payments d"
    by (rule payments_not_201)
next
  show "\<exists>rows. payments (snd (tenant_payments_POST e mk gw rc baseUrl session body d)) =
         payments d @ rows \<and> (\<forall>p \<in> set rows. pay_status p = PENDING)"
  proof (cases "status (fst (tenant_payments_POST e mk gw rc baseUrl session body d)) = 201")
    case True
    from True obtain row where
      "payments (snd (tenant_payments_POST e mk gw rc baseUrl session body d)) = payments d @ [row]"
      "pay_status row = PENDING"
      by (rule payments_201) (simp add: pendingPayment_fields)
    then show ?thesis by (intro exI [of _ "[row]"]) simp
  next
    case False
    from payments_not_201 [OF False] show ?thesis by (intro exI [of _ "[]"]) simp
  qed
qed

text \<open>\<open>tenant-1\<close> pays the rent of \<open>lease-1\<close>, 1200, at time 70: the gateway is asked for
  120000 cents, and the response carries the pending row and the secret of the gateway's
  intent \<open>pi_1\<close>.\<close>

theorem payment_is_created_pending_witness:
  "status (fst (tenant_payments_POST \<lparr>now = 70, newId = ''pay-1''\<rparr> (\<lambda>_. InvalidDate) gateway0
        exampleCents ''https://app.example'' (Some tenant1) (Parsed rentPayment) db0)) = 201
   \<and> (\<exists>row. payments (snd (tenant_payments_POST \<lparr>now = 70, newId = ''pay-1''\<rparr>
           (\<lambda>_. InvalidDate) gateway0 exampleCents ''https://app.example'' (Some tenant1)
           (Parsed rentPayment) db0)) = [row]
        \<and> pay_id row = ''pay-1''
        \<and> pay_status row = PENDING \<and> pay_leaseId row = ''lease-1''
        \<and> pay_userId row = ''tenant-1'' \<and> pay_amount row = 1200 \<and> pay_dueDate row = 70
        \<and> pay_stripePaymentIntentId row = Some ''pi_1''
        \<and> data (fst (tenant_payments_POST \<lparr>now = 70, newId = ''pay-1''\<rparr>
           (\<lambda>_. InvalidDate) gateway0 exampleCents ''https://app.example'' (Some tenant1)
           (Parsed rentPayment) db0)) = Some (row, Some ''pi_1_secret''))"
proof -
  let ?e = "\<lparr>now = 70, newId = ''pay-1''\<rparr>"
  let ?R = "tenant_payments_POST ?e (\<lambda>_. InvalidDate) gateway0 exampleCents
        ''https://app.example'' (Some tenant1) (Parsed rentPayment) db0"
  have a: "status (fst ?R) = 201"
    by (simp add: example_defs lookup_defs payment_defs)
  have g: "paymentIntents_create gateway0 ps = Some intent \<Longrightarrow>
      intent = \<lparr>pin_id = ''pi_1'', pin_client_secret = Some ''pi_1_secret''\<rparr>" for ps intent
    by (simp add: gateway0_def split: if_splits)
  have p: "payments db0 = []" "pi_leaseId rentPayment = ''lease-1''"
    "pi_amount rentPayment = 1200" "su_id tenant1 = ''tenant-1''" "newId ?e = ''pay-1''"
    "now ?e = 70"
    by (simp_all add: example_defs)
  from a payment_is_created_pending [of ?e "\<lambda>_. InvalidDate"
      gateway0 exampleCents "''https://app.example''" "Some tenant1" "Parsed rentPayment" db0]
  have "\<exists>su inp l usr (customer::stripe_customer) intent row.
         Some tenant1 = Some su \<and> Parsed rentPayment = Parsed inp
         \<and> findLease (pi_leaseId inp) db0 = Some l \<and> l_tenantId l = su_id su
         \<and> findUser (su_id su) db0 = Some usr
         \<and> getOrCreateStripeCustomer gateway0 (usr_id usr) (usr_email usr)
              (usr_firstName usr @ '' '' @ usr_lastName usr) (usr_stripeCustomerId usr) =
              Some customer
         \<and> paymentIntents_create gateway0
              \<lparr>ip_amount = exampleCents (pi_amount inp), ip_currency = ''usd'',
               ip_customer = sc_id customer,
               ip_metadata =
                 [(''leaseId'', pi_leaseId inp), (''userId'', su_id su),
                  (''type'', paymentType_text (pi_type inp))],
               ip_automatic_payment_methods = True, ip_payment_method = None,
               ip_confirm = False, ip_return_url = None\<rparr> = Some intent
         \<and> payments (snd ?R) = payments db0 @ [row]
         \<and> pay_id row = newId ?e
         \<and> pay_status row = PENDING \<and> pay_leaseId row = l_id l \<and> pay_userId row = su_id su
         \<and> pay_type row = pi_type inp \<and> pay_method row = pi_method inp
         \<and> pay_amount row = pi_amount inp \<and> pay_totalAmount row = pi_amount inp
         \<and> pay_dueDate row = now ?e
         \<and> pay_stripePaymentIntentId row = Some (pin_id intent)
         \<and> data (fst ?R) = Some (row, pin_client_secret intent)"
    by (rule mp [OF conjunct1, rotated])
  then obtain inp l and su :: session_user and customer :: stripe_customer and intent row where
    h: "Some tenant1 = Some su" "Parsed rentPayment = Parsed inp"
      "findLease (pi_leaseId inp) db0 = Some l"
      "paymentIntents_create gateway0
              \<lparr>ip_amount = exampleCents (pi_amount inp), ip_currency = ''usd'',
               ip_customer = sc_id customer,
               ip_metadata =
                 [(''leaseId'', pi_leaseId inp), (''userId'', su_id su),
                  (''type'', paymentType_text (pi_type inp))],
               ip_automatic_payment_methods = True, ip_payment_method = None,
               ip_confirm = False, ip_return_url = None\<rparr> = Some intent"
    and q: "payments (snd ?R) = payments db0 @ [row]"
      "pay_id row = newId ?e"
      "pay_status row = PENDING" "pay_leaseId row = l_id l" "pay_userId row = su_id su"
      "pay_amount row = pi_amount inp" "pay_dueDate row = now ?e"
      "pay_stripePaymentIntentId row = Some (pin_id intent)"
      "data (fst ?R) = Some (row, pin_client_secret intent)"
    by (elim exE conjE) (rule that)
  from h(1,2) have i: "su = tenant1" "inp = rentPayment" by simp_all
  from h(4) have j: "intent = \<lparr>pin_id = ''pi_1'', pin_client_secret = Some ''pi_1_secret''\<rparr>"
    by (rule g)
  from h(3) have k: "l_id l = ''lease-1''" unfolding i p(2) by (rule findLease_id)
  from a q show ?thesis unfolding i j k p by simp
qed

section \<open>Validation of a new maintenance request\<close>

lemma soundD: "sound p \<Longrightarrow> p = Invalid ms \<Longrightarrow> ms \<noteq> []"
  by (simp add: sound_def)

lemma sound_zString: "sound (zString lo m hi t v)"
  by (auto simp: sound_def zString_def Let_def split: option.splits json.splits)

lemma sound_zEnum: "sound (zEnum vs parse em v)"
  by (auto simp: sound_def zEnum_def split: option.splits json.splits)

lemma sound_zBoolean: "sound (zBoolean v)"
  by (auto simp: sound_def zBoolean_def split: option.splits json.splits)

lemma sound_zUrl: "sound (zUrl isUrl v)"
  by (auto simp: sound_def zUrl_def split: option.splits json.splits)

lemma sound_collect: "(\<And>p. p \<in> set ps \<Longrightarrow> sound p) \<Longrightarrow> sound (collect ps)"
proof (induction ps)
  case Nil
  then show ?case by (simp add: sound_def)
next
  case (Cons p ps)
  then have "sound p" "sound (collect ps)" by simp_all
  then show ?case
    by (cases p; cases "collect ps") (simp_all add: sound_def)
qed

lemma sound_zArray: "(\<And>x. sound (element x)) \<Longrightarrow> sound (zArray element v)"
  by (auto simp: zArray_def intro!: sound_collect split: option.splits json.splits)
    (simp_all add: sound_def)

lemma sound_zDefault: "sound (inner v) \<Longrightarrow> sound (zDefault x inner v)"
  by (cases v) (simp_all add: zDefault_def sound_def)

lemma sound_zOptional: "sound (inner v) \<Longrightarrow> sound (zOptional inner v)"
  by (cases v; cases "inner v") (simp_all add: zOptional_def sound_def)

lemma sound_field: "sound p \<Longrightarrow> (\<And>x. sound (k x)) \<Longrightarrow> sound (field p later k)"
  by (cases p) (simp_all add: field_def sound_def)

lemma sound_schema: "sound (createMaintenanceRequestSchema isUrl b)"
proof (cases b)
  case (JObject kvs)
  show ?thesis
    unfolding JObject createMaintenanceRequestSchema_def json.case Let_def
    by (intro sound_field sound_zString sound_zEnum sound_zDefault sound_zBoolean
        sound_zOptional sound_zArray sound_zUrl) (simp add: sound_def)
qed (simp_all add: createMaintenanceRequestSchema_def sound_def)

lemma schema_nonempty:
  "createMaintenanceRequestSchema isUrl b = Invalid ms \<Longrightarrow> ms \<noteq> []"
  using sound_schema by (rule soundD)

lemma zString_short:
  "length s < lo \<Longrightarrow> lo \<le> hi \<Longrightarrow> zString lo m hi t (Some (JString s)) = Invalid [m]"
  by (simp add: zString_def)

lemma zString_Valid:
  "lo \<le> length s \<Longrightarrow> length s \<le> hi \<Longrightarrow> zString lo m hi t (Some (JString s)) = Valid s"
  by (simp add: zString_def)

text \<open>A description shorter than ten characters makes the body invalid; its message
  is among the issues, and is the first one when the title is valid.\<close>

lemma schema_short_description:
  assumes "jsonMember kvs ''description'' = Some (JString s)" "length s < 10"
  shows "\<exists>ms. createMaintenanceRequestSchema isUrl (JObject kvs) = Invalid ms
    \<and> ''Please provide a detailed description'' \<in> set ms
    \<and> (\<forall>t. jsonMember kvs ''title'' = Some (JString t) \<and> 1 \<le> length t \<and> length t \<le> 200
          \<longrightarrow> hd ms = ''Please provide a detailed description'')"
proof -
  have ds: "zString 10 ''Please provide a detailed description'' 2000 ''2000''
      (jsonMember kvs ''description'') = Invalid [''Please provide a detailed description'']"
    unfolding assms(1) using assms(2) by (simp add: zString_short)
  show ?thesis
  proof (cases "zString 1 ''Title is required'' 200 ''200'' (jsonMember kvs ''title'')")
    case (Invalid m)
    have "\<And>t. jsonMember kvs ''title'' = Some (JString t) \<Longrightarrow> 1 \<le> length t
        \<Longrightarrow> length t \<le> 200 \<Longrightarrow> False"
      using Invalid by (simp add: zString_Valid)
    then show ?thesis
      unfolding createMaintenanceRequestSchema_def json.case Let_def ds Invalid
      by (auto simp: field_def)
  next
    case (Valid t)
    show ?thesis
      unfolding createMaintenanceRequestSchema_def json.case Let_def ds Valid
      by (simp add: field_def)
  qed
qed

lemma field_Valid:
  "field p later k = Valid y \<Longrightarrow> \<exists>x. p = Valid x \<and> k x = Valid y"
  by (cases p) (simp_all add: field_def)

text \<open>Without a \<open>priority\<close> key, a valid body has priority \<open>MEDIUM\<close>.\<close>

lemma schema_default_priority:
  assumes "createMaintenanceRequestSchema isUrl (JObject kvs) = Valid inp"
    and "jsonMember kvs ''priority'' = None"
  shows "ci_priority inp = MEDIUM"
proof -
  have p: "zDefault MEDIUM (zEnum maintenancePriorities parse_priority None)
      (jsonMember kvs ''priority'') = Valid MEDIUM"
    unfolding assms(2) by (simp add: zDefault_def)
  from assms(1) show ?thesis
    unfolding createMaintenanceRequestSchema_def json.case Let_def p
    by (auto dest!: field_Valid)
qed

section \<open>The tenant's POST\<close>

lemma findActiveLease_Some:
  "findActiveLease uid d = Some l \<Longrightarrow>
     l \<in> set (leases d) \<and> l_tenantId l = uid \<and> l_status l = ACTIVE"
  by (auto simp: findActiveLease_def find_Some_iff)

lemma findActiveLease_None:
  "findActiveLease uid d = None \<longleftrightarrow>
     (\<forall>l \<in> set (leases d). \<not> (l_tenantId l = uid \<and> l_status l = ACTIVE))"
  by (auto simp: findActiveLease_def find_None_iff)

lemma tenant_POST_invalid:
  assumes "createMaintenanceRequestSchema isUrl b = Invalid ms"
  shows "tenant_maintenance_POST e isUrl (Some user) (Some b) d = (json_error 400 (hd ms), d)"
proof -
  from schema_nonempty [OF assms] obtain m ms' where "ms = m # ms'" by (cases ms) auto
  with assms show ?thesis by (simp add: tenant_maintenance_POST_def)
qed

lemma tenant_POST_no_lease:
  assumes "createMaintenanceRequestSchema isUrl b = Valid inp"
    and "findActiveLease (su_id user) d = None"
  shows "tenant_maintenance_POST e isUrl (Some user) (Some b) d =
     (json_error 400 ''No active lease found'', d)"
  using assms by (simp add: tenant_maintenance_POST_def)

lemma tenant_POST_created:
  assumes "createMaintenanceRequestSchema isUrl b = Valid inp"
    and "findActiveLease (su_id user) d = Some l"
  shows "tenant_maintenance_POST e isUrl (Some user) (Some b) d =
     (json_data 201 (submittedRequest e (su_id user) l inp)
        (Some ''Maintenance request submitted successfully''),
      d\<lparr>maintenanceRequests :=
          maintenanceRequests d @ [submittedRequest e (su_id user) l inp]\<rparr>)"
  using assms by (simp add: tenant_maintenance_POST_def Let_def)

lemma tenant_POST_201:
  assumes "status (fst (tenant_maintenance_POST e isUrl session body d)) = 201"
  obtains user b inp l where "session = Some user" "body = Some b"
    "createMaintenanceRequestSchema isUrl b = Valid inp"
    "findActiveLease (su_id user) d = Some l"
proof -
  from assms obtain user where s: "session = Some user"
    by (cases session) (simp_all add: tenant_maintenance_POST_def json_error_def)
  from assms s obtain b where b: "body = Some b"
    by (cases body) (simp_all add: tenant_maintenance_POST_def json_error_def)
  from assms obtain inp where i: "createMaintenanceRequestSchema isUrl b = Valid inp"
    unfolding s b
    by (cases "createMaintenanceRequestSchema isUrl b")
      (simp_all add: tenant_POST_invalid json_error_def)
  from assms obtain l where "findActiveLease (su_id user) d = Some l"
    unfolding s b
    by (cases "findActiveLease (su_id user) d")
      (simp_all add: tenant_POST_no_lease [OF i] json_error_def)
  with s b i that show ?thesis by blast
qed

lemmas schema_defs =
  createMaintenanceRequestSchema_def zString_def zEnum_def zBoolean_def zOptional_def
  zDefault_def zUrl_def zArray_def field_def jsonMember_def invalid_type_def too_big_def
  invalid_enum_value_def quoted_def maintenanceCategories_def maintenancePriorities_def
  orElse_def Let_def

lemmas tenant_POST_defs =
  tenant_maintenance_POST_def findActiveLease_def submittedRequest_def json_data_def
  json_error_def

text \<open>An invalid title makes the body invalid, and the title's issues come first.\<close>

lemma schema_invalid_title:
  assumes "zString 1 ''Title is required'' 200 ''200'' (jsonMember kvs ''title'') = Invalid m"
  shows "\<exists>rest. createMaintenanceRequestSchema isUrl (JObject kvs) = Invalid (m @ rest)"
  unfolding createMaintenanceRequestSchema_def json.case Let_def assms
  by (simp add: field_def)

lemma schema_title_messages:
  assumes "createMaintenanceRequestSchema isUrl (JObject kvs) = Invalid ms"
  shows "jsonMember kvs ''title'' = None \<Longrightarrow> hd ms = ''Required''"
    and "jsonMember kvs ''title'' = Some v \<Longrightarrow> (\<And>t. v \<noteq> JString t) \<Longrightarrow>
      hd ms = ''Expected string, received '' @ parsedType (Some v)"
    and "jsonMember kvs ''title'' = Some (JString []) \<Longrightarrow> hd ms = ''Title is required''"
    and "jsonMember kvs ''title'' = Some (JString t) \<Longrightarrow> 200 < length t \<Longrightarrow>
      hd ms = ''String must contain at most 200 character(s)''"
proof -
  have first: "hd ms = x"
    if "zString 1 ''Title is required'' 200 ''200'' (jsonMember kvs ''title'') = Invalid [x]"
    for x
    using schema_invalid_title [OF that, of isUrl] assms by auto
  show "hd ms = ''Required''" if "jsonMember kvs ''title'' = None"
    by (rule first) (simp add: that zString_def invalid_type_def)
  show "hd ms = ''Expected string, received '' @ parsedType (Some v)"
    if "jsonMember kvs ''title'' = Some v" "\<And>t. v \<noteq> JString t"
    by (rule first) (use that in \<open>cases v; simp add: zString_def invalid_type_def\<close>)
  show "hd ms = ''Title is required''" if "jsonMember kvs ''title'' = Some (JString [])"
    by (rule first) (simp add: that zString_def)
  show "hd ms = ''String must contain at most 200 character(s)''"
    if "jsonMember kvs ''title'' = Some (JString t)" "200 < length t"
    by (rule first) (use that in \<open>auto simp: zString_def too_big_def\<close>)
qed

text \<open>
  C7, as amended. When the body has no \<open>priority\<close> key and the request is created, the
  created request has priority \<open>MEDIUM\<close>. When a signed-in tenant sends a body whose
  \<open>description\<close> is a string shorter than ten characters, the handler answers 400 with
  the message of the first issue of the schema and creates nothing; the issues include
  the description's message \<open>Please provide a detailed description\<close>. That message
  is the first one, hence the error returned, when the \<open>title\<close> is valid (a string of 1
  to 200 characters). Otherwise the error returned is the title's message: \<open>Required\<close>
  when the body has no title, \<open>Expected string, received\<close> and the type when the title
  is not a string, \<open>Title is required\<close> when it is the empty string, and
  \<open>String must contain at most 200 character(s)\<close> when it is longer than 200
  characters.
\<close>

theorem create_request_validation:
  "(\<forall>kvs. body = Some (JObject kvs) \<and> jsonMember kvs ''priority'' = None
        \<and> status (fst (tenant_maintenance_POST e isUrl session body d)) = 201 \<longrightarrow>
      (\<exists>row. maintenanceRequests (snd (tenant_maintenance_POST e isUrl session body d)) =
          maintenanceRequests d @ [row]
        \<and> data (fst (tenant_maintenance_POST e isUrl session body d)) = Some row
        \<and> mr_priority row = MEDIUM))
   \<and> (\<forall>user kvs s. session = Some user \<and> body = Some (JObject kvs)
        \<and> jsonMember kvs ''description'' = Some (JString s) \<and> length s < 10 \<longrightarrow>
      (\<exists>ms. createMaintenanceRequestSchema isUrl (JObject kvs) = Invalid ms \<and> ms \<noteq> []
        \<and> tenant_maintenance_POST e isUrl session body d =
            (\<lparr>status = 400, success = False, error = Some (hd ms), message = None,
              data = None\<rparr>, d)
        \<and> ''Please provide a detailed description'' \<in> set ms
        \<and> (\<forall>t. jsonMember kvs ''title'' = Some (JString t) \<and> 1 \<le> length t
              \<and> length t \<le> 200 \<longrightarrow>
             hd ms = ''Please provide a detailed description'')
        \<and> (jsonMember kvs ''title'' = None \<longrightarrow> hd ms = ''Required'')
        \<and> (\<forall>v. jsonMember kvs ''title'' = Some v \<and> (\<forall>t. v \<noteq> JString t) \<longrightarrow>
             hd ms = ''Expected string, received '' @ parsedType (Some v))
        \<and> (jsonMember kvs ''title'' = Some (JString []) \<longrightarrow> hd ms = ''Title is required'')
        \<and> (\<forall>t. jsonMember kvs ''title'' = Some (JString t) \<and> 200 < length t \<longrightarrow>
             hd ms = ''String must contain at most 200 character(s)'')))"
proof (intro conjI allI impI)
  fix kvs
  assume a: "body = Some (JObject kvs) \<and> jsonMember kvs ''priority'' = None
        \<and> status (fst (tenant_maintenance_POST e isUrl session body d)) = 201"
  then have "status (fst (tenant_maintenance_POST e isUrl session body d)) = 201" by blast
  then obtain user b inp l where h: "session = Some user" "body = Some b"
    "createMaintenanceRequestSchema isUrl b = Valid inp"
    "findActiveLease (su_id user) d = Some l"
    by (rule tenant_POST_201)
  from a h(2) have b: "b = JObject kvs" by simp
  from h(3) a have "ci_priority inp = MEDIUM"
    unfolding b by (simp add: schema_default_priority)
  then have "mr_priority (submittedRequest e (su_id user) l inp) = MEDIUM"
    by (simp add: submittedRequest_def)
  then show "\<exists>row. maintenanceRequests (snd (tenant_maintenance_POST e isUrl session body d)) =
          maintenanceRequests d @ [row]
        \<and> data (fst (tenant_maintenance_POST e isUrl session body d)) = Some row
        \<and> mr_priority row = MEDIUM"
    unfolding h(1,2) tenant_POST_created [OF h(3,4)]
    by (intro exI [of _ "submittedRequest e (su_id user) l inp"]) (simp add: json_data_def)
next
  fix user kvs s
  assume a: "session = Some user \<and> body = Some (JObject kvs)
        \<and> jsonMember kvs ''description'' = Some (JString s) \<and> length s < 10"
  then have ds: "jsonMember kvs ''description'' = Some (JString s)" "length s < 10"
    by simp_all
  from schema_short_description [OF ds, of isUrl] obtain ms where
    ms: "createMaintenanceRequestSchema isUrl (JObject kvs) = Invalid ms"
      "''Please provide a detailed description'' \<in> set ms"
      "\<forall>t. jsonMember kvs ''title'' = Some (JString t) \<and> 1 \<le> length t \<and> length t \<le> 200
          \<longrightarrow> hd ms = ''Please provide a detailed description''"
    by (elim exE conjE)
  from ms(1) have ne: "ms \<noteq> []" by (rule schema_nonempty)
  from a have r: "tenant_maintenance_POST e isUrl session body d =
      (\<lparr>status = 400, success = False, error = Some (hd ms), message = None, data = None\<rparr>, d)"
    by (simp add: tenant_POST_invalid [OF ms(1)] json_error_def)
  have t1: "jsonMember kvs ''title'' = None \<longrightarrow> hd ms = ''Required''"
    by (intro impI) (rule schema_title_messages(1) [OF ms(1)])
  have t2: "\<forall>v. jsonMember kvs ''title'' = Some v \<and> (\<forall>t. v \<noteq> JString t) \<longrightarrow>
             hd ms = ''Expected string, received '' @ parsedType (Some v)"
  proof (intro allI impI)
    fix v
    assume "jsonMember kvs ''title'' = Some v \<and> (\<forall>t. v \<noteq> JString t)"
    then have "jsonMember kvs ''title'' = Some v" "\<And>t. v \<noteq> JString t" by simp_all
    then show "hd ms = ''Expected string, received '' @ parsedType (Some v)"
      by (rule schema_title_messages(2) [OF ms(1)])
  qed
  have t3: "jsonMember kvs ''title'' = Some (JString []) \<longrightarrow> hd ms = ''Title is required''"
    by (intro impI) (rule schema_title_messages(3) [OF ms(1)])
  have t4: "\<forall>t. jsonMember kvs ''title'' = Some (JString t) \<and> 200 < length t \<longrightarrow>
             hd ms = ''String must contain at most 200 character(s)''"
  proof (intro allI impI)
    fix t
    assume "jsonMember kvs ''title'' = Some (JString t) \<and> 200 < length t"
    then have "jsonMember kvs ''title'' = Some (JString t)" "200 < length t" by simp_all
    then show "hd ms = ''String must contain at most 200 character(s)''"
      by (rule schema_title_messages(4) [OF ms(1)])
  qed
  show "\<exists>ms. createMaintenanceRequestSchema isUrl (JObject kvs) = Invalid ms
        \<and> ms \<noteq> []
        \<and> tenant_maintenance_POST e isUrl session body d =
            (\<lparr>status = 400, success = False, error = Some (hd ms), message = None,
              data = None\<rparr>, d)
        \<and> ''Please provide a detailed description'' \<in> set ms
        \<and> (\<forall>t. jsonMember kvs ''title'' = Some (JString t) \<and> 1 \<le> length t
              \<and> length t \<le> 200 \<longrightarrow>
             hd ms = ''Please provide a detailed description'')
        \<and> (jsonMember kvs ''title'' = None \<longrightarrow> hd ms = ''Required'')
        \<and> (\<forall>v. jsonMember kvs ''title'' = Some v \<and> (\<forall>t. v \<noteq> JString t) \<longrightarrow>
             hd ms = ''Expected string, received '' @ parsedType (Some v))
        \<and> (jsonMember kvs ''title'' = Some (JString []) \<longrightarrow> hd ms = ''Title is required'')
        \<and> (\<forall>t. jsonMember kvs ''title'' = Some (JString t) \<and> 200 < length t \<longrightarrow>
             hd ms = ''String must contain at most 200 character(s)'')"
    by (intro exI [of _ ms] conjI ms ne r t1 t2 t3 t4)
qed

text \<open>\<open>tenant-1\<close> files a request without a priority; one with the description
  \<open>Drips\<close>; and that one again with a title of 201 characters, without a title, and with
  the number 7 as title.\<close>

theorem create_request_validation_witness:
  "map_option mr_priority
     (data (fst (tenant_maintenance_POST \<lparr>now = 20, newId = ''req-2''\<rparr> anyUrl
        (Some tenant1) (Some bodyNoPriority) db0))) = Some MEDIUM
   \<and> tenant_maintenance_POST \<lparr>now = 20, newId = ''req-2''\<rparr> anyUrl
        (Some tenant1) (Some bodyShortDescription) db0 =
      (\<lparr>status = 400, success = False, error = Some ''Please provide a detailed description'',
        message = None, data = None\<rparr>, db0)
   \<and> tenant_maintenance_POST \<lparr>now = 20, newId = ''req-2''\<rparr> anyUrl
        (Some tenant1) (Some bodyShortDescriptionLongTitle) db0 =
      (\<lparr>status = 400, success = False,
        error = Some ''String must contain at most 200 character(s)'',
        message = None, data = None\<rparr>, db0)
   \<and> tenant_maintenance_POST \<lparr>now = 20, newId = ''req-2''\<rparr> anyUrl
        (Some tenant1) (Some bodyShortDescriptionMissingTitle) db0 =
      (\<lparr>status = 400, success = False, error = Some ''Required'',
        message = None, data = None\<rparr>, db0)
   \<and> tenant_maintenance_POST \<lparr>now = 20, newId = ''req-2''\<rparr> anyUrl
        (Some tenant1)
        (Some (JObject [(''title'', JNumber 7), (''description'', JString ''Drips'')])) db0 =
      (\<lparr>status = 400, success = False, error = Some ''Expected string, received number'',
        message = None, data = None\<rparr>, db0)"
proof -
  let ?e = "\<lparr>now = 20, newId = ''req-2''\<rparr>"
  let ?kvs = "[(''title'', JString ''Leaking tap''),
               (''description'', JString ''The kitchen tap drips all night''),
               (''category'', JString ''PLUMBING'')]"
  let ?kvs' = "[(''title'', JString ''Leaking tap''), (''description'', JString ''Drips''),
                (''category'', JString ''PLUMBING'')]"
  let ?long = "[(''title'', JString (replicate 201 CHR ''a'')),
                (''description'', JString ''Drips''), (''category'', JString ''PLUMBING'')]"
  let ?missing = "[(''description'', JString ''Drips''), (''category'', JString ''PLUMBING'')]"
  let ?number = "[(''title'', JNumber 7), (''description'', JString ''Drips'')]"
  have a: "status (fst (tenant_maintenance_POST ?e anyUrl (Some tenant1) (Some (JObject ?kvs))
      db0)) = 201"
    by (simp add: example_defs schema_defs tenant_POST_defs)
  have p: "jsonMember ?kvs ''priority'' = None"
    by (simp add: jsonMember_def)
  from create_request_validation [of "Some (JObject ?kvs)" ?e anyUrl "Some tenant1" db0] a p
  have one: "map_option mr_priority
     (data (fst (tenant_maintenance_POST ?e anyUrl (Some tenant1) (Some (JObject ?kvs)) db0)))
     = Some MEDIUM"
    by auto
  have ds: "jsonMember ?kvs' ''description'' = Some (JString ''Drips'')"
    "jsonMember ?kvs' ''title'' = Some (JString ''Leaking tap'')"
    by (simp_all add: jsonMember_def)
  from create_request_validation [of "Some (JObject ?kvs')" ?e anyUrl "Some tenant1" db0] ds
  have two: "tenant_maintenance_POST ?e anyUrl (Some tenant1) (Some (JObject ?kvs')) db0 =
      (\<lparr>status = 400, success = False, error = Some ''Please provide a detailed description'',
        message = None, data = None\<rparr>, db0)"
    by auto
  have dl: "jsonMember ?long ''description'' = Some (JString ''Drips'')"
    "jsonMember ?long ''title'' = Some (JString (replicate 201 CHR ''a''))"
    by (simp_all add: jsonMember_def)
  from create_request_validation [of "Some (JObject ?long)" ?e anyUrl "Some tenant1" db0] dl
  have three: "tenant_maintenance_POST ?e anyUrl (Some tenant1) (Some (JObject ?long)) db0 =
      (\<lparr>status = 400, success = False,
        error = Some ''String must contain at most 200 character(s)'',
        message = None, data = None\<rparr>, db0)"
    by auto
  have dm: "jsonMember ?missing ''description'' = Some (JString ''Drips'')"
    "jsonMember ?missing ''title'' = None"
    by (simp_all add: jsonMember_def)
  from create_request_validation [of "Some (JObject ?missing)" ?e anyUrl "Some tenant1" db0] dm
  have four: "tenant_maintenance_POST ?e anyUrl (Some tenant1) (Some (JObject ?missing)) db0 =
      (\<lparr>status = 400, success = False, error = Some ''Required'',
        message = None, data = None\<rparr>, db0)"
    by auto
  have dn: "jsonMember ?number ''description'' = Some (JString ''Drips'')"
    "jsonMember ?number ''title'' = Some (JNumber 7)"
    by (simp_all add: jsonMember_def)
  from create_request_validation [of "Some (JObject ?number)" ?e anyUrl "Some tenant1" db0] dn
  have five: "tenant_maintenance_POST ?e anyUrl (Some tenant1) (Some (JObject ?number)) db0 =
      (\<lparr>status = 400, success = False, error = Some ''Expected string, received number'',
        message = None, data = None\<rparr>, db0)"
    by auto
  from one two three four five show ?thesis
    by (simp add: bodyNoPriority_def bodyShortDescription_def
        bodyShortDescriptionLongTitle_def bodyShortDescriptionMissingTitle_def)
qed

text \<open>
  C7 as stated fails when a key before \<open>description\<close> is invalid too: with an empty
  title and the description \<open>Drips\<close>, of five characters, the error returned is the
  title's message, which does not cite the description.
\<close>

theorem short_description_error_cites_title:
  "length ''Drips'' < 10
   \<and> tenant_maintenance_POST \<lparr>now = 20, newId = ''req-2''\<rparr> anyUrl (Some tenant1)
       (Some (JObject [(''title'', JString ''''), (''description'', JString ''Drips''),
                       (''category'', JString ''PLUMBING'')])) db0 =
      (\<lparr>status = 400, success = False, error = Some ''Title is required'', message = None,
        data = None\<rparr>, db0)"
  by (simp add: schema_defs tenant_POST_defs)

lemma tenant_POST_not_json:
  "tenant_maintenance_POST e isUrl (Some user) None d =
     (json_error 500 ''Failed to create maintenance request'', d)"
  by (simp add: tenant_maintenance_POST_def)

text \<open>
  C9, as amended. A signed-in tenant without an \<open>ACTIVE\<close> lease gets no request
  created and no data: the handler answers 400 when the body is JSON, with the error
  \<open>No active lease found\<close> when the body is valid, and 500 with the error
  \<open>Failed to create maintenance request\<close> when the body is not JSON. When the body is
  valid and the tenant has an \<open>ACTIVE\<close> lease, the handler answers 201 and appends one
  request: it belongs to the tenant, is on the unit of an \<open>ACTIVE\<close> lease of the tenant,
  and has status \<open>SUBMITTED\<close>.
\<close>

theorem create_request_needs_active_lease:
  "(\<forall>user. session = Some user
        \<and> (\<forall>l \<in> set (leases d). \<not> (l_tenantId l = su_id user \<and> l_status l = ACTIVE)) \<longrightarrow>
      snd (tenant_maintenance_POST e isUrl session body d) = d
      \<and> data (fst (tenant_maintenance_POST e isUrl session body d)) = None
      \<and> (\<forall>b. body = Some b \<longrightarrow>
            status (fst (tenant_maintenance_POST e isUrl session body d)) = 400)
      \<and> (\<forall>b inp. body = Some b \<and> createMaintenanceRequestSchema isUrl b = Valid inp \<longrightarrow>
            error (fst (tenant_maintenance_POST e isUrl session body d)) =
              Some ''No active lease found'')
      \<and> (body = None \<longrightarrow>
            status (fst (tenant_maintenance_POST e isUrl session body d)) = 500
            \<and> error (fst (tenant_maintenance_POST e isUrl session body d)) =
                Some ''Failed to create maintenance request''))
   \<and> (\<forall>user b inp. session = Some user \<and> body = Some b
        \<and> createMaintenanceRequestSchema isUrl b = Valid inp
        \<and> (\<exists>l \<in> set (leases d). l_tenantId l = su_id user \<and> l_status l = ACTIVE) \<longrightarrow>
      (\<exists>l row. l \<in> set (leases d) \<and> l_tenantId l = su_id user \<and> l_status l = ACTIVE
        \<and> status (fst (tenant_maintenance_POST e isUrl session body d)) = 201
        \<and> data (fst (tenant_maintenance_POST e isUrl session body d)) = Some row
        \<and> maintenanceRequests (snd (tenant_maintenance_POST e isUrl session body d)) =
            maintenanceRequests d @ [row]
        \<and> mr_id row = newId e
        \<and> mr_unitId row = l_unitId l \<and> mr_status row = SUBMITTED
        \<and> mr_tenantId row = su_id user))"
proof (intro conjI allI impI)
  fix user
  assume a: "session = Some user
        \<and> (\<forall>l \<in> set (leases d). \<not> (l_tenantId l = su_id user \<and> l_status l = ACTIVE))"
  then have n: "findActiveLease (su_id user) d = None"
    by (simp add: findActiveLease_None)
  from a have s: "session = Some user" by simp
  have r: "snd (tenant_maintenance_POST e isUrl (Some user) (Some b) d) = d
      \<and> data (fst (tenant_maintenance_POST e isUrl (Some user) (Some b) d)) = None
      \<and> status (fst (tenant_maintenance_POST e isUrl (Some user) (Some b) d)) = 400" for b
    by (cases "createMaintenanceRequestSchema isUrl b")
      (simp_all add: tenant_POST_invalid tenant_POST_no_lease n json_error_def)
  show "snd (tenant_maintenance_POST e isUrl session body d) = d"
    unfolding s by (cases body) (simp_all add: tenant_POST_not_json r)
  show "data (fst (tenant_maintenance_POST e isUrl session body d)) = None"
    unfolding s by (cases body) (simp_all add: tenant_POST_not_json r json_error_def)
  {
    fix b
    assume "body = Some b"
    then show "status (fst (tenant_maintenance_POST e isUrl session body d)) = 400"
      unfolding s by (simp add: r)
  }
  {
    fix b inp
    assume "body = Some b \<and> createMaintenanceRequestSchema isUrl b = Valid inp"
    then show "error (fst (tenant_maintenance_POST e isUrl session body d)) =
        Some ''No active lease found''"
      unfolding s by (simp add: tenant_POST_no_lease n json_error_def)
  }
  {
    assume b: "body = None"
    show "status (fst (tenant_maintenance_POST e isUrl session body d)) = 500"
      unfolding s b by (simp add: tenant_POST_not_json json_error_def)
    show "error (fst (tenant_maintenance_POST e isUrl session body d)) =
        Some ''Failed to create maintenance request''"
      unfolding s b by (simp add: tenant_POST_not_json json_error_def)
  }
next
  fix user b inp
  assume a: "session = Some user \<and> body = Some b
        \<and> createMaintenanceRequestSchema isUrl b = Valid inp
        \<and> (\<exists>l \<in> set (leases d). l_tenantId l = su_id user \<and> l_status l = ACTIVE)"
  then have "findActiveLease (su_id user) d \<noteq> None"
    by (simp add: findActiveLease_None)
  then obtain l where l: "findActiveLease (su_id user) d = Some l" by auto
  from a have sb: "session = Some user" "body = Some b"
    and v: "createMaintenanceRequestSchema isUrl b = Valid inp" by simp_all
  from findActiveLease_Some [OF l]
  show "\<exists>l row. l \<in> set (leases d) \<and> l_tenantId l = su_id user \<and> l_status l = ACTIVE
        \<and> status (fst (tenant_maintenance_POST e isUrl session body d)) = 201
        \<and> data (fst (tenant_maintenance_POST e isUrl session body d)) = Some row
        \<and> maintenanceRequests (snd (tenant_maintenance_POST e isUrl session body d)) =
            maintenanceRequests d @ [row]
        \<and> mr_id row = newId e
        \<and> mr_unitId row = l_unitId l \<and> mr_status row = SUBMITTED
        \<and> mr_tenantId row = su_id user"
    unfolding sb tenant_POST_created [OF v l]
    by (intro exI [of _ l] exI [of _ "submittedRequest e (su_id user) l inp"])
      (simp add: json_data_def submittedRequest_def)
qed

text \<open>\<open>tenant-1\<close>, with the active \<open>lease-1\<close> on \<open>unit-1\<close>, gets the request created on
  \<open>unit-1\<close>; \<open>tenant-2\<close>, without a lease, gets 400 for a valid body and 500 for a body
  that is not JSON, and nothing is created.\<close>

theorem create_request_needs_active_lease_witness:
  "map_option (\<lambda>r. (mr_id r, mr_unitId r, mr_status r, mr_tenantId r))
     (data (fst (tenant_maintenance_POST \<lparr>now = 20, newId = ''req-2''\<rparr> anyUrl
        (Some tenant1) (Some bodyNoPriority) db0))) =
     Some (''req-2'', ''unit-1'', SUBMITTED, ''tenant-1'')
   \<and> status (fst (tenant_maintenance_POST \<lparr>now = 20, newId = ''req-2''\<rparr> anyUrl
        (Some tenant1) (Some bodyNoPriority) db0)) = 201
   \<and> tenant_maintenance_POST \<lparr>now = 20, newId = ''req-2''\<rparr> anyUrl
        (Some tenant2) (Some bodyNoPriority) db0 =
      (\<lparr>status = 400, success = False, error = Some ''No active lease found'', message = None,
        data = None\<rparr>, db0)
   \<and> status (fst (tenant_maintenance_POST \<lparr>now = 20, newId = ''req-2''\<rparr> anyUrl
        (Some tenant2) None db0)) = 500
   \<and> snd (tenant_maintenance_POST \<lparr>now = 20, newId = ''req-2''\<rparr> anyUrl
        (Some tenant2) None db0) = db0"
proof -
  let ?e = "\<lparr>now = 20, newId = ''req-2''\<rparr>"
  let ?inp = "\<lparr>ci_title = ''Leaking tap'', ci_description = ''The kitchen tap drips all night'',
      ci_category = PLUMBING, ci_priority = MEDIUM, ci_entryPermission = False,
      ci_preferredTimes = None, ci_photoUrls = []\<rparr>"
  have v: "createMaintenanceRequestSchema anyUrl bodyNoPriority = Valid ?inp"
    by (simp add: example_defs schema_defs)
  have l1: "\<exists>l \<in> set (leases db0). l_tenantId l = su_id tenant1 \<and> l_status l = ACTIVE"
    and l2: "\<forall>l \<in> set (leases db0). \<not> (l_tenantId l = su_id tenant2 \<and> l_status l = ACTIVE)"
    and ls: "leases db0 = [lease1]" "l_unitId lease1 = ''unit-1''"
      "su_id tenant1 = ''tenant-1''" "newId ?e = ''req-2''"
    by (simp_all add: example_defs)
  let ?R = "tenant_maintenance_POST ?e anyUrl (Some tenant1) (Some bodyNoPriority) db0"
  from create_request_needs_active_lease [of "Some tenant1" db0 ?e anyUrl "Some bodyNoPriority"]
    v l1
  have "\<exists>l row. l \<in> set (leases db0) \<and> l_tenantId l = su_id tenant1 \<and> l_status l = ACTIVE
        \<and> status (fst ?R) = 201 \<and> data (fst ?R) = Some row
        \<and> maintenanceRequests (snd ?R) = maintenanceRequests db0 @ [row]
        \<and> mr_id row = newId ?e
        \<and> mr_unitId row = l_unitId l \<and> mr_status row = SUBMITTED
        \<and> mr_tenantId row = su_id tenant1"
    by blast
  then obtain l row where h: "l \<in> set (leases db0)" "status (fst ?R) = 201"
    "data (fst ?R) = Some row" "mr_id row = newId ?e" "mr_unitId row = l_unitId l"
    "mr_status row = SUBMITTED" "mr_tenantId row = su_id tenant1"
    by (elim exE conjE) (rule that)
  from h(1) have "l = lease1" by (simp add: ls)
  with h have one:
    "map_option (\<lambda>r. (mr_id r, mr_unitId r, mr_status r, mr_tenantId r)) (data (fst ?R))
       = Some (''req-2'', ''unit-1'', SUBMITTED, ''tenant-1'')
     \<and> status (fst ?R) = 201"
    by (simp add: ls)
  let ?S = "tenant_maintenance_POST ?e anyUrl (Some tenant2) (Some bodyNoPriority) db0"
  from create_request_needs_active_lease [of "Some tenant2" db0 ?e anyUrl "Some bodyNoPriority"]
    v l2
  have "status (fst ?S) = 400 \<and> snd ?S = db0 \<and> data (fst ?S) = None
      \<and> error (fst ?S) = Some ''No active lease found''"
    by auto
  moreover have "success (fst ?S) = False \<and> message (fst ?S) = None"
    by (simp add: tenant_POST_no_lease [OF v] findActiveLease_None l2 json_error_def)
  ultimately have two: "?S = (\<lparr>status = 400, success = False,
        error = Some ''No active lease found'', message = None, data = None\<rparr>, db0)"
    by (cases ?S) auto
  let ?T = "tenant_maintenance_POST ?e anyUrl (Some tenant2) None db0"
  from create_request_needs_active_lease [of "Some tenant2" db0 ?e anyUrl None] l2
  have three: "status (fst ?T) = 500 \<and> snd ?T = db0"
    by auto
  from one two three show ?thesis by simp
qed

text \<open>
  C9 as stated fails for a body that is not JSON: \<open>tenant-2\<close> has no \<open>ACTIVE\<close> lease
  and is answered 500, not 400. Nothing is created.
\<close>

theorem no_lease_and_no_json_is_answered_500:
  "findActiveLease (su_id tenant2) db0 = None
   \<and> tenant_maintenance_POST \<lparr>now = 20, newId = ''req-2''\<rparr> anyUrl (Some tenant2) None db0 =
      (\<lparr>status = 500, success = False, error = Some ''Failed to create maintenance request'',
        message = None, data = None\<rparr>, db0)"
  by (simp add: example_defs tenant_POST_defs)

end
